(* ===== verification/Prelude.thy ===== *)
theory Prelude
  imports Main "HOL-Library.Word"
begin

text \<open>
  Shared vocabulary of the DocuAgent model.  The three services under \<^verbatim>\<open>src/Service\<close> are
  Python; this theory fixes how their values are represented and gives the Python
  built-ins they call (\<^verbatim>\<open>str.strip\<close>, \<^verbatim>\<open>str.splitlines\<close>, \<^verbatim>\<open>str.startswith\<close>, the
  \<^verbatim>\<open>in\<close> operator on strings, \<^verbatim>\<open>str(int)\<close>, \<^verbatim>\<open>os.path.join\<close>) as executable HOL
  functions, with the lemmas the component theories share.

  A Python \<^verbatim>\<open>str\<close> is a sequence of code points; the model uses \<^typ>\<open>string\<close>, whose
  characters are the 256 code points U+0000 to U+00FF (Latin-1).  Whitespace and
  line-break classes are those of Python for these code points.  Bytes are
  \<^typ>\<open>8 word\<close>.  JSON documents exchanged between the services are the datatype
  \<open>json\<close> below (floats are not modelled; an object is an association list whose
  keys are distinct, as \<^verbatim>\<open>json.loads\<close> produces them).
\<close>

named_theorems py_simps "characteristic equations of the modelled Python built-ins"

type_synonym byte = "8 word"
type_synonym bytes = "byte list"

section \<open>Characters and \<^verbatim>\<open>str.strip\<close>\<close>

text \<open>\<^verbatim>\<open>str.isspace\<close> on Latin-1: TAB, LF, VT, FF, CR, the separators 0x1C to 0x1F,
  SPACE, NEL (0x85) and NO-BREAK SPACE (0xA0).  The regular expression class
  \<^verbatim>\<open>\s\<close> of \<^verbatim>\<open>re\<close> on \<^verbatim>\<open>str\<close> patterns is the same set.\<close>

definition py_isspace :: "char \<Rightarrow> bool" where
  "py_isspace c \<longleftrightarrow> c \<in> {CHR 0x09, CHR 0x0A, CHR 0x0B, CHR 0x0C, CHR 0x0D,
     CHR 0x1C, CHR 0x1D, CHR 0x1E, CHR 0x1F, CHR 0x20, CHR 0x85, CHR 0xA0}"

definition py_lstrip :: "string \<Rightarrow> string" where
  "py_lstrip s = dropWhile py_isspace s"

definition py_rstrip :: "string \<Rightarrow> string" where
  "py_rstrip s = rev (dropWhile py_isspace (rev s))"

definition py_strip :: "string \<Rightarrow> string" where
  "py_strip s = py_rstrip (py_lstrip s)"

definition starts_with :: "string \<Rightarrow> string \<Rightarrow> bool" where
  "starts_with p s \<longleftrightarrow> take (length p) s = p"

text \<open>The \<^verbatim>\<open>in\<close> operator on strings (substring test).\<close>

fun py_contains :: "string \<Rightarrow> string \<Rightarrow> bool" where
  "py_contains n [] \<longleftrightarrow> n = []"
| "py_contains n (c # cs) \<longleftrightarrow> starts_with n (c # cs) \<or> py_contains n cs"

text \<open>\<^verbatim>\<open>str.replace(a, b)\<close> for one-character arguments.\<close>

definition py_replace_char :: "char \<Rightarrow> char \<Rightarrow> string \<Rightarrow> string" where
  "py_replace_char a b s = map (\<lambda>c. if c = a then b else c) s"

section \<open>\<^verbatim>\<open>str.splitlines\<close>\<close>

text \<open>Line boundaries of \<^verbatim>\<open>str.splitlines\<close> among the Latin-1 code points: LF, CR,
  VT, FF, 0x1C, 0x1D, 0x1E and NEL; CR LF counts as one boundary.  A trailing boundary
  does not start an empty last line, and the empty string has no lines.\<close>

definition is_line_break :: "char \<Rightarrow> bool" where
  "is_line_break c \<longleftrightarrow> c \<in> {CHR 0x0A, CHR 0x0D, CHR 0x0B, CHR 0x0C,
     CHR 0x1C, CHR 0x1D, CHR 0x1E, CHR 0x85}"

definition line_break_len :: "string \<Rightarrow> nat" where
  "line_break_len r = (if take 2 r = [CHR 0x0D, CHR 0x0A] then 2 else 1)"

function splitlines :: "string \<Rightarrow> string list" where
  "splitlines s = (if s = [] then [] else
     (let l = takeWhile (\<lambda>c. \<not> is_line_break c) s; r = drop (length l) s in
      if r = [] then [l] else l # splitlines (drop (line_break_len r) r)))"
  by pat_completeness auto
termination
  by (relation "measure length") (auto simp: line_break_len_def)

declare splitlines.simps [simp del]

section \<open>\<^verbatim>\<open>str(int)\<close> and \<^verbatim>\<open>os.path.join\<close>\<close>

definition digit_char :: "nat \<Rightarrow> char" where
  "digit_char d = char_of (48 + d)"

fun str_nat :: "nat \<Rightarrow> string" where
  "str_nat n = (if n < 10 then [digit_char n] else str_nat (n div 10) @ [digit_char (n mod 10)])"

declare str_nat.simps [simp del]

definition str_int :: "int \<Rightarrow> string" where
  "str_int i = (if i < 0 then CHR ''-'' # str_nat (nat (- i)) else str_nat (nat i))"

text \<open>Reading decimal digits back, used to show that \<^verbatim>\<open>str\<close> is injective on naturals.\<close>

definition nat_of_digits :: "string \<Rightarrow> nat" where
  "nat_of_digits s = foldl (\<lambda>acc c. 10 * acc + (of_char c - 48)) 0 s"

text \<open>\<^verbatim>\<open>posixpath.join(a, b)\<close>: an absolute second part replaces the first.\<close>

definition os_path_join :: "string \<Rightarrow> string \<Rightarrow> string" where
  "os_path_join a b =
     (if starts_with ''/'' b then b
      else if a = [] \<or> last a = CHR ''/'' then a @ b
      else a @ ''/'' @ b)"

section \<open>JSON values\<close>

datatype json = JNull | JBool bool | JInt int | JStr string
  | JList "json list" | JDict "(string \<times> json) list"

type_synonym json_obj = "(string \<times> json) list"

text \<open>\<^verbatim>\<open>d.get(k, default)\<close> on a parsed JSON object.\<close>

definition json_get :: "json_obj \<Rightarrow> string \<Rightarrow> json \<Rightarrow> json" where
  "json_get d k dflt = (case map_of d k of None \<Rightarrow> dflt | Some v \<Rightarrow> v)"

section \<open>Lemmas on the built-ins\<close>

lemma py_isspace_simps [py_simps]:
  "py_isspace (CHR '' '')" "py_isspace (CHR 0x0A)" "py_isspace (CHR 0x09)"
  "\<not> py_isspace (CHR ''-'')" "\<not> py_isspace (CHR ''*'')" "\<not> py_isspace (CHR '':'')"
  "\<not> py_isspace (CHR ''_'')" "\<not> py_isspace (CHR ''/'')"
  by (simp_all add: py_isspace_def)

lemma py_lstrip_append_nonspace [py_simps]:
  "list_all py_isspace ws \<Longrightarrow> py_lstrip (ws @ s) = py_lstrip s"
  by (induction ws) (simp_all add: py_lstrip_def)

lemma py_strip_set: "set (py_strip s) \<subseteq> set s"
proof
  fix x
  assume "x \<in> set (py_strip s)"
  then have "x \<in> set (rev (dropWhile py_isspace s))"
    by (auto simp: py_strip_def py_rstrip_def py_lstrip_def dest: set_dropWhileD)
  then show "x \<in> set s" by (auto dest: set_dropWhileD)
qed

lemma py_strip_no_space_id [py_simps]:
  "\<not> (\<exists>c \<in> set s. py_isspace c) \<Longrightarrow> py_strip s = s"
proof -
  assume "\<not> (\<exists>c \<in> set s. py_isspace c)"
  then have "dropWhile py_isspace s = s" and "dropWhile py_isspace (rev s) = rev s"
    by (auto simp: dropWhile_eq_self_iff neq_Nil_conv hd_rev)
  then show ?thesis by (simp add: py_strip_def py_rstrip_def py_lstrip_def)
qed

lemma starts_with_append [py_simps]: "starts_with p (p @ s)"
  by (simp add: starts_with_def)

lemma starts_with_iff: "starts_with p s \<longleftrightarrow> (\<exists>r. s = p @ r)"
  by (auto simp: starts_with_def) (metis append_take_drop_id)

lemma py_contains_iff: "py_contains n s \<longleftrightarrow> (\<exists>a b. s = a @ n @ b)"
proof (induction s)
  case Nil
  then show ?case by simp
next
  case (Cons c cs)
  show ?case
  proof
    assume "py_contains n (c # cs)"
    then consider "starts_with n (c # cs)" | "py_contains n cs" by auto
    then show "\<exists>a b. c # cs = a @ n @ b"
    proof cases
      case 1
      then obtain r where "c # cs = [] @ n @ r" by (auto simp: starts_with_iff)
      then show ?thesis by blast
    next
      case 2
      with Cons.IH obtain a b where "cs = a @ n @ b" by blast
      then have "c # cs = (c # a) @ n @ b" by simp
      then show ?thesis by blast
    qed
  next
    assume "\<exists>a b. c # cs = a @ n @ b"
    then obtain a b where ab: "c # cs = a @ n @ b" by blast
    show "py_contains n (c # cs)"
    proof (cases a)
      case Nil
      with ab have "c # cs = n @ b" by simp
      then show ?thesis by (metis py_contains.simps(2) starts_with_append)
    next
      case (Cons a' as)
      with ab Cons.IH show ?thesis by auto
    qed
  qed
qed

lemma py_replace_char_notin: "b \<noteq> a \<Longrightarrow> a \<notin> set (py_replace_char a b s)"
  by (auto simp: py_replace_char_def)

lemma splitlines_no_break: "l \<in> set (splitlines s) \<Longrightarrow> \<not> (\<exists>c \<in> set l. is_line_break c)"
proof (induction s rule: splitlines.induct)
  case (1 s)
  show ?case
  proof (cases "s = []")
    case True
    with "1.prems" show ?thesis by (simp add: splitlines.simps)
  next
    case False
    let ?l = "takeWhile (\<lambda>c. \<not> is_line_break c) s"
    let ?r = "drop (length ?l) s"
    have hd: "\<not> (\<exists>c \<in> set ?l. is_line_break c)"
      by (auto dest: set_takeWhileD)
    show ?thesis
    proof (cases "?r = []")
      case True
      with False "1.prems" hd show ?thesis by (simp add: splitlines.simps [of s] Let_def)
    next
      case r: False
      from "1.prems" False r have "l = ?l \<or> l \<in> set (splitlines (drop (line_break_len ?r) ?r))"
        by (simp add: splitlines.simps [of s] Let_def)
      with "1.IH" [OF False refl refl r] hd show ?thesis by blast
    qed
  qed
qed

lemma nat_of_digits_snoc:
  "nat_of_digits (xs @ [c]) = 10 * nat_of_digits xs + (of_char c - 48)"
  by (simp add: nat_of_digits_def)

lemma of_char_digit_char: "d < 10 \<Longrightarrow> of_char (digit_char d) = 48 + d"
  by (simp add: digit_char_def)

theorem nat_of_digits_str_nat [py_simps]: "nat_of_digits (str_nat n) = n"
proof (induction n rule: str_nat.induct)
  case (1 n)
  show ?case
  proof (cases "n < 10")
    case True
    then show ?thesis
      by (simp add: str_nat.simps [of n] nat_of_digits_def of_char_digit_char)
  next
    case False
    with "1.IH" have "nat_of_digits (str_nat (n div 10)) = n div 10" by simp
    with False show ?thesis
      by (simp add: str_nat.simps [of n] nat_of_digits_snoc of_char_digit_char)
  qed
qed

lemma str_nat_inj: "str_nat m = str_nat n \<longleftrightarrow> m = n"
  by (metis nat_of_digits_str_nat)

lemma str_nat_digits: "c \<in> set (str_nat n) \<Longrightarrow> \<exists>d < 10. c = digit_char d"
proof (induction n rule: str_nat.induct)
  case (1 n)
  show ?case
  proof (cases "n < 10")
    case True
    with "1.prems" show ?thesis by (auto simp: str_nat.simps [of n])
  next
    case False
    with "1.prems" have "c \<in> set (str_nat (n div 10)) \<or> c = digit_char (n mod 10)"
      by (auto simp: str_nat.simps [of n])
    moreover have "n mod 10 < (10::nat)" by simp
    ultimately show ?thesis using "1.IH" False by blast
  qed
qed

lemma digit_char_not_special:
  assumes "d < 10"
  shows "digit_char d \<noteq> CHR ''/'' \<and> digit_char d \<noteq> CHR ''_'' \<and> digit_char d \<noteq> CHR ''.''"
  using assms of_char_digit_char [OF assms] by (auto dest: arg_cong [where f = "of_char :: char \<Rightarrow> nat"])

lemma str_nat_no_slash [py_simps]: "CHR ''/'' \<notin> set (str_nat n)"
  using str_nat_digits digit_char_not_special by metis

lemma str_nat_nonempty: "str_nat n \<noteq> []"
  by (simp add: str_nat.simps [of n])

lemma os_path_join_relative [py_simps]:
  "\<not> starts_with ''/'' b \<Longrightarrow> a \<noteq> [] \<Longrightarrow> last a \<noteq> CHR ''/'' \<Longrightarrow>
   os_path_join a b = a @ ''/'' @ b"
  by (simp add: os_path_join_def)

lemma starts_with_slash_iff: "starts_with ''/'' s \<longleftrightarrow> s \<noteq> [] \<and> hd s = CHR ''/''"
  by (cases s) (auto simp: starts_with_def)

lemma os_path_join_split:
  "\<not> starts_with ''/'' n \<Longrightarrow> os_path_join d n = os_path_join d [] @ n"
  by (simp add: os_path_join_def starts_with_def)

lemma starts_with_length: "starts_with p s \<Longrightarrow> length p \<le> length s"
  by (auto simp: starts_with_iff)

lemma json_get_Cons_other: "k \<noteq> k' \<Longrightarrow> json_get ((k, v) # d) k' dflt = json_get d k' dflt"
  by (simp add: json_get_def)

end
