(* ===== verification/Encoder.thy ===== *)
theory Encoder
  imports Prelude
begin

text \<open>
  The Text-Encoder of the UML agent, \<^verbatim>\<open>plantuml_encode\<close> in \<^verbatim>\<open>src/Service/Uml.py\<close>
  (lines 43 to 54): the text is encoded as UTF-8, compressed by \<^verbatim>\<open>zlib.compress\<close>, the
  2-byte zlib header and 4-byte Adler-32 trailer are sliced off (\<^verbatim>\<open>[2:-4]\<close>), and the
  remaining raw deflate stream is written in groups of three bytes as four characters
  of a 64-character alphabet, computed with shifts and masks on the bytes.

  \<^verbatim>\<open>zlib.compress\<close> is a C library the source only calls: it is a parameter
  \<open>compress\<close> of every definition here, so each theorem holds for any compressor.
  The bitwise group routine is modelled on \<^typ>\<open>8 word\<close>; the lemmas show that none of
  its shifts loses a bit (each index equals the unbounded Python integer expression)
  and that it computes the base-64 digits of the 24-bit big-endian value of the group,
  a reference definition.  A decoder (the inverse the remote renderer applies, taken
  from the spec) gives the round trip, up to the zero padding of the last group.
\<close>

unbundle bit_operations_syntax

section \<open>The alphabet and one group\<close>

definition plantuml_alphabet :: string where
  "plantuml_alphabet = ''0123456789ABCDEFGHIJKLMNOPQRSTUVWXYZabcdefghijklmnopqrstuvwxyz-_''"

text \<open>\<^verbatim>\<open>alphabet[i]\<close>; every index the encoder forms is below 64 (lemma
  \<open>encode_group_indices\<close>), so the Python indexing never raises.\<close>

definition enc6 :: "byte \<Rightarrow> char" where
  "enc6 x = plantuml_alphabet ! unat x"

definition encode_group :: "byte \<Rightarrow> byte \<Rightarrow> byte \<Rightarrow> string" where
  "encode_group b1 b2 b3 =
     [enc6 (drop_bit 2 b1),
      enc6 (push_bit 4 (b1 AND 0x3) OR drop_bit 4 b2),
      enc6 (push_bit 2 (b2 AND 0xF) OR drop_bit 6 b3),
      enc6 (b3 AND 0x3F)]"

text \<open>The loop \<^verbatim>\<open>for i in range(0, len(data), 3)\<close> with
  \<^verbatim>\<open>data[i:i+3].ljust(3, b'\x00')\<close>: a short last group is padded with zero bytes.\<close>

fun encode_chunks :: "bytes \<Rightarrow> string" where
  "encode_chunks [] = []"
| "encode_chunks [b1] = encode_group b1 0 0"
| "encode_chunks [b1, b2] = encode_group b1 b2 0"
| "encode_chunks (b1 # b2 # b3 # rest) = encode_group b1 b2 b3 @ encode_chunks rest"

section \<open>UTF-8, the zlib frame and the whole encoder\<close>

text \<open>\<^verbatim>\<open>text.encode("utf-8\<close>\<^verbatim>\<open>")\<close> on Latin-1 code points: one byte below 128, two
  bytes (lead byte 0xC2 or 0xC3) above.\<close>

definition utf8_encode_char :: "char \<Rightarrow> bytes" where
  "utf8_encode_char c =
     (let n = of_char c in
      if n < 128 then [of_nat n] else [of_nat (192 + n div 64), of_nat (128 + n mod 64)])"

definition utf8_encode :: "string \<Rightarrow> bytes" where
  "utf8_encode s = concat (map utf8_encode_char s)"

text \<open>The slice \<^verbatim>\<open>[2:-4]\<close> of Python: empty when the input has fewer than 7 bytes.\<close>

definition zlib_slice :: "bytes \<Rightarrow> bytes" where
  "zlib_slice d = drop 2 (take (length d - 4) d)"

definition plantuml_encode :: "(bytes \<Rightarrow> bytes) \<Rightarrow> string \<Rightarrow> string" where
  "plantuml_encode compress text = encode_chunks (zlib_slice (compress (utf8_encode text)))"

section \<open>Reference: base-64 digits of the group value, and the decoder\<close>

definition group_value :: "byte \<Rightarrow> byte \<Rightarrow> byte \<Rightarrow> nat" where
  "group_value b1 b2 b3 = unat b1 * 65536 + unat b2 * 256 + unat b3"

definition base64_digits :: "nat \<Rightarrow> nat list" where
  "base64_digits n = [n div 262144 mod 64, n div 4096 mod 64, n div 64 mod 64, n mod 64]"

definition encode_group_ref :: "byte \<Rightarrow> byte \<Rightarrow> byte \<Rightarrow> string" where
  "encode_group_ref b1 b2 b3 = map ((!) plantuml_alphabet) (base64_digits (group_value b1 b2 b3))"

definition pad3 :: "bytes \<Rightarrow> bytes" where
  "pad3 d = d @ replicate ((3 - length d mod 3) mod 3) 0"

fun triples :: "bytes \<Rightarrow> (byte \<times> byte \<times> byte) list" where
  "triples (b1 # b2 # b3 # rest) = (b1, b2, b3) # triples rest"
| "triples _ = []"

definition encode_ref :: "bytes \<Rightarrow> string" where
  "encode_ref d = concat (map (\<lambda>(b1, b2, b3). encode_group_ref b1 b2 b3) (triples (pad3 d)))"

fun pos_of :: "char \<Rightarrow> string \<Rightarrow> nat option" where
  "pos_of c [] = None"
| "pos_of c (x # xs) = (if x = c then Some 0 else map_option Suc (pos_of c xs))"

definition dec6 :: "char \<Rightarrow> nat option" where
  "dec6 c = pos_of c plantuml_alphabet"

definition decode_group :: "nat \<Rightarrow> nat \<Rightarrow> nat \<Rightarrow> nat \<Rightarrow> bytes" where
  "decode_group v1 v2 v3 v4 =
     (let n = v1 * 262144 + v2 * 4096 + v3 * 64 + v4 in
      [of_nat (n div 65536), of_nat (n div 256 mod 256), of_nat (n mod 256)])"

fun decode_chunks :: "string \<Rightarrow> bytes option" where
  "decode_chunks [] = Some []"
| "decode_chunks (c1 # c2 # c3 # c4 # rest) =
     (case (dec6 c1, dec6 c2, dec6 c3, dec6 c4) of
        (Some v1, Some v2, Some v3, Some v4) \<Rightarrow>
          map_option ((@) (decode_group v1 v2 v3 v4)) (decode_chunks rest)
      | _ \<Rightarrow> None)"
| "decode_chunks _ = None"

fun utf8_decode :: "bytes \<Rightarrow> string option" where
  "utf8_decode [] = Some []"
| "utf8_decode (b # rest) =
     (if unat b < 128 then map_option ((#) (char_of (unat b))) (utf8_decode rest)
      else if unat b \<in> {0xC2, 0xC3} then
        (case rest of
           b' # rest' \<Rightarrow>
             if unat b' div 64 = 2
             then map_option ((#) (char_of ((unat b - 192) * 64 + (unat b' - 128)))) (utf8_decode rest')
             else None
         | [] \<Rightarrow> None)
      else None)"

section \<open>Word facts: the shifts lose no bits\<close>

lemma unat_or_disjoint:
  fixes x y :: byte
  assumes "x AND y = 0" and "unat x + unat y < 256"
  shows "unat (x OR y) = unat x + unat y"
proof -
  have "x OR y = x + y" using disjunctive_add_eq_or [OF assms(1)] by simp
  then show ?thesis using assms(2) by (simp add: unat_word_ariths)
qed

lemma unat_and_mask_byte: "unat ((b::byte) AND mask n) = unat b mod 2 ^ n"
  unfolding take_bit_eq_mask [symmetric] unsigned_take_bit_eq by (simp add: take_bit_eq_mod)

lemma unat_drop_bit_byte: "unat (drop_bit n (b::byte)) = unat b div 2 ^ n"
  unfolding unat_drop_bit_eq by (simp add: drop_bit_eq_div)

lemma unat_push_bit_byte: "unat (push_bit n (b::byte)) = unat b * 2 ^ n mod 256"
  unfolding unsigned_push_bit_eq by (simp add: push_bit_eq_mult take_bit_eq_mod)

lemma unat_byte_less: "unat (b::byte) < 256"
  using unsigned_less [of b] by simp

lemma idx1_unat: "unat (drop_bit 2 (b1::byte)) = unat b1 div 4"
  using unat_drop_bit_byte [of 2 b1] by simp

lemma idx2_unat:
  "unat (push_bit 4 ((b1::byte) AND 0x3) OR drop_bit 4 b2) = unat b1 mod 4 * 16 + unat b2 div 16"
proof -
  have m: "(0x3::byte) = mask 2" by (simp add: mask_numeral)
  have d: "push_bit 4 (b1 AND 0x3) AND drop_bit 4 b2 = 0"
    by (rule bit_eqI) (auto simp: bit_simps dest: bit_imp_le_length)
  have a: "unat (push_bit 4 (b1 AND 0x3)) = unat b1 mod 4 * 16"
    using unat_push_bit_byte [of 4 "b1 AND 0x3"] unat_and_mask_byte [of b1 2] m by simp
  have b: "unat (drop_bit 4 b2) = unat b2 div 16"
    using unat_drop_bit_byte [of 4 b2] by simp
  have "unat b1 mod 4 * 16 + unat b2 div 16 < 256"
    using unat_byte_less [of b2] by linarith
  then show ?thesis using unat_or_disjoint [OF d] a b by simp
qed

lemma idx3_unat:
  "unat (push_bit 2 ((b2::byte) AND 0xF) OR drop_bit 6 b3) = unat b2 mod 16 * 4 + unat b3 div 64"
proof -
  have m: "(0xF::byte) = mask 4" by (simp add: mask_numeral)
  have d: "push_bit 2 (b2 AND 0xF) AND drop_bit 6 b3 = 0"
    by (rule bit_eqI) (auto simp: bit_simps dest: bit_imp_le_length)
  have a: "unat (push_bit 2 (b2 AND 0xF)) = unat b2 mod 16 * 4"
    using unat_push_bit_byte [of 2 "b2 AND 0xF"] unat_and_mask_byte [of b2 4] m by simp
  have b: "unat (drop_bit 6 b3) = unat b3 div 64"
    using unat_drop_bit_byte [of 6 b3] by simp
  have "unat b2 mod 16 * 4 + unat b3 div 64 < 256"
    using unat_byte_less [of b3] by linarith
  then show ?thesis using unat_or_disjoint [OF d] a b by simp
qed

lemma idx4_unat: "unat ((b3::byte) AND 0x3F) = unat b3 mod 64"
proof -
  have "(0x3F::byte) = mask 6" by (simp add: mask_numeral)
  then show ?thesis using unat_and_mask_byte [of b3 6] by simp
qed

lemmas encode_index_unat = idx1_unat idx2_unat idx3_unat idx4_unat

section \<open>The encoder's output: alphabet, length, reference\<close>

lemma plantuml_alphabet_length: "length plantuml_alphabet = 64"
  by (simp add: plantuml_alphabet_def)

lemma encode_group_indices:
  "unat (drop_bit 2 (b1::byte)) < 64 \<and> unat (push_bit 4 (b1 AND 0x3) OR drop_bit 4 b2) < 64 \<and>
   unat (push_bit 2 (b2 AND 0xF) OR drop_bit 6 (b3::byte)) < 64 \<and> unat (b3 AND 0x3F) < 64"
  unfolding encode_index_unat
  using unat_byte_less [of b1] unat_byte_less [of b2] unat_byte_less [of b3] by linarith

lemma enc6_in_alphabet: "unat x < 64 \<Longrightarrow> enc6 x \<in> set plantuml_alphabet"
  by (simp add: enc6_def plantuml_alphabet_length)

lemma encode_group_alphabet: "set (encode_group b1 b2 b3) \<subseteq> set plantuml_alphabet"
  using encode_group_indices [of b1 b2 b3] by (simp add: encode_group_def enc6_in_alphabet)

lemma encode_chunks_alphabet: "set (encode_chunks d) \<subseteq> set plantuml_alphabet"
  by (induction d rule: encode_chunks.induct) (auto dest: encode_group_alphabet [THEN subsetD])

lemma encode_chunks_length: "length (encode_chunks d) = 4 * ((length d + 2) div 3)"
proof (induction d rule: encode_chunks.induct)
  case (4 b1 b2 b3 rest)
  have "(5 + length rest) div 3 = Suc ((length rest + 2) div 3)" by simp
  with "4.IH" show ?case by (simp add: encode_group_def)
qed (simp_all add: encode_group_def)

lemma mod64_shift16: fixes x w :: nat assumes "w < 16" shows "(x * 16 + w) mod 64 = x mod 4 * 16 + w"
proof -
  obtain q where "x = q * 4 + x mod 4" by (metis div_mult_mod_eq)
  then have "x * 16 + w = (x mod 4 * 16 + w) + q * 64" by simp
  then have "(x * 16 + w) mod 64 = (x mod 4 * 16 + w) mod 64" by (simp only: mod_mult_self1)
  also have "\<dots> = x mod 4 * 16 + w" using assms by simp
  finally show ?thesis .
qed

lemma mod64_shift4: fixes x y w :: nat assumes "w < 4" shows "(x * 1024 + y * 4 + w) mod 64 = y mod 16 * 4 + w"
proof -
  obtain q where "y = q * 16 + y mod 16" by (metis div_mult_mod_eq)
  then have "x * 1024 + y * 4 + w = (y mod 16 * 4 + w) + (x * 16 + q) * 64" by simp
  then have "(x * 1024 + y * 4 + w) mod 64 = (y mod 16 * 4 + w) mod 64" by (simp only: mod_mult_self1)
  also have "\<dots> = y mod 16 * 4 + w" using assms by simp
  finally show ?thesis .
qed

lemma mod64_low: fixes x y z :: nat shows "(x * 65536 + y * 256 + z) mod 64 = z mod 64"
proof -
  have "x * 65536 + y * 256 + z = z + (x * 1024 + y * 4) * 64" by simp
  then show ?thesis by (simp only: mod_mult_self1)
qed

lemma group_value_digits:
  fixes x y z :: nat
  assumes "x < 256" "y < 256" "z < 256"
  shows "base64_digits (x * 65536 + y * 256 + z) =
         [x div 4, x mod 4 * 16 + y div 16, y mod 16 * 4 + z div 64, z mod 64]"
proof -
  let ?n = "x * 65536 + y * 256 + z"
  have "?n div 65536 = x" using assms by simp
  then have a: "?n div 262144 mod 64 = x div 4" using assms by (simp add: div_mult2_eq [of ?n 65536 4, simplified])
  have "?n div 4096 = x * 16 + y div 16" using assms by simp
  moreover have "y div 16 < 16" using assms by simp
  ultimately have b: "?n div 4096 mod 64 = x mod 4 * 16 + y div 16" by (simp add: mod64_shift16)
  have "?n div 64 = x * 1024 + y * 4 + z div 64" using assms by simp
  moreover have "z div 64 < 4" using assms by simp
  ultimately have c: "?n div 64 mod 64 = y mod 16 * 4 + z div 64" by (simp add: mod64_shift4)
  show ?thesis using a b c mod64_low [of x y z] by (simp add: base64_digits_def)
qed

lemma encode_group_eq_ref: "encode_group b1 b2 b3 = encode_group_ref b1 b2 b3"
  unfolding encode_group_def encode_group_ref_def group_value_def enc6_def encode_index_unat
  using group_value_digits [OF unat_byte_less unat_byte_less unat_byte_less, of b1 b2 b3] by simp

lemma pad3_Cons3: "pad3 (b1 # b2 # b3 # rest) = b1 # b2 # b3 # pad3 rest"
  by (simp add: pad3_def)

lemma pad3_short: "pad3 [] = []" "pad3 [b1] = [b1, 0, 0]" "pad3 [b1, b2] = [b1, b2, 0]"
  by (simp_all add: pad3_def numeral_2_eq_2)

lemma encode_chunks_eq_ref: "encode_chunks d = encode_ref d"
  by (induction d rule: encode_chunks.induct)
     (simp_all add: encode_ref_def pad3_short pad3_Cons3 encode_group_eq_ref)


section \<open>Round trips\<close>

lemma dec6_table: "list_all (\<lambda>k. dec6 (plantuml_alphabet ! k) = Some k) [0..<64]"
  by code_simp

lemma dec6_nth: "k < 64 \<Longrightarrow> dec6 (plantuml_alphabet ! k) = Some k"
  using dec6_table by (simp add: list_all_iff)

lemma div_mod_recombine: "(a::nat) div k * (k * m) + a mod k * m = a * m"
proof -
  have "(a div k * k + a mod k) * m = a * m" by simp
  then show ?thesis by (simp only: add_mult_distrib mult.assoc)
qed

lemma decode_group_digits:
  fixes b1 b2 b3 :: byte
  defines "x \<equiv> unat b1" and "y \<equiv> unat b2" and "z \<equiv> unat b3"
  shows "decode_group (x div 4) (x mod 4 * 16 + y div 16) (y mod 16 * 4 + z div 64) (z mod 64) = [b1, b2, b3]"
proof -
  have "x div 4 * 262144 + (x mod 4 * 16 + y div 16) * 4096 + (y mod 16 * 4 + z div 64) * 64 + z mod 64
        = (x div 4 * (4 * 65536) + x mod 4 * 65536) + (y div 16 * (16 * 256) + y mod 16 * 256)
          + (z div 64 * (64 * 1) + z mod 64 * 1)"
    by (simp add: algebra_simps)
  also have "\<dots> = x * 65536 + y * 256 + z"
    by (simp only: div_mod_recombine)
  finally have n: "x div 4 * 262144 + (x mod 4 * 16 + y div 16) * 4096 + (y mod 16 * 4 + z div 64) * 64 + z mod 64
        = x * 65536 + y * 256 + z" .
  have y: "y < 256" and z: "z < 256" by (simp_all add: y_def z_def unat_byte_less)
  have "(x * 65536 + y * 256 + z) div 65536 = x" using y z by simp
  moreover have "(x * 65536 + y * 256 + z) div 256 mod 256 = y"
  proof -
    have "(x * 65536 + y * 256 + z) div 256 = y + x * 256" using z by simp
    then show ?thesis using y by simp
  qed
  moreover have "(x * 65536 + y * 256 + z) mod 256 = z"
  proof -
    have "x * 65536 + y * 256 + z = z + (x * 256 + y) * 256" by simp
    then show ?thesis using z by (simp only: mod_mult_self1) simp
  qed
  ultimately show ?thesis
    unfolding decode_group_def Let_def n by (simp add: x_def y_def z_def)
qed

lemma decode_encode_group: "decode_chunks (encode_group_ref b1 b2 b3 @ rest) =
    map_option ((@) [b1, b2, b3]) (decode_chunks rest)"
proof -
  let ?x = "unat b1" and ?y = "unat b2" and ?z = "unat b3"
  have "base64_digits (group_value b1 b2 b3) =
        [?x div 4, ?x mod 4 * 16 + ?y div 16, ?y mod 16 * 4 + ?z div 64, ?z mod 64]"
    unfolding group_value_def by (rule group_value_digits) (simp_all add: unat_byte_less)
  moreover have "?x div 4 < 64" "?x mod 4 * 16 + ?y div 16 < 64" "?y mod 16 * 4 + ?z div 64 < 64" "?z mod 64 < 64"
    using unat_byte_less [of b1] unat_byte_less [of b2] unat_byte_less [of b3] by linarith+
  ultimately show ?thesis
    by (simp add: encode_group_ref_def dec6_nth decode_group_digits)
qed

lemma triples_concat: "length xs mod 3 = 0 \<Longrightarrow> concat (map (\<lambda>(a, b, c). [a, b, c]) (triples xs)) = xs"
  by (induction xs rule: triples.induct) auto

lemma pad3_length_mod: "length (pad3 d) mod 3 = 0"
proof -
  obtain q r where n: "length d = 3 * q + r" and r: "r < 3"
    by (metis div_mult_mod_eq mod_less_divisor mult.commute zero_less_numeral)
  from r have "r = 0 \<or> r = 1 \<or> r = 2" by auto
  then have "(3 * q + r + (3 - (3 * q + r) mod 3) mod 3) mod 3 = 0" by auto
  then show ?thesis by (simp add: pad3_def n)
qed

lemma decode_concat_groups:
  "decode_chunks (concat (map (\<lambda>(b1, b2, b3). encode_group_ref b1 b2 b3) ts)) =
   Some (concat (map (\<lambda>(a, b, c). [a, b, c]) ts))"
proof (induction ts)
  case Nil
  then show ?case by simp
next
  case (Cons t ts)
  obtain a b c where t: "t = (a, b, c)" by (cases t) auto
  show ?case using Cons.IH by (simp add: t decode_encode_group del: decode_chunks.simps)
qed

lemma decode_encode_chunks: "decode_chunks (encode_chunks d) = Some (pad3 d)"
  unfolding encode_chunks_eq_ref encode_ref_def decode_concat_groups
  using triples_concat [OF pad3_length_mod] by simp

lemma unat_of_nat_byte: "n < 256 \<Longrightarrow> unat (of_nat n :: byte) = n"
  by (simp add: unat_of_nat)

lemma utf8_decode_two:
  assumes "unat b1 \<in> {0xC2, 0xC3}" and "unat b2 div 64 = 2"
  shows "utf8_decode (b1 # b2 # rest) =
         map_option ((#) (char_of ((unat b1 - 192) * 64 + (unat b2 - 128)))) (utf8_decode rest)"
  using assms by auto

text \<open>The UTF-8 encoding of a Latin-1 text decodes back to the text, so distinct texts reach the compressor as distinct byte strings.\<close>

theorem utf8_decode_encode: "utf8_decode (utf8_encode s) = Some s"
proof (induction s)
  case Nil
  then show ?case by (simp add: utf8_encode_def)
next
  case (Cons c s)
  let ?n = "of_char c :: nat"
  have lt: "?n < 256" by (rule nat_of_char_less_256)
  show ?case
  proof (cases "?n < 128")
    case True
    with Cons.IH lt show ?thesis
      by (simp add: utf8_encode_def utf8_encode_char_def unat_of_nat_byte)
  next
    case False
    define b1 :: byte where "b1 = of_nat (192 + ?n div 64)"
    define b2 :: byte where "b2 = of_nat (128 + ?n mod 64)"
    have enc: "utf8_encode_char c = [b1, b2]"
      using False by (simp add: utf8_encode_char_def Let_def b1_def b2_def)
    have "192 + ?n div 64 < 256" using lt by linarith
    then have u1: "unat b1 = 192 + ?n div 64" unfolding b1_def by (rule unat_of_nat_byte)
    have "128 + ?n mod 64 < 256" by simp
    then have u2: "unat b2 = 128 + ?n mod 64" unfolding b2_def by (rule unat_of_nat_byte)
    have "?n div 64 = 2 \<or> ?n div 64 = 3" using False lt by linarith
    then have lead: "unat b1 \<in> {0xC2, 0xC3}" using u1 by auto
    have cont: "unat b2 div 64 = 2" using u2 by simp
    have val: "(unat b1 - 192) * 64 + (unat b2 - 128) = ?n" using u1 u2 by simp
    have "utf8_decode (utf8_encode (c # s)) = utf8_decode (b1 # b2 # utf8_encode s)"
      by (simp add: utf8_encode_def enc)
    also have "\<dots> = map_option ((#) c) (utf8_decode (utf8_encode s))"
      using utf8_decode_two [OF lead cont] val by simp
    finally show ?thesis using Cons.IH by simp
  qed
qed

section \<open>Properties of the whole encoder\<close>

text \<open>The slice \<^verbatim>\<open>[2:-4]\<close> of a zlib frame (2-byte header, raw deflate stream, 4-byte checksum) is exactly the raw deflate stream.\<close>

theorem zlib_slice_frame:
  assumes "length hdr = 2" and "length adler = 4"
  shows "zlib_slice (hdr @ raw @ adler) = raw"
  using assms by (simp add: zlib_slice_def)

theorem zlib_slice_frame_witness:
  "length [0x78, 0x9C :: byte] = 2 \<and> length [0, 0, 0, 1 :: byte] = 4 \<and>
   zlib_slice ([0x78, 0x9C] @ [0x4B, 0x4C, 0x4A] @ [0, 0, 0, 1]) = [0x4B, 0x4C, 0x4A]"
  using zlib_slice_frame [of "[0x78, 0x9C]" "[0, 0, 0, 1]" "[0x4B, 0x4C, 0x4A]"] by simp

text \<open>C3. For every compressor and every text, every character \<^verbatim>\<open>plantuml_encode\<close> outputs is one of the 64 characters of its alphabet (\<^verbatim>\<open>0-9A-Za-z-_\<close>), so the index into the alphabet never leaves it.\<close>

theorem plantuml_encode_alphabet: "set (plantuml_encode compress text) \<subseteq> set plantuml_alphabet"
  by (simp add: plantuml_encode_def encode_chunks_alphabet)

text \<open>C35. The encoder writes four characters for every started group of three bytes of the sliced deflate stream.\<close>

theorem plantuml_encode_length:
  "length (plantuml_encode compress text) =
   4 * ((length (zlib_slice (compress (utf8_encode text))) + 2) div 3)"
  by (simp add: plantuml_encode_def encode_chunks_length)

text \<open>C4. The shift-and-mask routine computes, for every group of three bytes (the last one padded with zero bytes), the four base-64 digits of the group read as a 24-bit big-endian number, indexed into the alphabet.\<close>

theorem plantuml_encode_eq_ref:
  "plantuml_encode compress text = encode_ref (zlib_slice (compress (utf8_encode text)))"
  by (simp add: plantuml_encode_def encode_chunks_eq_ref)

text \<open>C5. Decoding the encoder output four characters at a time recovers the sliced deflate stream, padded with zero bytes to a multiple of three.\<close>

theorem plantuml_encode_decode:
  "decode_chunks (plantuml_encode compress text) = Some (pad3 (zlib_slice (compress (utf8_encode text))))"
  by (simp add: plantuml_encode_def decode_encode_chunks)

text \<open>The four characters of a short last group do not say how many of its bytes were
  real: a stream and the same stream with one zero byte appended encode alike.\<close>

text \<open>The encoding of a stream does not determine its length: a one-byte stream and the same byte followed by a zero byte give the same four characters.\<close>

theorem encode_chunks_not_injective: "encode_chunks [0x41] = encode_chunks [0x41, 0]"
  by (simp only: encode_chunks.simps)

end
