(* ===== verification/Planner.thy ===== *)
theory Planner
  imports Prelude
begin

text \<open>
  The Diagram Planner, phase 1 of \<^verbatim>\<open>generate_uml_image\<close> in \<^verbatim>\<open>src/Service/Uml.py\<close>
  (lines 67 to 88) and the file-name sanitiser of phase 2 (line 95).  The language
  model's reply is stripped, split with \<^verbatim>\<open>str.splitlines\<close>, and every line is matched
  with \<^verbatim>\<open>re.match(r"[-*]\s*(.+?):\s*(.+)$", line)\<close>; a line that matches gives the pair
  of its two groups, stripped, and every other line is dropped.

  The regular expression is modelled by the order in which Python's backtracking
  matcher tries its alternatives: the greedy \<^verbatim>\<open>\s*\<close> first takes all the whitespace after
  the bullet and gives it back one character at a time; for each choice the lazy
  \<^verbatim>\<open>(.+?)\<close> grows until the next character is a colon with at least one character
  after it (the second group \<^verbatim>\<open>(.+)$\<close> needs one).  The lemmas show that this
  procedure accepts exactly the lines of the regular language
  \<open>bullet \<cdot> any\<^sup>+ \<cdot> ':' \<cdot> any\<^sup>+\<close> (for lines without LF, which
  \<^verbatim>\<open>str.splitlines\<close> guarantees), and that the groups it returns decompose the line.
\<close>

section \<open>The regular expression\<close>

definition is_bullet :: "char \<Rightarrow> bool" where
  "is_bullet c \<longleftrightarrow> c = CHR ''-'' \<or> c = CHR ''*''"

definition ws_len :: "string \<Rightarrow> nat" where
  "ws_len s = length (takeWhile py_isspace s)"

text \<open>The lazy group \<^verbatim>\<open>(.+?)\<close> started at position \<open>k\<close> of \<open>r\<close> stops at the first
  colon at a position \<open>p > k\<close> that has a character after it.\<close>

definition first_colon :: "nat \<Rightarrow> string \<Rightarrow> nat option" where
  "first_colon k r = find (\<lambda>p. r ! p = CHR '':'') [Suc k..<length r - 1]"

text \<open>\<open>try_ws k r\<close>: the greedy \<^verbatim>\<open>\s*\<close> has taken \<open>k\<close> characters of \<open>r\<close>; on failure
  it gives one back.  The result is the first group and the text after its colon.\<close>

fun try_ws :: "nat \<Rightarrow> string \<Rightarrow> (string \<times> string) option" where
  "try_ws k r =
     (case first_colon k r of
        Some p \<Rightarrow> Some (take (p - k) (drop k r), drop (Suc p) r)
      | None \<Rightarrow> (case k of 0 \<Rightarrow> None | Suc k' \<Rightarrow> try_ws k' r))"

declare try_ws.simps [simp del]

text \<open>The second group \<^verbatim>\<open>\s*(.+)$\<close> on the non-empty text after the colon: the greedy
  \<^verbatim>\<open>\s*\<close> keeps one character back when the text is all whitespace.\<close>

definition regex_group2 :: "string \<Rightarrow> string" where
  "regex_group2 v = (let m = ws_len v in if m < length v then drop m v else drop (m - 1) v)"

definition match_spec_line :: "string \<Rightarrow> (string \<times> string) option" where
  "match_spec_line l =
     (case l of
        [] \<Rightarrow> None
      | c # r \<Rightarrow>
          if is_bullet c
          then map_option (\<lambda>(g1, v). (g1, regex_group2 v)) (try_ws (ws_len r) r)
          else None)"

section \<open>The planner loop and the sanitiser\<close>

text \<open>\<^verbatim>\<open>for line in list_text.splitlines(): m = re.match(...); if m:
  specs.append((m.group(1).strip(), m.group(2).strip()))\<close>\<close>

fun collect_specs :: "string list \<Rightarrow> (string \<times> string) list" where
  "collect_specs [] = []"
| "collect_specs (line # lines) =
     (case match_spec_line line of
        Some (g1, g2) \<Rightarrow> (py_strip g1, py_strip g2) # collect_specs lines
      | None \<Rightarrow> collect_specs lines)"

definition parse_specs :: "string \<Rightarrow> (string \<times> string) list" where
  "parse_specs list_text = collect_specs (splitlines list_text)"

text \<open>The prompt of phase 1 (lines 68 to 73).\<close>

definition prompt_list :: "string \<Rightarrow> string" where
  "prompt_list abstract =
     ''You are a UML expert. From this description, list ALL useful UML ''
     @ ''diagram types and a one-line description each, in format:'' @ [CHR 0x0A]
     @ ''- Type: desc'' @ [CHR 0x0A, CHR 0x0A]
     @ ''System description:'' @ [CHR 0x0A] @ abstract"

text \<open>\<^verbatim>\<open>re.sub(r"[^0-9A-Za-z _-]", "", dtype).strip().replace(" ", "_")\<close>.\<close>

definition name_char :: "char \<Rightarrow> bool" where
  "name_char c \<longleftrightarrow>
     (let n = (of_char c :: nat) in (48 \<le> n \<and> n \<le> 57) \<or> (65 \<le> n \<and> n \<le> 90) \<or> (97 \<le> n \<and> n \<le> 122))
     \<or> c = CHR '' '' \<or> c = CHR ''_'' \<or> c = CHR ''-''"

definition dtype_clean :: "string \<Rightarrow> string" where
  "dtype_clean dtype = py_replace_char (CHR '' '') (CHR ''_'') (py_strip (filter name_char dtype))"

section \<open>The language of the pattern\<close>

definition bullet_line :: "string \<Rightarrow> bool" where
  "bullet_line l \<longleftrightarrow> (\<exists>c u v. is_bullet c \<and> u \<noteq> [] \<and> v \<noteq> [] \<and> l = c # u @ CHR '':'' # v)"

section \<open>The matcher accepts exactly the bulleted lines\<close>

lemma first_colon_Some:
  "first_colon k r = Some p \<Longrightarrow> Suc k \<le> p \<and> Suc p < length r \<and> r ! p = CHR '':''"
  by (auto simp: first_colon_def find_Some_iff)

lemma first_colon_None:
  "first_colon k r = None \<Longrightarrow> Suc k \<le> p \<Longrightarrow> Suc p < length r \<Longrightarrow> r ! p \<noteq> CHR '':''"
  by (auto simp: first_colon_def find_None_iff)

lemma try_ws_Some:
  "try_ws k r = Some (g1, v) \<Longrightarrow>
   \<exists>j \<le> k. r = take j r @ g1 @ CHR '':'' # v \<and> g1 \<noteq> [] \<and> v \<noteq> []"
proof (induction k r rule: try_ws.induct)
  case (1 k r)
  show ?case
  proof (cases "first_colon k r")
    case (Some p)
    with "1.prems" have g: "g1 = take (p - k) (drop k r)" and v: "v = drop (Suc p) r"
      by (simp_all add: try_ws.simps [of k r])
    from first_colon_Some [OF Some] have p: "Suc k \<le> p" "Suc p < length r" "r ! p = CHR '':''"
      by simp_all
    have "r = take k r @ take (p - k) (drop k r) @ r ! p # drop (Suc p) r"
    proof -
      have "r = take p r @ r ! p # drop (Suc p) r" using p(2) by (simp add: id_take_nth_drop)
      moreover have "take p r = take k r @ take (p - k) (drop k r)"
        using p(1) by (metis le_add_diff_inverse Suc_leD take_add)
      ultimately show ?thesis by simp
    qed
    with g v p show ?thesis by auto
  next
    case None
    show ?thesis
    proof (cases k)
      case 0
      with None "1.prems" show ?thesis by (simp add: try_ws.simps [of 0 r])
    next
      case (Suc k')
      with None "1.prems" have "try_ws k' r = Some (g1, v)" by (simp add: try_ws.simps [of "Suc k'" r])
      with "1.IH" [OF None Suc] Suc show ?thesis by (meson le_SucI)
    qed
  qed
qed

lemma try_ws_complete:
  assumes "1 \<le> p" and "Suc p < length r" and "r ! p = CHR '':''"
  shows "try_ws k r \<noteq> None"
  using assms
proof (induction k)
  case 0
  then have "first_colon 0 r \<noteq> None" using first_colon_None by fastforce
  then show ?case by (auto simp: try_ws.simps [of 0 r])
next
  case (Suc k)
  then show ?case by (auto simp: try_ws.simps [of "Suc k" r] split: option.splits)
qed

lemma take_ws_len_space: "j \<le> ws_len r \<Longrightarrow> list_all py_isspace (take j r)"
proof -
  assume "j \<le> ws_len r"
  then have "take j r = take j (takeWhile py_isspace r)"
    by (metis ws_len_def takeWhile_eq_take take_take min.absorb1)
  then show ?thesis by (simp add: list_all_iff) (meson in_set_takeD set_takeWhileD)
qed

lemma match_spec_line_groups:
  assumes "match_spec_line l = Some (g1, g2)"
  shows "\<exists>c ws v. is_bullet c \<and> list_all py_isspace ws \<and> g1 \<noteq> [] \<and> v \<noteq> [] \<and>
           l = c # ws @ g1 @ CHR '':'' # v \<and> g2 = regex_group2 v"
proof -
  from assms obtain c r where l: "l = c # r" by (cases l) (auto simp: match_spec_line_def)
  from assms l have b: "is_bullet c" by (auto simp: match_spec_line_def split: if_splits)
  from assms l b obtain v where t: "try_ws (ws_len r) r = Some (g1, v)" and g2: "g2 = regex_group2 v"
    by (auto simp: match_spec_line_def)
  from try_ws_Some [OF t] obtain j where j: "j \<le> ws_len r"
    and r: "r = take j r @ g1 @ CHR '':'' # v" and ne: "g1 \<noteq> []" "v \<noteq> []" by blast
  have "list_all py_isspace (take j r)" using j by (rule take_ws_len_space)
  with l r b g2 ne show ?thesis by metis
qed

lemma match_spec_line_iff: "match_spec_line l \<noteq> None \<longleftrightarrow> bullet_line l"
proof
  assume "match_spec_line l \<noteq> None"
  then obtain g1 g2 where "match_spec_line l = Some (g1, g2)" by auto
  from match_spec_line_groups [OF this] obtain c ws v where
    "is_bullet c" "g1 \<noteq> []" "v \<noteq> []" "l = c # (ws @ g1) @ CHR '':'' # v" by auto
  then show "bullet_line l" unfolding bullet_line_def by blast
next
  assume "bullet_line l"
  then obtain c u v where b: "is_bullet c" and u: "u \<noteq> []" and v: "v \<noteq> []"
    and l: "l = c # u @ CHR '':'' # v" by (auto simp: bullet_line_def)
  let ?r = "u @ CHR '':'' # v"
  have "1 \<le> length u" "Suc (length u) < length ?r" "?r ! length u = CHR '':''"
    using u v by (simp_all add: Suc_le_eq)
  then have "try_ws (ws_len ?r) ?r \<noteq> None" by (rule try_ws_complete)
  with b l show "match_spec_line l \<noteq> None" by (auto simp: match_spec_line_def)
qed


section \<open>The planner loop\<close>

lemma py_lstrip_ws_prefix: "j \<le> ws_len v \<Longrightarrow> py_lstrip (drop j v) = py_lstrip v"
proof -
  assume j: "j \<le> ws_len v"
  have "v = take j v @ drop j v" by simp
  moreover have "list_all py_isspace (take j v)" using j by (rule take_ws_len_space)
  ultimately show ?thesis by (metis py_lstrip_append_nonspace)
qed

lemma py_strip_regex_group2: "py_strip (regex_group2 v) = py_strip v"
  by (simp add: regex_group2_def Let_def py_strip_def py_lstrip_ws_prefix)

lemma collect_specs_length: "length (collect_specs ls) = length (filter bullet_line ls)"
proof (induction ls)
  case Nil
  then show ?case by simp
next
  case (Cons l ls)
  then show ?case
    using match_spec_line_iff [of l] by (auto split: option.splits)
qed

text \<open>C6. The planner returns exactly one specification for each line of the reply that matches the bulleted pattern (bullet, then at least one character, a colon, and at least one character) and none for any other line.\<close>

theorem parse_specs_count: "length (parse_specs s) = length (filter bullet_line (splitlines s))"
  by (simp add: parse_specs_def collect_specs_length)

lemma collect_specs_sound:
  "(t, d) \<in> set (collect_specs ls) \<Longrightarrow>
   \<exists>l \<in> set ls. \<exists>c ws u v. is_bullet c \<and> list_all py_isspace ws \<and> u \<noteq> [] \<and> v \<noteq> [] \<and>
     l = c # ws @ u @ CHR '':'' # v \<and> t = py_strip u \<and> d = py_strip v"
proof (induction ls)
  case Nil
  then show ?case by simp
next
  case (Cons l ls)
  show ?case
  proof (cases "match_spec_line l")
    case None
    with Cons show ?thesis by auto
  next
    case (Some g)
    obtain g1 g2 where g: "g = (g1, g2)" by (cases g)
    show ?thesis
    proof (cases "(t, d) = (py_strip g1, py_strip g2)")
      case True
      from match_spec_line_groups [of l g1 g2] Some g obtain c ws v where
        "is_bullet c" "list_all py_isspace ws" "g1 \<noteq> []" "v \<noteq> []"
        "l = c # ws @ g1 @ CHR '':'' # v" "g2 = regex_group2 v" by auto
      with True show ?thesis by (auto simp: py_strip_regex_group2)
    next
      case False
      with Cons.prems Some g have "(t, d) \<in> set (collect_specs ls)" by auto
      with Cons.IH show ?thesis by auto
    qed
  qed
qed

text \<open>C24. Every specification the planner returns comes from a line of the reply of the form bullet, whitespace, type, colon, description, with the type and the description stripped.\<close>

theorem parse_specs_sound:
  "(t, d) \<in> set (parse_specs s) \<Longrightarrow>
   \<exists>l \<in> set (splitlines s). \<exists>c ws u v. is_bullet c \<and> list_all py_isspace ws \<and> u \<noteq> [] \<and> v \<noteq> [] \<and>
     l = c # ws @ u @ CHR '':'' # v \<and> t = py_strip u \<and> d = py_strip v"
  unfolding parse_specs_def by (rule collect_specs_sound)

theorem parse_specs_sound_witness:
  "(''Class'', ''shows classes'') \<in> set (parse_specs ''- Class: shows classes'') \<and>
   (\<exists>l \<in> set (splitlines ''- Class: shows classes''). \<exists>c ws u v. is_bullet c \<and> list_all py_isspace ws \<and>
      u \<noteq> [] \<and> v \<noteq> [] \<and> l = c # ws @ u @ CHR '':'' # v \<and> ''Class'' = py_strip u \<and> ''shows classes'' = py_strip v)"
proof -
  have h: "(''Class'', ''shows classes'') \<in> set (parse_specs ''- Class: shows classes'')"
    by code_simp
  show ?thesis using h parse_specs_sound [OF h] by blast
qed

text \<open>On the reply of the spec's scenario A the planner returns the two well-formed specifications and drops the garbage line.\<close>

theorem parse_specs_scenario_A:
  "parse_specs (''- Class Diagram: shows classes'' @ [CHR 0x0A] @ ''- garbage line'' @ [CHR 0x0A]
     @ ''- Sequence Diagram: shows flow'') =
   [(''Class Diagram'', ''shows classes''), (''Sequence Diagram'', ''shows flow'')]"
  by code_simp

lemma name_char_space: "name_char c \<Longrightarrow> py_isspace c \<Longrightarrow> c = CHR '' ''"
  by (auto simp: name_char_def py_isspace_def)

lemma dtype_clean_chars: "c \<in> set (dtype_clean s) \<Longrightarrow> name_char c \<and> c \<noteq> CHR '' ''"
proof -
  assume c: "c \<in> set (dtype_clean s)"
  then have "c \<noteq> CHR '' ''" unfolding dtype_clean_def by (auto simp: py_replace_char_def)
  moreover from c obtain c' where "c' \<in> set (py_strip (filter name_char s))"
      and "c = (if c' = CHR '' '' then CHR ''_'' else c')"
    by (auto simp: dtype_clean_def py_replace_char_def)
  moreover have "name_char c'" using calculation(2) py_strip_set by fastforce
  ultimately show ?thesis by (auto simp: name_char_def split: if_splits)
qed

text \<open>Sanitising a diagram type twice gives the same name as sanitising it once.\<close>

theorem dtype_clean_idem: "dtype_clean (dtype_clean s) = dtype_clean s"
proof -
  let ?d = "dtype_clean s"
  have nc: "\<forall>c \<in> set ?d. name_char c" and ns: "\<forall>c \<in> set ?d. c \<noteq> CHR '' ''"
    using dtype_clean_chars by blast+
  then have f: "filter name_char ?d = ?d" by simp
  have "\<not> (\<exists>c \<in> set ?d. py_isspace c)" using nc ns name_char_space by blast
  then have "py_strip ?d = ?d" by (rule py_strip_no_space_id)
  moreover have "py_replace_char (CHR '' '') (CHR ''_'') ?d = ?d"
    using ns by (simp add: py_replace_char_def map_idI)
  ultimately show ?thesis using f by (simp add: dtype_clean_def [of ?d])
qed

text \<open>C36. The sanitised diagram type used in file names never contains a slash, a dot or a space.\<close>

theorem dtype_clean_safe:
  "CHR ''/'' \<notin> set (dtype_clean s) \<and> CHR ''.'' \<notin> set (dtype_clean s) \<and> CHR '' '' \<notin> set (dtype_clean s)"
proof -
  have "\<not> name_char (CHR ''/'')" "\<not> name_char (CHR ''.'')" by (simp_all add: name_char_def)
  then show ?thesis using dtype_clean_chars by blast
qed

text \<open>Distinct diagram types can sanitise to the same file-name stem.\<close>

theorem dtype_clean_collision: "dtype_clean ''Class Diagram'' = dtype_clean ''(Class Diagram)''"
  by code_simp

end
