(* ===== verification/Ingest.thy ===== *)
theory Ingest
  imports Prelude
begin

text \<open>
  The Ingestion endpoint \<^verbatim>\<open>ingest_diagram\<close> of \<^verbatim>\<open>src/Service/Docbuilder.py\<close> (lines 83
  to 101), and the file-system state it writes.  A multipart request is its form fields
  (an association list: \<^verbatim>\<open>request.form.get\<close> returns the first value of a key) and its
  optional uploaded file; a file upload is false in Python when its file name is empty,
  so \<^verbatim>\<open>if not img_file\<close> rejects it too.  The write \<^verbatim>\<open>img_file.save(path)\<close> can raise
  (an \<^verbatim>\<open>OSError\<close>, uncaught, so Flask answers 500): whether it succeeds is an oracle
  \<open>write_ok\<close> on the path.

  Paths are strings as the code builds them with \<^verbatim>\<open>os.path.join\<close>; the theorems show
  when the stored path stays inside the build's directory and when it does not.
\<close>

section \<open>File-system state\<close>

record fs =
  files :: "string \<rightharpoonup> bytes"
  dirs :: "string set"

definition fs_makedirs :: "string \<Rightarrow> fs \<Rightarrow> fs" where
  "fs_makedirs p s = s\<lparr>dirs := insert p (dirs s)\<rparr>"

definition fs_write :: "string \<Rightarrow> bytes \<Rightarrow> fs \<Rightarrow> fs" where
  "fs_write p b s = s\<lparr>files := (files s)(p \<mapsto> b)\<rparr>"

section \<open>The handler\<close>

datatype upload = Upload (up_filename: string) (up_content: bytes)

record ingest_request =
  form :: "(string \<times> string) list"
  image :: "upload option"

datatype ingest_reply =
    IngestStored string
  | IngestBadRequest string
  | IngestServerError

definition form_get :: "ingest_request \<Rightarrow> string \<Rightarrow> string \<Rightarrow> string" where
  "form_get req k dflt = (case map_of (form req) k of None \<Rightarrow> dflt | Some v \<Rightarrow> v)"

definition diagram_file_name :: "string \<Rightarrow> string \<Rightarrow> string" where
  "diagram_file_name dtype idx = dtype @ ''_'' @ idx @ ''.png''"

definition ingest_diagram ::
  "string \<Rightarrow> (string \<Rightarrow> bool) \<Rightarrow> ingest_request \<Rightarrow> fs \<Rightarrow> ingest_reply \<times> fs" where
  "ingest_diagram diagr_dir write_ok req s =
     (let build_id = form_get req ''build_id'' [] in
      if build_id = [] then (IngestBadRequest ''build_id is required'', s)
      else
        (let dtype = form_get req ''diagramType'' ''diagram'';
             idx = form_get req ''index'' ''1'' in
         case image req of
           None \<Rightarrow> (IngestBadRequest ''no image'', s)
         | Some up \<Rightarrow>
             if up_filename up = [] then (IngestBadRequest ''no image'', s)
             else
               (let target_dir = os_path_join diagr_dir build_id;
                    s1 = fs_makedirs target_dir s;
                    path = os_path_join target_dir (diagram_file_name dtype idx) in
                if write_ok path then (IngestStored path, fs_write path (up_content up) s1)
                else (IngestServerError, s1))))"

text \<open>The path a stored diagram gets, as a function of the build id, type and index.\<close>

definition ingest_path :: "string \<Rightarrow> string \<Rightarrow> string \<Rightarrow> string \<Rightarrow> string" where
  "ingest_path diagr_dir build_id dtype idx =
     os_path_join (os_path_join diagr_dir build_id) (diagram_file_name dtype idx)"

text \<open>A path component that names one entry of its directory: non-empty, without a
  slash, and neither \<^verbatim>\<open>.\<close> nor \<^verbatim>\<open>..\<close>.  On such components the string
  paths the code builds are the paths the operating system resolves.\<close>

definition plain_component :: "string \<Rightarrow> bool" where
  "plain_component c \<longleftrightarrow> c \<noteq> [] \<and> CHR ''/'' \<notin> set c \<and> c \<noteq> ''.'' \<and> c \<noteq> ''..''"

section \<open>Behaviour of the handler\<close>

text \<open>C28. The Ingestion endpoint answers 400 and writes nothing when the build id is missing or empty, or when no image file (or one with an empty file name) is uploaded.\<close>

lemma ingest_diagram_rejects:
  assumes "form_get req ''build_id'' [] = [] \<or> image req = None \<or>
           (\<exists>up. image req = Some up \<and> up_filename up = [])"
  shows "\<exists>msg. ingest_diagram diagr_dir write_ok req s = (IngestBadRequest msg, s)"
  using assms by (auto simp: ingest_diagram_def Let_def split: option.splits)

text \<open>C29. A request with a build id and a named image file is stored at \<open>diagrams/<build_id>/<type>_<index>.png\<close> (type and index defaulting to \<open>diagram\<close> and \<open>1\<close>), creating the build directory, when the write succeeds.\<close>

lemma ingest_diagram_stores:
  assumes "form_get req ''build_id'' [] = b" and "b \<noteq> []"
    and "image req = Some up" and "up_filename up \<noteq> []"
    and "p = ingest_path diagr_dir b (form_get req ''diagramType'' ''diagram'') (form_get req ''index'' ''1'')"
    and "write_ok p"
  shows "ingest_diagram diagr_dir write_ok req s =
         (IngestStored p, s\<lparr>files := (files s)(p \<mapsto> up_content up),
                             dirs := insert (os_path_join diagr_dir b) (dirs s)\<rparr>)"
  using assms by (simp add: ingest_diagram_def ingest_path_def fs_makedirs_def fs_write_def Let_def)

lemma ingest_diagram_files:
  "files (snd (ingest_diagram diagr_dir write_ok req s)) = files s \<or>
   (\<exists>p up. fst (ingest_diagram diagr_dir write_ok req s) = IngestStored p \<and>
      files (snd (ingest_diagram diagr_dir write_ok req s)) = (files s)(p \<mapsto> up_content up))"
  by (auto simp: ingest_diagram_def Let_def fs_makedirs_def fs_write_def split: option.splits)

lemma diagram_file_name_rel: "CHR ''/'' \<notin> set t \<Longrightarrow> \<not> starts_with ''/'' (diagram_file_name t i)"
  by (cases t) (auto simp: diagram_file_name_def starts_with_def)

lemma ingest_path_plain:
  assumes "diagr_dir \<noteq> []" and "last diagr_dir \<noteq> CHR ''/''"
    and "plain_component b" and "CHR ''/'' \<notin> set t"
  shows "ingest_path diagr_dir b t i = diagr_dir @ ''/'' @ b @ ''/'' @ diagram_file_name t i"
proof -
  have b1: "\<not> starts_with ''/'' b" and b2: "b \<noteq> []" and b3: "last b \<noteq> CHR ''/''"
    using assms(3) by (auto simp: plain_component_def starts_with_slash_iff dest: last_in_set hd_in_set)
  have j1: "os_path_join diagr_dir b = diagr_dir @ ''/'' @ b"
    using assms(1,2) b1 by (simp add: os_path_join_def)
  have "last (diagr_dir @ ''/'' @ b) \<noteq> CHR ''/''" using b2 b3 by simp
  then show ?thesis
    using diagram_file_name_rel [OF assms(4)] j1 by (simp add: ingest_path_def os_path_join_def)
qed

text \<open>C38. The build id is not validated: a request whose build id is an absolute path
  is stored, and \<open>os.path.join\<close> drops the diagrams directory, so the handler creates
  the directory named by the build id and writes the image under it, whatever the
  diagrams directory.\<close>

lemma ingest_diagram_absolute_escape:
  assumes "form_get req ''build_id'' [] = b" and "starts_with ''/'' b"
    and "image req = Some up" and "up_filename up \<noteq> []"
    and "p = os_path_join b (diagram_file_name (form_get req ''diagramType'' ''diagram'') (form_get req ''index'' ''1''))"
    and "write_ok p"
  shows "ingest_diagram diagr_dir write_ok req s =
         (IngestStored p, s\<lparr>files := (files s)(p \<mapsto> up_content up), dirs := insert b (dirs s)\<rparr>)"
proof -
  have "b \<noteq> []" and "os_path_join diagr_dir b = b"
    using assms(2) by (auto simp: starts_with_slash_iff os_path_join_def)
  then show ?thesis
    using assms by (simp add: ingest_diagram_def fs_makedirs_def fs_write_def Let_def)
qed

lemma slash_prefix_eq:
  "CHR ''/'' \<notin> set a \<Longrightarrow> CHR ''/'' \<notin> set b \<Longrightarrow> a @ CHR ''/'' # u = b @ CHR ''/'' # v \<Longrightarrow> a = b"
proof (induction a arbitrary: b)
  case Nil
  then show ?case by (cases b) auto
next
  case (Cons c a)
  then show ?case by (cases b) auto
qed

text \<open>C26. For build ids that are plain path components and a diagram type without a slash, an ingest for one build never changes a file under the directory of another build.\<close>

theorem ingest_build_isolation:
  assumes "plain_component b1" and "plain_component b2" and "b1 \<noteq> b2"
    and "form_get req ''build_id'' [] = b1"
    and "CHR ''/'' \<notin> set (form_get req ''diagramType'' ''diagram'')"
    and "diagr_dir \<noteq> []" and "last diagr_dir \<noteq> CHR ''/''"
  shows "files (snd (ingest_diagram diagr_dir write_ok req s)) (diagr_dir @ ''/'' @ b2 @ ''/'' @ x) =
         files s (diagr_dir @ ''/'' @ b2 @ ''/'' @ x)"
proof (cases "files (snd (ingest_diagram diagr_dir write_ok req s)) = files s")
  case True
  then show ?thesis by simp
next
  case False
  let ?t = "form_get req ''diagramType'' ''diagram''" and ?i = "form_get req ''index'' ''1''"
  from False ingest_diagram_files [of diagr_dir write_ok req s] obtain p up where
    st: "fst (ingest_diagram diagr_dir write_ok req s) = IngestStored p" and
    f: "files (snd (ingest_diagram diagr_dir write_ok req s)) = (files s)(p \<mapsto> up_content up)"
    by blast
  from st assms(1,4) have "p = ingest_path diagr_dir b1 ?t ?i"
    by (auto simp: ingest_diagram_def ingest_path_def plain_component_def Let_def
             split: option.splits if_splits)
  also have "\<dots> = diagr_dir @ ''/'' @ b1 @ ''/'' @ diagram_file_name ?t ?i"
    using assms(6,7,1,5) by (rule ingest_path_plain)
  finally have p: "p = diagr_dir @ ''/'' @ b1 @ ''/'' @ diagram_file_name ?t ?i" .
  have "p \<noteq> diagr_dir @ ''/'' @ b2 @ ''/'' @ x"
  proof
    assume "p = diagr_dir @ ''/'' @ b2 @ ''/'' @ x"
    with p have "b1 @ CHR ''/'' # diagram_file_name ?t ?i = b2 @ CHR ''/'' # x" by simp
    with assms(1,2) have "b1 = b2" by (auto simp: plain_component_def intro: slash_prefix_eq)
    with assms(3) show False by simp
  qed
  with f show ?thesis by simp
qed

section \<open>Witnesses\<close>

theorem ingest_diagram_rejects_witness:
  "\<exists>msg. ingest_diagram ''diagrams'' (\<lambda>p. True) \<lparr>form = [(''diagramType'', ''Class'')], image = None\<rparr>
           \<lparr>files = Map.empty, dirs = {}\<rparr> = (IngestBadRequest msg, \<lparr>files = Map.empty, dirs = {}\<rparr>)"
  by (rule ingest_diagram_rejects) (simp add: form_get_def)

theorem ingest_diagram_stores_witness:
  "ingest_diagram ''diagrams'' (\<lambda>p. True)
     \<lparr>form = [(''build_id'', ''b1''), (''diagramType'', ''Class'')], image = Some (Upload ''Class_1.png'' [7])\<rparr>
     \<lparr>files = Map.empty, dirs = {}\<rparr> =
   (IngestStored ''diagrams/b1/Class_1.png'',
    \<lparr>files = Map.empty, dirs = {}\<rparr>\<lparr>files := (files \<lparr>files = Map.empty, dirs = {}\<rparr>)(''diagrams/b1/Class_1.png'' \<mapsto> [7]),
       dirs := insert (os_path_join ''diagrams'' ''b1'') (dirs \<lparr>files = Map.empty, dirs = {}\<rparr>)\<rparr>)"
proof -
  have p: "''diagrams/b1/Class_1.png'' = ingest_path ''diagrams'' ''b1'' ''Class'' ''1''"
    by (simp add: ingest_path_def os_path_join_def diagram_file_name_def starts_with_def)
  show ?thesis
    by (rule ingest_diagram_stores [where b = "''b1''" and up = "Upload ''Class_1.png'' [7]", simplified])
       (simp_all add: form_get_def p)
qed

theorem ingest_build_isolation_witness:
  "files (snd (ingest_diagram ''diagrams'' (\<lambda>p. True)
      \<lparr>form = [(''build_id'', ''b1'')], image = Some (Upload ''x.png'' [7])\<rparr> \<lparr>files = Map.empty, dirs = {}\<rparr>))
      (''diagrams'' @ ''/'' @ ''b2'' @ ''/'' @ ''diagram_1.png'') =
   files \<lparr>files = Map.empty, dirs = {}\<rparr> (''diagrams'' @ ''/'' @ ''b2'' @ ''/'' @ ''diagram_1.png'')"
  by (rule ingest_build_isolation [of "''b1''" "''b2''"]) (simp_all add: plain_component_def form_get_def)

theorem ingest_diagram_absolute_escape_witness:
  "ingest_diagram ''/srv/exports/diagrams'' (\<lambda>p. True)
     \<lparr>form = [(''build_id'', ''/tmp'')], image = Some (Upload ''x.png'' [7])\<rparr> \<lparr>files = Map.empty, dirs = {}\<rparr> =
   (IngestStored ''/tmp/diagram_1.png'',
    \<lparr>files = Map.empty, dirs = {}\<rparr>\<lparr>files := (files \<lparr>files = Map.empty, dirs = {}\<rparr>)(''/tmp/diagram_1.png'' \<mapsto> [7]),
       dirs := insert ''/tmp'' (dirs \<lparr>files = Map.empty, dirs = {}\<rparr>)\<rparr>)"
proof -
  have p: "''/tmp/diagram_1.png'' = os_path_join ''/tmp'' (diagram_file_name ''diagram'' ''1'')"
    by (simp add: os_path_join_def diagram_file_name_def starts_with_def)
  show ?thesis
    by (rule ingest_diagram_absolute_escape [where b = "''/tmp''" and up = "Upload ''x.png'' [7]", simplified])
       (simp_all add: form_get_def p starts_with_def)
qed

end
