(* ===== verification/Renderer.thy ===== *)
theory Renderer
  imports Encoder Planner Ingest
begin

text \<open>
  The Diagram Renderer: the handler \<^verbatim>\<open>generate_uml_image\<close> of
  \<^verbatim>\<open>src/Service/Uml.py\<close> (lines 57 to 160) around the planner.  For every planned
  specification (numbered \<open>idx\<close> from 1) it asks the language model for PlantUML source,
  extracts every fenced block with \<^verbatim>\<open>re.findall\<close>, and for every block (numbered \<open>j\<close>
  from 1) encodes it, fetches the image, checks the reply, saves the bytes under the
  static directory and pushes them to the Ingestion endpoint; a failure of any step of
  one candidate skips that candidate only.

  Everything the handler does not compute itself is an oracle of the record
  \<open>uml_env\<close>: the language model's answer to each call, the outcome of each image fetch,
  whether a local write succeeds, and whether a push reaches the DocBuilder.  The call
  positions (\<open>idx\<close>, \<open>j\<close>) are arguments of the oracles, so each call may answer
  differently.  The DocBuilder's side of the push is an interface parameter
  \<open>ingest :: ingest_request \<Rightarrow> 'r \<Rightarrow> 'r\<close> over any state type \<open>'r\<close>: the renderer's
  lemmas hold for every implementation, and \<open>Orchestrator\<close> instantiates it with
  \<open>ingest_diagram\<close>.  The state also records the outbound calls in order.
\<close>

section \<open>Python's \<^verbatim>\<open>str\<close> of JSON values and the form fields of a push\<close>

definition hex_digit :: "nat \<Rightarrow> char" where
  "hex_digit d = (if d < 10 then char_of (48 + d) else char_of (87 + d))"

definition py_printable :: "char \<Rightarrow> bool" where
  "py_printable c \<longleftrightarrow> (let n = (of_char c :: nat) in \<not> (n < 32 \<or> (127 \<le> n \<and> n \<le> 160) \<or> n = 173))"

definition repr_char :: "char \<Rightarrow> char \<Rightarrow> string" where
  "repr_char q c =
     (if c = CHR 0x5C then [CHR 0x5C, CHR 0x5C]
      else if c = q then [CHR 0x5C, q]
      else if c = CHR 0x09 then [CHR 0x5C, CHR ''t'']
      else if c = CHR 0x0A then [CHR 0x5C, CHR ''n'']
      else if c = CHR 0x0D then [CHR 0x5C, CHR ''r'']
      else if py_printable c then [c]
      else [CHR 0x5C, CHR ''x'', hex_digit (of_char c div 16), hex_digit (of_char c mod 16)])"

definition repr_str :: "string \<Rightarrow> string" where
  "repr_str s =
     (let q = (if CHR 0x27 \<in> set s \<and> CHR 0x22 \<notin> set s then CHR 0x22 else CHR 0x27) in
      q # concat (map (repr_char q) s) @ [q])"

definition join_sep :: "string \<Rightarrow> string list \<Rightarrow> string" where
  "join_sep sep xs = (case xs of [] \<Rightarrow> [] | x # ys \<Rightarrow> x @ concat (map (\<lambda>y. sep @ y) ys))"

primrec py_repr :: "json \<Rightarrow> string" where
  "py_repr JNull = ''None''"
| "py_repr (JBool b) = (if b then ''True'' else ''False'')"
| "py_repr (JInt i) = str_int i"
| "py_repr (JStr s) = repr_str s"
| "py_repr (JList xs) = ''['' @ join_sep '', '' (map py_repr xs) @ '']''"
| "py_repr (JDict kvs) =
     ''{'' @ join_sep '', '' (map (\<lambda>(k, r). repr_str k @ '': '' @ r) (map (map_prod id py_repr) kvs)) @ ''}''"

definition py_str :: "json \<Rightarrow> string" where
  "py_str v = (case v of JStr s \<Rightarrow> s | _ \<Rightarrow> py_repr v)"

text \<open>How \<^verbatim>\<open>requests\<close> encodes one value of \<^verbatim>\<open>data=\<close> as multipart form fields:
  \<^verbatim>\<open>None\<close> is skipped, a string or number is one field, an iterable gives one field per
  element (its \<^verbatim>\<open>str\<close>), a dictionary one field per key.\<close>

definition form_values :: "json \<Rightarrow> string list" where
  "form_values v =
     (case v of
        JNull \<Rightarrow> []
      | JList xs \<Rightarrow> map py_str (filter (\<lambda>x. x \<noteq> JNull) xs)
      | JDict kvs \<Rightarrow> map fst kvs
      | _ \<Rightarrow> [py_str v])"

section \<open>Fenced blocks: \<^verbatim>\<open>re.findall(r"```plantuml\s*(.*?)```", text, re.DOTALL)\<close>\<close>

definition fence_open :: string where
  "fence_open = ''```plantuml''"

definition fence :: string where
  "fence = ''```''"

definition first_fence :: "string \<Rightarrow> nat option" where
  "first_fence r = find (\<lambda>k. starts_with fence (drop k r)) [0..<length r]"

text \<open>The scanner tries a match at every position from left to right; after a match it
  continues behind the closing fence.  At a match the greedy \<^verbatim>\<open>\s*\<close> takes all the
  whitespace (giving some back cannot move the first closing fence), and the lazy group
  ends at the first closing fence.\<close>

function extract_plantuml :: "string \<Rightarrow> string list" where
  "extract_plantuml s =
     (if s = [] then []
      else if starts_with fence_open s then
        (let r = drop (length fence_open) s; body = drop (ws_len r) r in
         case first_fence body of
           Some k \<Rightarrow> take k body # extract_plantuml (drop (k + 3) body)
         | None \<Rightarrow> extract_plantuml (tl s))
      else extract_plantuml (tl s))"
  by pat_completeness auto
termination
  by (relation "measure length") (auto simp: fence_open_def)

declare extract_plantuml.simps [simp del]

section \<open>Configuration, oracles and state\<close>

definition PLANTUML_SERVER :: string where
  "PLANTUML_SERVER = ''http://www.plantuml.com/plantuml/png''"

record uml_config =
  static_dir :: string
  compress :: "bytes \<Rightarrow> bytes"

datatype fetch_result =
    FetchRaised
  | FetchResponse nat "string option" bytes

record uml_env =
  model :: "nat \<Rightarrow> string \<Rightarrow> string option"
  fetch :: "nat \<Rightarrow> nat \<Rightarrow> string \<Rightarrow> fetch_result"
  save_ok :: "string \<Rightarrow> bool"
  push_delivered :: "nat \<Rightarrow> nat \<Rightarrow> bool"

datatype call =
    CallModel nat
  | CallFetch nat nat string
  | CallPush nat nat

record 'r rstate =
  r_static :: fs
  r_calls :: "call list"
  r_remote :: 'r

record diagram_entry =
  d_type :: string
  d_desc :: string
  d_index :: nat
  d_path :: string

datatype uml_reply =
    UmlCompleted "diagram_entry list"
  | UmlFailed nat string
  | UmlCrashed
  | UmlBadJson

section \<open>One candidate, one specification, all specifications\<close>

definition prompt_uml :: "string \<Rightarrow> string \<Rightarrow> string" where
  "prompt_uml dtype desc =
     ''You are a PlantUML syntax expert. Output a fenced ```plantuml``` block ''
     @ ''for a '' @ dtype @ '' diagram:'' @ [CHR 0x0A] @ desc @ [CHR 0x0A] @ ''Only the fenced block.''"

definition plantuml_url :: "uml_config \<Rightarrow> string \<Rightarrow> string" where
  "plantuml_url cfg uml = PLANTUML_SERVER @ ''/'' @ plantuml_encode (compress cfg) uml"

text \<open>\<^verbatim>\<open>img_r.status_code != 200 or "image" not in img_r.headers.get("Content-Type", "")\<close>.\<close>

definition image_ok :: "fetch_result \<Rightarrow> bytes option" where
  "image_ok r =
     (case r of
        FetchRaised \<Rightarrow> None
      | FetchResponse status ctype body \<Rightarrow>
          if status \<noteq> 200 \<or> \<not> py_contains ''image'' (case ctype of None \<Rightarrow> [] | Some c \<Rightarrow> c)
          then None else Some body)"

definition static_path :: "uml_config \<Rightarrow> string \<Rightarrow> nat \<Rightarrow> string" where
  "static_path cfg dtc j = os_path_join (static_dir cfg) (diagram_file_name dtc (str_nat j))"

definition push_request ::
  "json \<Rightarrow> string \<Rightarrow> string \<Rightarrow> nat \<Rightarrow> bytes \<Rightarrow> ingest_request" where
  "push_request bid dtc desc j content =
     \<lparr>form = map (Pair ''build_id'') (form_values bid)
              @ [(''diagramType'', dtc), (''description'', desc), (''index'', str_nat j)],
      image = Some (Upload (diagram_file_name dtc (str_nat j)) content)\<rparr>"

definition log_call :: "call \<Rightarrow> 'r rstate \<Rightarrow> 'r rstate" where
  "log_call c st = st\<lparr>r_calls := r_calls st @ [c]\<rparr>"

text \<open>Lines 109 to 152 for candidate \<open>j\<close> of specification \<open>idx\<close>.\<close>

definition render_candidate ::
  "uml_config \<Rightarrow> uml_env \<Rightarrow> (ingest_request \<Rightarrow> 'r \<Rightarrow> 'r) \<Rightarrow> json \<Rightarrow> nat \<Rightarrow> string \<Rightarrow> string \<Rightarrow>
   nat \<Rightarrow> string \<Rightarrow> 'r rstate \<Rightarrow> diagram_entry option \<times> 'r rstate" where
  "render_candidate cfg env ingest bid idx dtc desc j uml st =
     (let url = plantuml_url cfg uml;
          st1 = log_call (CallFetch idx j url) st in
      case image_ok (fetch env idx j url) of
        None \<Rightarrow> (None, st1)
      | Some content \<Rightarrow>
          (let path = static_path cfg dtc j in
           if \<not> save_ok env path then (None, st1)
           else
             (let st2 = log_call (CallPush idx j)
                          (st1\<lparr>r_static := fs_write path content (r_static st1)\<rparr>);
                  st3 = (if push_delivered env idx j
                         then st2\<lparr>r_remote := ingest (push_request bid dtc desc j content) (r_remote st2)\<rparr>
                         else st2) in
              (Some \<lparr>d_type = dtc, d_desc = desc, d_index = j, d_path = path\<rparr>, st3))))"

fun render_candidates ::
  "uml_config \<Rightarrow> uml_env \<Rightarrow> (ingest_request \<Rightarrow> 'r \<Rightarrow> 'r) \<Rightarrow> json \<Rightarrow> nat \<Rightarrow> string \<Rightarrow> string \<Rightarrow>
   nat \<Rightarrow> string list \<Rightarrow> 'r rstate \<Rightarrow> diagram_entry list \<times> 'r rstate" where
  "render_candidates cfg env ingest bid idx dtc desc j [] st = ([], st)"
| "render_candidates cfg env ingest bid idx dtc desc j (uml # umls) st =
     (let (e, st1) = render_candidate cfg env ingest bid idx dtc desc j uml st;
          (es, st2) = render_candidates cfg env ingest bid idx dtc desc (Suc j) umls st1 in
      (case e of None \<Rightarrow> es | Some d \<Rightarrow> d # es, st2))"

text \<open>Lines 93 to 108 for specification \<open>idx\<close>.\<close>

definition render_spec ::
  "uml_config \<Rightarrow> uml_env \<Rightarrow> (ingest_request \<Rightarrow> 'r \<Rightarrow> 'r) \<Rightarrow> json \<Rightarrow> nat \<Rightarrow> string \<times> string \<Rightarrow>
   'r rstate \<Rightarrow> diagram_entry list \<times> 'r rstate" where
  "render_spec cfg env ingest bid idx spec st =
     (let (dtype, desc) = spec;
          dtc = dtype_clean dtype;
          st1 = log_call (CallModel idx) st in
      case model env idx (prompt_uml dtype desc) of
        None \<Rightarrow> ([], st1)
      | Some reply \<Rightarrow> render_candidates cfg env ingest bid idx dtc desc 1 (extract_plantuml reply) st1)"

fun render_specs ::
  "uml_config \<Rightarrow> uml_env \<Rightarrow> (ingest_request \<Rightarrow> 'r \<Rightarrow> 'r) \<Rightarrow> json \<Rightarrow> nat \<Rightarrow> (string \<times> string) list \<Rightarrow>
   'r rstate \<Rightarrow> diagram_entry list \<times> 'r rstate" where
  "render_specs cfg env ingest bid idx [] st = ([], st)"
| "render_specs cfg env ingest bid idx (spec # specs) st =
     (let (ds, st1) = render_spec cfg env ingest bid idx spec st;
          (ds', st2) = render_specs cfg env ingest bid (Suc idx) specs st1 in
      (ds @ ds', st2))"

section \<open>The handler\<close>

text \<open>\<^verbatim>\<open>request.get_json(force=True) or {}\<close>: an unparsable body is answered 400 by Flask
  (\<open>None\<close> here); a false JSON value becomes the empty object; any other non-object makes
  the following \<^verbatim>\<open>payload.get\<close> raise.\<close>

definition json_falsy :: "json \<Rightarrow> bool" where
  "json_falsy v \<longleftrightarrow> v \<in> {JNull, JBool False, JInt 0, JStr [], JList [], JDict []}"

definition request_payload :: "json \<Rightarrow> json_obj option" where
  "request_payload v = (if json_falsy v then Some [] else case v of JDict kvs \<Rightarrow> Some kvs | _ \<Rightarrow> None)"

text \<open>\<^verbatim>\<open>payload.get(k, "").strip()\<close>: raises unless the value is a string.\<close>

definition stripped_field :: "json_obj \<Rightarrow> string \<Rightarrow> string option" where
  "stripped_field payload k = (case json_get payload k (JStr []) of JStr s \<Rightarrow> Some (py_strip s) | _ \<Rightarrow> None)"

definition generate_uml_image ::
  "uml_config \<Rightarrow> uml_env \<Rightarrow> (ingest_request \<Rightarrow> 'r \<Rightarrow> 'r) \<Rightarrow> json option \<Rightarrow> 'r rstate \<Rightarrow>
   uml_reply \<times> 'r rstate" where
  "generate_uml_image cfg env ingest body st =
     (case body of
        None \<Rightarrow> (UmlBadJson, st)
      | Some v \<Rightarrow>
          (case request_payload v of
             None \<Rightarrow> (UmlCrashed, st)
           | Some payload \<Rightarrow>
               (case (stripped_field payload ''abstract'', stripped_field payload ''instructions'') of
                  (Some abstract, Some instructions) \<Rightarrow>
                    (let st1 = log_call (CallModel 0) st in
                     case model env 0 (prompt_list abstract) of
                       None \<Rightarrow> (UmlFailed 500 ''diagram-list-failed'', st1)
                     | Some reply \<Rightarrow>
                         (let specs = parse_specs (py_strip reply) in
                          if specs = [] then (UmlFailed 400 ''no-diagrams'', st1)
                          else
                            (let (ds, st2) = render_specs cfg env ingest
                                   (json_get payload ''build_id'' (JStr ''default'')) 1 specs st1 in
                             (UmlCompleted ds, st2))))
                | _ \<Rightarrow> (UmlCrashed, st))))"


section \<open>Reference behaviour\<close>

text \<open>What one candidate, one specification and the whole handler are meant to produce,
  written per candidate: the image of candidate \<open>j\<close> of specification \<open>idx\<close> exists
  exactly when its fetch answers 200 with an image content type and the local save
  succeeds; its entry and its outbound calls depend on nothing else.\<close>

definition candidate_image :: "uml_config \<Rightarrow> uml_env \<Rightarrow> nat \<Rightarrow> string \<Rightarrow> nat \<Rightarrow> string \<Rightarrow> bytes option" where
  "candidate_image cfg env idx dtc j uml =
     (case image_ok (fetch env idx j (plantuml_url cfg uml)) of
        None \<Rightarrow> None
      | Some b \<Rightarrow> if save_ok env (static_path cfg dtc j) then Some b else None)"

definition entry_of :: "uml_config \<Rightarrow> string \<Rightarrow> string \<Rightarrow> nat \<Rightarrow> diagram_entry" where
  "entry_of cfg dtc desc j = \<lparr>d_type = dtc, d_desc = desc, d_index = j, d_path = static_path cfg dtc j\<rparr>"

definition candidate_calls :: "uml_config \<Rightarrow> uml_env \<Rightarrow> nat \<Rightarrow> string \<Rightarrow> nat \<Rightarrow> string \<Rightarrow> call list" where
  "candidate_calls cfg env idx dtc j uml =
     CallFetch idx j (plantuml_url cfg uml) #
     (case candidate_image cfg env idx dtc j uml of None \<Rightarrow> [] | Some _ \<Rightarrow> [CallPush idx j])"

definition candidate_remote ::
  "uml_config \<Rightarrow> uml_env \<Rightarrow> (ingest_request \<Rightarrow> 'r \<Rightarrow> 'r) \<Rightarrow> json \<Rightarrow> nat \<Rightarrow> string \<Rightarrow> string \<Rightarrow>
   nat \<Rightarrow> string \<Rightarrow> 'r \<Rightarrow> 'r" where
  "candidate_remote cfg env ingest bid idx dtc desc j uml r =
     (case candidate_image cfg env idx dtc j uml of
        None \<Rightarrow> r
      | Some b \<Rightarrow> if push_delivered env idx j then ingest (push_request bid dtc desc j b) r else r)"

definition spec_entries :: "uml_config \<Rightarrow> uml_env \<Rightarrow> nat \<Rightarrow> string \<times> string \<Rightarrow> diagram_entry list" where
  "spec_entries cfg env idx spec =
     (case spec of (dtype, desc) \<Rightarrow>
       case model env idx (prompt_uml dtype desc) of
         None \<Rightarrow> []
       | Some reply \<Rightarrow>
           concat (map (\<lambda>(k, u). case candidate_image cfg env idx (dtype_clean dtype) k u of
                                   None \<Rightarrow> [] | Some _ \<Rightarrow> [entry_of cfg (dtype_clean dtype) desc k])
                  (enumerate 1 (extract_plantuml reply))))"

definition spec_calls :: "uml_config \<Rightarrow> uml_env \<Rightarrow> nat \<Rightarrow> string \<times> string \<Rightarrow> call list" where
  "spec_calls cfg env idx spec =
     (case spec of (dtype, desc) \<Rightarrow>
       CallModel idx #
       (case model env idx (prompt_uml dtype desc) of
          None \<Rightarrow> []
        | Some reply \<Rightarrow>
            concat (map (\<lambda>(k, u). candidate_calls cfg env idx (dtype_clean dtype) k u)
                   (enumerate 1 (extract_plantuml reply)))))"

definition spec_remote ::
  "uml_config \<Rightarrow> uml_env \<Rightarrow> (ingest_request \<Rightarrow> 'r \<Rightarrow> 'r) \<Rightarrow> json \<Rightarrow> nat \<Rightarrow> string \<times> string \<Rightarrow> 'r \<Rightarrow> 'r" where
  "spec_remote cfg env ingest bid idx spec r =
     (case spec of (dtype, desc) \<Rightarrow>
       case model env idx (prompt_uml dtype desc) of
         None \<Rightarrow> r
       | Some reply \<Rightarrow>
           fold (\<lambda>(k, u). candidate_remote cfg env ingest bid idx (dtype_clean dtype) desc k u)
                (enumerate 1 (extract_plantuml reply)) r)"

definition expected_diagrams :: "uml_config \<Rightarrow> uml_env \<Rightarrow> (string \<times> string) list \<Rightarrow> diagram_entry list" where
  "expected_diagrams cfg env specs = concat (map (\<lambda>(i, sp). spec_entries cfg env i sp) (enumerate 1 specs))"

fun is_fetch :: "call \<Rightarrow> bool" where
  "is_fetch (CallFetch _ _ _) = True"
| "is_fetch _ = False"

fun is_push :: "call \<Rightarrow> bool" where
  "is_push (CallPush _ _) = True"
| "is_push _ = False"

section \<open>The static directory across requests\<close>

text \<open>A file the agent may keep in its static directory: directly inside \<open>static_dir\<close>
  (no further slash) and named \<^verbatim>\<open>*.png\<close>.\<close>

definition static_file :: "uml_config \<Rightarrow> string \<Rightarrow> bool" where
  "static_file cfg p \<longleftrightarrow>
     (let pre = os_path_join (static_dir cfg) []; n = drop (length pre) p in
      starts_with pre p \<and> CHR ''/'' \<notin> set n \<and> drop (length n - 4) n = ''.png'')"

definition static_inv :: "uml_config \<Rightarrow> fs \<Rightarrow> bool" where
  "static_inv cfg s \<longleftrightarrow> (\<forall>p \<in> dom (files s). static_file cfg p)"

text \<open>The agent's states: it starts with an empty static directory and serves any
  sequence of requests, each with the oracles of its own moment.\<close>

inductive uml_reach :: "uml_config \<Rightarrow> 'r rstate \<Rightarrow> bool" for cfg where
  uml_start: "files (r_static st) = Map.empty \<Longrightarrow> uml_reach cfg st"
| uml_request: "uml_reach cfg st \<Longrightarrow> uml_reach cfg (snd (generate_uml_image cfg env ingest body st))"

section \<open>Properties\<close>

lemma render_candidate_eq:
  "render_candidate cfg env ingest bid idx dtc desc j uml st =
     (case candidate_image cfg env idx dtc j uml of
        None \<Rightarrow> None
      | Some _ \<Rightarrow> Some (entry_of cfg dtc desc j),
      st\<lparr>r_static := (case candidate_image cfg env idx dtc j uml of
                       None \<Rightarrow> r_static st
                     | Some b \<Rightarrow> fs_write (static_path cfg dtc j) b (r_static st)),
         r_calls := r_calls st @ candidate_calls cfg env idx dtc j uml,
         r_remote := candidate_remote cfg env ingest bid idx dtc desc j uml (r_remote st)\<rparr>)"
  by (simp add: render_candidate_def candidate_image_def candidate_calls_def candidate_remote_def
      entry_of_def log_call_def Let_def split: option.splits)

lemma render_candidates_entries:
  "fst (render_candidates cfg env ingest bid idx dtc desc j umls st) =
   concat (map (\<lambda>(k, u). case candidate_image cfg env idx dtc k u of
                            None \<Rightarrow> [] | Some _ \<Rightarrow> [entry_of cfg dtc desc k])
          (enumerate j umls))"
proof (induction umls arbitrary: j st)
  case Nil
  then show ?case by simp
next
  case (Cons u umls)
  then show ?case
    by (simp add: render_candidate_eq split_def split: option.splits)
qed

lemma render_candidates_Cons_snd:
  "snd (render_candidates cfg env ingest bid idx dtc desc j (u # umls) st) =
   snd (render_candidates cfg env ingest bid idx dtc desc (Suc j) umls
          (snd (render_candidate cfg env ingest bid idx dtc desc j u st)))"
  by (simp add: split_def Let_def)

lemma render_candidates_calls:
  "r_calls (snd (render_candidates cfg env ingest bid idx dtc desc j umls st)) =
   r_calls st @ concat (map (\<lambda>(k, u). candidate_calls cfg env idx dtc k u) (enumerate j umls))"
proof (induction umls arbitrary: j st)
  case Nil
  then show ?case by simp
next
  case (Cons u umls)
  then show ?case
    by (simp only: render_candidates_Cons_snd) (simp add: render_candidate_eq)
qed

lemma render_candidates_remote:
  "r_remote (snd (render_candidates cfg env ingest bid idx dtc desc j umls st)) =
   fold (\<lambda>(k, u). candidate_remote cfg env ingest bid idx dtc desc k u) (enumerate j umls) (r_remote st)"
proof (induction umls arbitrary: j st)
  case Nil
  then show ?case by simp
next
  case (Cons u umls)
  then show ?case
    by (simp only: render_candidates_Cons_snd) (simp add: render_candidate_eq)
qed

lemma render_spec_fst: "fst (render_spec cfg env ingest bid idx spec st) = spec_entries cfg env idx spec"
  by (cases spec) (simp add: render_spec_def spec_entries_def render_candidates_entries split: option.splits)

lemma render_spec_calls:
  "r_calls (snd (render_spec cfg env ingest bid idx spec st)) = r_calls st @ spec_calls cfg env idx spec"
  by (cases spec) (simp add: render_spec_def spec_calls_def render_candidates_calls log_call_def split: option.splits)

lemma render_specs_Cons:
  "render_specs cfg env ingest bid idx (sp # sps) st =
   (fst (render_spec cfg env ingest bid idx sp st) @
      fst (render_specs cfg env ingest bid (Suc idx) sps (snd (render_spec cfg env ingest bid idx sp st))),
    snd (render_specs cfg env ingest bid (Suc idx) sps (snd (render_spec cfg env ingest bid idx sp st))))"
  by (simp add: split_def Let_def)

lemma render_specs_entries:
  "fst (render_specs cfg env ingest bid idx specs st) =
   concat (map (\<lambda>(i, sp). spec_entries cfg env i sp) (enumerate idx specs))"
proof (induction specs arbitrary: idx st)
  case Nil
  then show ?case by simp
next
  case (Cons sp sps)
  then show ?case by (simp only: render_specs_Cons) (simp add: render_spec_fst)
qed

lemma render_specs_calls:
  "r_calls (snd (render_specs cfg env ingest bid idx specs st)) =
   r_calls st @ concat (map (\<lambda>(i, sp). spec_calls cfg env i sp) (enumerate idx specs))"
proof (induction specs arbitrary: idx st)
  case Nil
  then show ?case by simp
next
  case (Cons sp sps)
  then show ?case by (simp only: render_specs_Cons) (simp add: render_spec_calls)
qed

lemma render_spec_remote:
  "r_remote (snd (render_spec cfg env ingest bid idx spec st)) = spec_remote cfg env ingest bid idx spec (r_remote st)"
  by (cases spec) (simp add: render_spec_def spec_remote_def render_candidates_remote log_call_def split: option.splits)

lemma render_specs_remote:
  "r_remote (snd (render_specs cfg env ingest bid idx specs st)) =
   fold (\<lambda>(i, sp). spec_remote cfg env ingest bid i sp) (enumerate idx specs) (r_remote st)"
proof (induction specs arbitrary: idx st)
  case Nil
  then show ?case by simp
next
  case (Cons sp sps)
  then show ?case by (simp only: render_specs_Cons) (simp add: render_spec_remote)
qed

lemma generate_uml_image_completed:
  assumes "request_payload v = Some payload"
    and "stripped_field payload ''abstract'' = Some abstract"
    and "stripped_field payload ''instructions'' = Some instr"
    and "model env 0 (prompt_list abstract) = Some reply"
    and "parse_specs (py_strip reply) \<noteq> []"
  shows "generate_uml_image cfg env ingest (Some v) st =
         (let R = render_specs cfg env ingest (json_get payload ''build_id'' (JStr ''default'')) 1
                    (parse_specs (py_strip reply)) (log_call (CallModel 0) st) in
          (UmlCompleted (fst R), snd R))"
  using assms by (simp add: generate_uml_image_def split_def Let_def)

text \<open>C1. Failure isolation of the renderer: when the planner phase succeeds, the handler answers with exactly the diagrams of the candidates whose fetch, content check and save succeed, in the order of the specifications and of the blocks within each, whatever the other candidates do.\<close>

theorem generate_uml_image_diagrams:
  assumes "request_payload v = Some payload"
    and "stripped_field payload ''abstract'' = Some abstract"
    and "stripped_field payload ''instructions'' = Some instr"
    and "model env 0 (prompt_list abstract) = Some reply"
    and "parse_specs (py_strip reply) \<noteq> []"
  shows "fst (generate_uml_image cfg env ingest (Some v) st) =
         UmlCompleted (expected_diagrams cfg env (parse_specs (py_strip reply)))"
proof -
  have "generate_uml_image cfg env ingest (Some v) st =
         (let R = render_specs cfg env ingest (json_get payload ''build_id'' (JStr ''default'')) 1
                    (parse_specs (py_strip reply)) (log_call (CallModel 0) st) in
          (UmlCompleted (fst R), snd R))"
    by (rule generate_uml_image_completed [OF assms])
  then show ?thesis by (simp add: Let_def expected_diagrams_def render_specs_entries)
qed

text \<open>C2. Every answer of the handler other than a completed one (bad JSON, a crash on a malformed payload, the planner failing or planning nothing) leaves the static directory and the DocBuilder untouched and has made at most the one planner call.\<close>

theorem generate_uml_image_no_effect:
  assumes "\<forall>ds. fst (generate_uml_image cfg env ingest body st) \<noteq> UmlCompleted ds"
  shows "r_static (snd (generate_uml_image cfg env ingest body st)) = r_static st \<and>
         r_remote (snd (generate_uml_image cfg env ingest body st)) = r_remote st \<and>
         (r_calls (snd (generate_uml_image cfg env ingest body st)) = r_calls st \<or>
          r_calls (snd (generate_uml_image cfg env ingest body st)) = r_calls st @ [CallModel 0])"
  using assms
  by (auto simp: generate_uml_image_def log_call_def Let_def split_def
           split: option.splits json.splits if_splits)

lemma concat_counts:
  assumes "\<And>x. length (f x) = length (filter P (g x)) \<and> length (filter P (g x)) \<le> length (filter Q (g x))"
  shows "length (concat (map f xs)) = length (filter P (concat (map g xs))) \<and>
         length (filter P (concat (map g xs))) \<le> length (filter Q (concat (map g xs)))"
proof (induction xs)
  case Nil
  then show ?case by simp
next
  case (Cons x xs)
  then show ?case using assms [of x] by simp
qed

lemma spec_counts:
  "length (spec_entries cfg env i sp) = length (filter is_push (spec_calls cfg env i sp)) \<and>
   length (filter is_push (spec_calls cfg env i sp)) \<le> length (filter is_fetch (spec_calls cfg env i sp))"
  by (cases sp) (auto simp: spec_entries_def spec_calls_def candidate_calls_def
      intro!: concat_counts split: option.splits prod.splits)

lemma generate_uml_image_completed_cases:
  assumes "fst (generate_uml_image cfg env ingest body st) = UmlCompleted ds"
  obtains v payload abstract instr reply where "body = Some v" and "request_payload v = Some payload"
    and "stripped_field payload ''abstract'' = Some abstract"
    and "stripped_field payload ''instructions'' = Some instr"
    and "model env 0 (prompt_list abstract) = Some reply"
    and "parse_specs (py_strip reply) \<noteq> []"
  using assms
  by (auto simp: generate_uml_image_def Let_def split_def split: option.splits json.splits if_splits prod.splits)

text \<open>C25. A completed answer lists exactly one diagram per push to the Ingestion endpoint, and no more pushes than image fetches were made during the request.\<close>

theorem generate_uml_image_asset_bound:
  assumes "fst (generate_uml_image cfg env ingest body st) = UmlCompleted ds"
  shows "\<exists>new. r_calls (snd (generate_uml_image cfg env ingest body st)) = r_calls st @ new \<and>
           length ds = length (filter is_push new) \<and>
           length (filter is_push new) \<le> length (filter is_fetch new)"
proof -
  obtain v payload abstract instr reply where b: "body = Some v" and
    h: "request_payload v = Some payload" "stripped_field payload ''abstract'' = Some abstract"
       "stripped_field payload ''instructions'' = Some instr"
       "model env 0 (prompt_list abstract) = Some reply" "parse_specs (py_strip reply) \<noteq> []"
    using assms by (rule generate_uml_image_completed_cases)
  let ?specs = "parse_specs (py_strip reply)"
  let ?new = "CallModel 0 # concat (map (\<lambda>(i, sp). spec_calls cfg env i sp) (enumerate 1 ?specs))"
  have g: "generate_uml_image cfg env ingest (Some v) st =
            (let R = render_specs cfg env ingest (json_get payload ''build_id'' (JStr ''default'')) 1
                       ?specs (log_call (CallModel 0) st) in
             (UmlCompleted (fst R), snd R))"
    by (rule generate_uml_image_completed [OF h])
  have ds: "ds = concat (map (\<lambda>(i, sp). spec_entries cfg env i sp) (enumerate 1 ?specs))"
    using assms by (simp add: b g Let_def render_specs_entries)
  have calls: "r_calls (snd (generate_uml_image cfg env ingest body st)) = r_calls st @ ?new"
    by (simp add: b g Let_def render_specs_calls log_call_def)
  have "length ds = length (filter is_push ?new) \<and> length (filter is_push ?new) \<le> length (filter is_fetch ?new)"
    unfolding ds by (simp add: split_def) (rule concat_counts, simp add: spec_counts)
  with calls show ?thesis by blast
qed

lemma first_fence_Some:
  "first_fence r = Some k \<longleftrightarrow>
   k < length r \<and> starts_with fence (drop k r) \<and> (\<forall>j<k. \<not> starts_with fence (drop j r))"
  by (auto simp: first_fence_def find_Some_iff)

lemma fence_free_before_first:
  assumes "first_fence r = Some k"
  shows "\<not> py_contains fence (take k r)"
proof
  assume "py_contains fence (take k r)"
  then obtain a c where ac: "take k r = a @ fence @ c" by (auto simp: py_contains_iff)
  then have lt: "length a < k" using assms by (auto simp: first_fence_Some fence_def dest!: arg_cong [where f = length])
  have "drop (length a) (take k r) = fence @ c" using ac by simp
  have "drop (length a) r = drop (length a) (take k r @ drop k r)" by simp
  also have "\<dots> = fence @ c @ drop k r" using ac by simp
  finally have "starts_with fence (drop (length a) r)" by (simp add: starts_with_append)
  with lt assms show False by (auto simp: first_fence_Some)
qed

text \<open>No PlantUML block extracted from a model answer contains the closing fence.\<close>

theorem extract_plantuml_fence_free:
  "list_all (\<lambda>b. \<not> py_contains ''```'' b) (extract_plantuml s)"
proof (induction s rule: extract_plantuml.induct)
  case (1 s)
  show ?case
  proof (cases "s = [] \<or> \<not> starts_with fence_open s")
    case True
    with 1 show ?thesis by (subst extract_plantuml.simps) auto
  next
    case False
    let ?body = "drop (ws_len (drop (length fence_open) s)) (drop (length fence_open) s)"
    show ?thesis
    proof (cases "first_fence ?body")
      case None
      with 1 False show ?thesis by (subst extract_plantuml.simps) (simp add: Let_def)
    next
      case (Some k)
      with 1 False fence_free_before_first [OF Some] show ?thesis
        by (subst extract_plantuml.simps) (simp add: Let_def fence_def)
    qed
  qed
qed

lemma ws_len_prefix:
  assumes "list_all py_isspace ws" and "t = [] \<or> \<not> py_isspace (hd t)"
  shows "ws_len (ws @ t) = length ws"
  using assms
proof (induction ws)
  case Nil
  then show ?case by (cases t) (auto simp: ws_len_def)
next
  case (Cons c ws)
  then show ?case by (simp add: ws_len_def)
qed

lemma fence_length: "length fence = 3"
  by (simp add: fence_def)

lemma no_fence_inside:
  assumes "\<not> py_contains fence (b @ ''``'')" and "j < length b"
  shows "\<not> starts_with fence (drop j (b @ fence @ rest))"
proof
  let ?b' = "b @ ''``''"
  assume st: "starts_with fence (drop j (b @ fence @ rest))"
  have e: "b @ fence @ rest = ?b' @ ''`'' @ rest" by (simp add: fence_def)
  have "drop j (b @ fence @ rest) = drop j ?b' @ ''`'' @ rest"
    using assms(2) by (simp add: e)
  moreover have "length (drop j ?b') \<ge> 3" using assms(2) by simp
  ultimately have "take 3 (drop j (b @ fence @ rest)) = take 3 (drop j ?b')"
    by (simp only: take_append diff_is_0_eq' take_0 append_Nil2)
  then have "take 3 (drop j ?b') = fence"
    using st by (simp only: starts_with_def fence_length)
  then have "?b' = take j ?b' @ fence @ drop 3 (drop j ?b')"
    by (metis append_take_drop_id)
  then show False using assms(1) by (metis py_contains_iff)
qed

lemma first_fence_block:
  assumes "\<not> py_contains fence (b @ ''``'')"
  shows "first_fence (b @ fence @ rest) = Some (length b)"
  using assms no_fence_inside by (auto simp: first_fence_Some fence_def starts_with_def)

text \<open>C33. A fenced block whose body does not start with whitespace and does not run into a closing fence is extracted verbatim, and extraction continues after its closing fence.\<close>

theorem extract_plantuml_block:
  assumes "list_all py_isspace ws" and "b = [] \<or> \<not> py_isspace (hd b)"
    and "\<not> py_contains ''```'' (b @ ''``'')"
  shows "extract_plantuml (''```plantuml'' @ ws @ b @ ''```'' @ rest) = b # extract_plantuml rest"
proof -
  have f: "\<not> py_contains fence (b @ ''``'')" using assms(3) by (simp add: fence_def)
  have hd: "b @ fence @ rest = [] \<or> \<not> py_isspace (hd (b @ fence @ rest))"
    using assms(2) by (cases b) (auto simp: fence_def py_isspace_def)
  have w: "ws_len (ws @ b @ fence @ rest) = length ws"
    using assms(1) hd by (rule ws_len_prefix)
  show ?thesis
    by (subst extract_plantuml.simps)
       (simp add: w first_fence_block [OF f] starts_with_def fence_open_def fence_length fence_def [symmetric])
qed

lemma static_path_file: "static_file cfg (static_path cfg (dtype_clean t) j)"
proof -
  let ?n = "diagram_file_name (dtype_clean t) (str_nat j)"
  have ns: "CHR ''/'' \<notin> set (dtype_clean t)"
    using dtype_clean_chars by (fastforce simp: name_char_def)
  then have "\<not> starts_with ''/'' ?n"
    by (cases "dtype_clean t") (auto simp: diagram_file_name_def starts_with_def)
  then have p: "static_path cfg (dtype_clean t) j = os_path_join (static_dir cfg) [] @ ?n"
    by (simp add: static_path_def os_path_join_split)
  have "CHR ''/'' \<notin> set ?n"
    using ns by (simp add: diagram_file_name_def str_nat_no_slash)
  moreover have "drop (length ?n - 4) ?n = ''.png''"
    by (simp add: diagram_file_name_def)
  ultimately show ?thesis
    by (simp add: static_file_def p starts_with_def Let_def)
qed

lemma render_candidates_static:
  assumes "static_inv cfg (r_static st)"
  shows "static_inv cfg (r_static (snd (render_candidates cfg env ingest bid idx (dtype_clean t) desc j umls st)))"
  using assms
proof (induction umls arbitrary: j st)
  case Nil
  then show ?case by simp
next
  case (Cons u umls)
  have "static_inv cfg (r_static (snd (render_candidate cfg env ingest bid idx (dtype_clean t) desc j u st)))"
    using Cons.prems static_path_file
    by (auto simp: render_candidate_eq static_inv_def fs_write_def split: option.splits)
  with Cons.IH show ?case by (simp only: render_candidates_Cons_snd)
qed

lemma render_specs_static:
  assumes "static_inv cfg (r_static st)"
  shows "static_inv cfg (r_static (snd (render_specs cfg env ingest bid idx specs st)))"
  using assms
proof (induction specs arbitrary: idx st)
  case Nil
  then show ?case by simp
next
  case (Cons sp sps)
  have "static_inv cfg (r_static (snd (render_spec cfg env ingest bid idx sp st)))"
    using Cons.prems
    by (cases sp) (auto simp: render_spec_def log_call_def Let_def intro!: render_candidates_static
                        split: option.splits)
  then show ?case by (simp only: render_specs_Cons snd_conv) (rule Cons.IH)
qed

lemma generate_uml_image_static:
  assumes "static_inv cfg (r_static st)"
  shows "static_inv cfg (r_static (snd (generate_uml_image cfg env ingest body st)))"
  using assms render_specs_static [of cfg "log_call (CallModel 0) st"]
  by (auto simp: generate_uml_image_def log_call_def Let_def split_def
           split: option.splits json.splits if_splits prod.splits)

text \<open>C12. Invariant of the agent's static directory: in every state the agent reaches
  from an empty directory, whatever the model, the renderer and the save outcomes, every
  file it holds lies directly inside \<^verbatim>\<open>static_dir\<close> (no further slash) and is named
  \<^verbatim>\<open>*.png\<close>: a planned diagram type never leads a write out of the directory.\<close>

theorem uml_reach_static:
  assumes "uml_reach cfg st"
  shows "static_inv cfg (r_static st)"
  using assms
proof (induction rule: uml_reach.induct)
  case (uml_start st)
  then show ?case by (simp add: static_inv_def)
next
  case (uml_request st env ingest body)
  from uml_request.IH show ?case by (rule generate_uml_image_static)
qed

text \<open>C13. Every candidate is attempted: when the planner phase succeeds, each PlantUML
  block extracted from the answer for each planned specification gets its render fetch,
  whatever the fetches, saves and pushes of the other candidates did.\<close>

theorem generate_uml_image_attempts_all:
  assumes "request_payload v = Some payload"
    and "stripped_field payload ''abstract'' = Some abstract"
    and "stripped_field payload ''instructions'' = Some instr"
    and "model env 0 (prompt_list abstract) = Some reply"
    and "(k, dtype, desc) \<in> set (enumerate 1 (parse_specs (py_strip reply)))"
    and "model env k (prompt_uml dtype desc) = Some r"
    and "(j, u) \<in> set (enumerate 1 (extract_plantuml r))"
  shows "CallFetch k j (plantuml_url cfg u) \<in> set (r_calls (snd (generate_uml_image cfg env ingest (Some v) st)))"
proof -
  let ?specs = "parse_specs (py_strip reply)"
  have ne: "?specs \<noteq> []" using assms(5) by auto
  have calls: "r_calls (snd (generate_uml_image cfg env ingest (Some v) st)) =
      r_calls st @ CallModel 0 # concat (map (\<lambda>(i, sp). spec_calls cfg env i sp) (enumerate 1 ?specs))"
    by (simp add: generate_uml_image_completed [OF assms(1-4) ne] Let_def render_specs_calls log_call_def)
  have "CallFetch k j (plantuml_url cfg u) \<in> set (spec_calls cfg env k (dtype, desc))"
    using assms(6,7) by (force simp: spec_calls_def candidate_calls_def)
  then have "CallFetch k j (plantuml_url cfg u) \<in> set (concat (map (\<lambda>(i, sp). spec_calls cfg env i sp) (enumerate 1 ?specs)))"
    using assms(5) by force
  then show ?thesis by (simp add: calls)
qed

text \<open>C21. The agent reads and strips the \<^verbatim>\<open>instructions\<close> field but never uses it: two
  requests that differ only in their (string) instructions get the same answer and have
  the same effects on the static directory, the outbound calls and the DocBuilder.\<close>

theorem generate_uml_image_ignores_instructions:
  "generate_uml_image cfg env ingest (Some (JDict ((''instructions'', JStr i1) # d))) st =
   generate_uml_image cfg env ingest (Some (JDict ((''instructions'', JStr i2) # d))) st"
proof -
  have "stripped_field ((''instructions'', JStr i) # d) ''abstract'' = stripped_field d ''abstract''"
    "stripped_field ((''instructions'', JStr i) # d) ''instructions'' = Some (py_strip i)"
    "json_get ((''instructions'', JStr i) # d) ''build_id'' (JStr ''default'') = json_get d ''build_id'' (JStr ''default'')"
    "request_payload (JDict ((''instructions'', JStr i) # d)) = Some ((''instructions'', JStr i) # d)" for i
    by (simp_all add: stripped_field_def json_get_Cons_other request_payload_def json_falsy_def)
       (simp add: json_get_def)
  then show ?thesis by (simp only: generate_uml_image_def option.case prod.case)
qed

section \<open>Witnesses\<close>

theorem generate_uml_image_diagrams_witness:
  "fst (generate_uml_image \<lparr>static_dir = ''static'', compress = id\<rparr>
          \<lparr>model = (\<lambda>i p. Some ''- Class: the entities''), fetch = (\<lambda>i j u. FetchRaised),
           save_ok = (\<lambda>p. True), push_delivered = (\<lambda>i j. True)\<rparr>
          (\<lambda>q r. r) (Some (JDict [(''abstract'', JStr ''A system''), (''instructions'', JStr ''x'')]))
          \<lparr>r_static = \<lparr>files = Map.empty, dirs = {}\<rparr>, r_calls = [], r_remote = ()\<rparr>) =
   UmlCompleted (expected_diagrams \<lparr>static_dir = ''static'', compress = id\<rparr>
          \<lparr>model = (\<lambda>i p. Some ''- Class: the entities''), fetch = (\<lambda>i j u. FetchRaised),
           save_ok = (\<lambda>p. True), push_delivered = (\<lambda>i j. True)\<rparr>
          (parse_specs (py_strip ''- Class: the entities'')))"
  apply (rule generate_uml_image_diagrams
      [where payload = "[(''abstract'', JStr ''A system''), (''instructions'', JStr ''x'')]"
         and abstract = "''A system''" and instr = "''x''"])
  apply code_simp+
  done

theorem generate_uml_image_no_effect_witness:
  "r_static (snd (generate_uml_image \<lparr>static_dir = ''static'', compress = id\<rparr>
      \<lparr>model = (\<lambda>i p. None), fetch = (\<lambda>i j u. FetchRaised), save_ok = (\<lambda>p. True), push_delivered = (\<lambda>i j. True)\<rparr>
      (\<lambda>q r. r) (Some (JDict [(''abstract'', JStr ''A system''), (''instructions'', JStr ''x'')]))
      \<lparr>r_static = \<lparr>files = Map.empty, dirs = {}\<rparr>, r_calls = [], r_remote = ()\<rparr>)) = \<lparr>files = Map.empty, dirs = {}\<rparr> \<and>
   r_remote (snd (generate_uml_image \<lparr>static_dir = ''static'', compress = id\<rparr>
      \<lparr>model = (\<lambda>i p. None), fetch = (\<lambda>i j u. FetchRaised), save_ok = (\<lambda>p. True), push_delivered = (\<lambda>i j. True)\<rparr>
      (\<lambda>q r. r) (Some (JDict [(''abstract'', JStr ''A system''), (''instructions'', JStr ''x'')]))
      \<lparr>r_static = \<lparr>files = Map.empty, dirs = {}\<rparr>, r_calls = [], r_remote = ()\<rparr>)) = () \<and>
   (r_calls (snd (generate_uml_image \<lparr>static_dir = ''static'', compress = id\<rparr>
      \<lparr>model = (\<lambda>i p. None), fetch = (\<lambda>i j u. FetchRaised), save_ok = (\<lambda>p. True), push_delivered = (\<lambda>i j. True)\<rparr>
      (\<lambda>q r. r) (Some (JDict [(''abstract'', JStr ''A system''), (''instructions'', JStr ''x'')]))
      \<lparr>r_static = \<lparr>files = Map.empty, dirs = {}\<rparr>, r_calls = [], r_remote = ()\<rparr>)) = [] \<or>
    r_calls (snd (generate_uml_image \<lparr>static_dir = ''static'', compress = id\<rparr>
      \<lparr>model = (\<lambda>i p. None), fetch = (\<lambda>i j u. FetchRaised), save_ok = (\<lambda>p. True), push_delivered = (\<lambda>i j. True)\<rparr>
      (\<lambda>q r. r) (Some (JDict [(''abstract'', JStr ''A system''), (''instructions'', JStr ''x'')]))
      \<lparr>r_static = \<lparr>files = Map.empty, dirs = {}\<rparr>, r_calls = [], r_remote = ()\<rparr>)) = [] @ [CallModel 0])"
proof -
  have f: "fst (generate_uml_image \<lparr>static_dir = ''static'', compress = id\<rparr>
      \<lparr>model = (\<lambda>i p. None), fetch = (\<lambda>i j u. FetchRaised), save_ok = (\<lambda>p. True), push_delivered = (\<lambda>i j. True)\<rparr>
      (\<lambda>q r. r) (Some (JDict [(''abstract'', JStr ''A system''), (''instructions'', JStr ''x'')]))
      \<lparr>r_static = \<lparr>files = Map.empty, dirs = {}\<rparr>, r_calls = [], r_remote = ()\<rparr>) = UmlFailed 500 ''diagram-list-failed''"
    by code_simp
  then have h: "\<forall>ds. fst (generate_uml_image \<lparr>static_dir = ''static'', compress = id\<rparr>
      \<lparr>model = (\<lambda>i p. None), fetch = (\<lambda>i j u. FetchRaised), save_ok = (\<lambda>p. True), push_delivered = (\<lambda>i j. True)\<rparr>
      (\<lambda>q r. r) (Some (JDict [(''abstract'', JStr ''A system''), (''instructions'', JStr ''x'')]))
      \<lparr>r_static = \<lparr>files = Map.empty, dirs = {}\<rparr>, r_calls = [], r_remote = ()\<rparr>) \<noteq> UmlCompleted ds"
    by simp
  from generate_uml_image_no_effect [OF h] show ?thesis by simp
qed

theorem generate_uml_image_asset_bound_witness:
  "\<exists>new. r_calls (snd (generate_uml_image \<lparr>static_dir = ''static'', compress = id\<rparr>
          \<lparr>model = (\<lambda>i p. Some ''- Class: the entities''), fetch = (\<lambda>i j u. FetchRaised),
           save_ok = (\<lambda>p. True), push_delivered = (\<lambda>i j. True)\<rparr>
          (\<lambda>q r. r) (Some (JDict [(''abstract'', JStr ''A system''), (''instructions'', JStr ''x'')]))
          \<lparr>r_static = \<lparr>files = Map.empty, dirs = {}\<rparr>, r_calls = [], r_remote = ()\<rparr>)) = [] @ new \<and>
     length ([] :: diagram_entry list) = length (filter is_push new) \<and>
     length (filter is_push new) \<le> length (filter is_fetch new)"
proof -
  have h: "fst (generate_uml_image \<lparr>static_dir = ''static'', compress = id\<rparr>
          \<lparr>model = (\<lambda>i p. Some ''- Class: the entities''), fetch = (\<lambda>i j u. FetchRaised),
           save_ok = (\<lambda>p. True), push_delivered = (\<lambda>i j. True)\<rparr>
          (\<lambda>q r. r) (Some (JDict [(''abstract'', JStr ''A system''), (''instructions'', JStr ''x'')]))
          \<lparr>r_static = \<lparr>files = Map.empty, dirs = {}\<rparr>, r_calls = [], r_remote = ()\<rparr>) = UmlCompleted []"
    by code_simp
  from generate_uml_image_asset_bound [OF h] show ?thesis by simp
qed

theorem extract_plantuml_block_witness:
  "extract_plantuml (''```plantuml'' @ '' '' @ ''A -> B'' @ ''```'' @ []) = ''A -> B'' # extract_plantuml []"
  apply (rule extract_plantuml_block)
  apply code_simp+
  done

theorem uml_reach_static_witness:
  "static_inv \<lparr>static_dir = ''static'', compress = id\<rparr>
     (r_static (snd (generate_uml_image \<lparr>static_dir = ''static'', compress = id\<rparr>
        \<lparr>model = (\<lambda>i p. if i = 0 then Some ''- Class: the classes'' else Some ''```plantuml A```''),
         fetch = (\<lambda>i j u. FetchResponse 200 (Some ''image/png'') [7]),
         save_ok = (\<lambda>p. True), push_delivered = (\<lambda>i j. False)\<rparr>
        (\<lambda>q r. r) (Some (JDict [(''abstract'', JStr ''A shop''), (''instructions'', JStr ''x'')]))
        \<lparr>r_static = \<lparr>files = Map.empty, dirs = {}\<rparr>, r_calls = [], r_remote = ()\<rparr>)))"
proof -
  have "uml_reach \<lparr>static_dir = ''static'', compress = id\<rparr>
     (snd (generate_uml_image \<lparr>static_dir = ''static'', compress = id\<rparr>
        \<lparr>model = (\<lambda>i p. if i = 0 then Some ''- Class: the classes'' else Some ''```plantuml A```''),
         fetch = (\<lambda>i j u. FetchResponse 200 (Some ''image/png'') [7]),
         save_ok = (\<lambda>p. True), push_delivered = (\<lambda>i j. False)\<rparr>
        (\<lambda>q r. r) (Some (JDict [(''abstract'', JStr ''A shop''), (''instructions'', JStr ''x'')]))
        \<lparr>r_static = \<lparr>files = Map.empty, dirs = {}\<rparr>, r_calls = [], r_remote = ()\<rparr>))"
    by (rule uml_request, rule uml_start) simp
  from uml_reach_static [OF this] show ?thesis .
qed

theorem generate_uml_image_attempts_all_witness:
  "CallFetch 1 2 (plantuml_url \<lparr>static_dir = ''static'', compress = id\<rparr> ''B'') \<in>
   set (r_calls (snd (generate_uml_image \<lparr>static_dir = ''static'', compress = id\<rparr>
     \<lparr>model = (\<lambda>i p. if i = 0 then Some ''- Class: the classes''
                     else Some (''```plantuml A```'' @ ''```plantuml B```'')),
      fetch = (\<lambda>i j u. if j = 1 then FetchRaised else FetchResponse 200 (Some ''image/png'') [7]),
      save_ok = (\<lambda>p. True), push_delivered = (\<lambda>i j. False)\<rparr>
     (\<lambda>q r. r) (Some (JDict [(''abstract'', JStr ''A shop''), (''instructions'', JStr ''x'')]))
     \<lparr>r_static = \<lparr>files = Map.empty, dirs = {}\<rparr>, r_calls = [], r_remote = ()\<rparr>)))"
proof -
  define env where "env = \<lparr>model = (\<lambda>i p. if i = 0 then Some ''- Class: the classes''
                     else Some (''```plantuml A```'' @ ''```plantuml B```'')),
      fetch = (\<lambda>i j u. if j = 1 then FetchRaised else FetchResponse 200 (Some ''image/png'') [7]),
      save_ok = (\<lambda>p. True), push_delivered = (\<lambda>i j. False)\<rparr>"
  have h: "(1, ''Class'', ''the classes'') \<in> set (enumerate 1 (parse_specs (py_strip ''- Class: the classes'')))"
    "(2, ''B'') \<in> set (enumerate 1 (extract_plantuml (''```plantuml A```'' @ ''```plantuml B```'')))"
    "request_payload (JDict [(''abstract'', JStr ''A shop''), (''instructions'', JStr ''x'')]) =
       Some [(''abstract'', JStr ''A shop''), (''instructions'', JStr ''x'')]"
    "stripped_field [(''abstract'', JStr ''A shop''), (''instructions'', JStr ''x'')] ''abstract'' = Some ''A shop''"
    "stripped_field [(''abstract'', JStr ''A shop''), (''instructions'', JStr ''x'')] ''instructions'' = Some ''x''"
    by code_simp+
  have "model env 0 (prompt_list ''A shop'') = Some ''- Class: the classes''"
    "model env 1 (prompt_uml ''Class'' ''the classes'') = Some (''```plantuml A```'' @ ''```plantuml B```'')"
    by (simp_all add: env_def)
  from generate_uml_image_attempts_all [OF h(3,4,5) this(1) h(1) this(2) h(2)]
  show ?thesis by (simp add: env_def)
qed

end
