(* ===== verification/Orchestrator.thy ===== *)
theory Orchestrator
  imports Renderer
begin

text \<open>
  The Build Orchestrator \<^verbatim>\<open>build_document\<close> of \<^verbatim>\<open>src/Service/Docbuilder.py\<close> (lines 104
  to 297) and its composition with the UML agent and the Ingestion endpoint.  A build
  asks the narrative service for Markdown, creates the build's diagram directory, asks
  the UML agent for diagrams under a fresh build id, then assembles the document: a
  cover, the Markdown body, and a diagrams section that embeds every image it finds in
  the build's directory; it saves the DOCX, converts it to PDF and writes an empty PPTX.

  The document is modelled as its list of blocks (\<open>block\<close>), in the order the code
  adds them; styles, fonts and the footer do not change the list, except that a code
  paragraph carries the paragraph properties \<^verbatim>\<open>set_shading_for_paragraph\<close> gives it
  (its later font, size and spacing are not modelled).  Everything the code
  does not compute is an oracle of \<open>build_env\<close>: the fresh \<^verbatim>\<open>uuid4\<close>, the narrative
  service's answer, the image conversion of \<^verbatim>\<open>sanitize_image\<close> (PIL), whether a file
  write succeeds, whether a picture can be embedded, the size of the saved DOCX, the
  PDF conversion, and the clock \<^verbatim>\<open>int(time.time())\<close>.  The UML agent is an interface
  parameter \<open>uml\<close>: a function from the request JSON and the DocBuilder's file system to
  the HTTP answer and the file system after the pushes it made; \<open>uml_service\<close>
  instantiates it with \<open>generate_uml_image\<close> pushing to \<open>ingest_diagram\<close>.
\<close>

section \<open>Python helpers: \<^verbatim>\<open>str.title\<close>, \<^verbatim>\<open>os.path.split\<close>, \<^verbatim>\<open>os.path.splitext\<close>\<close>

definition ascii_upper :: "char \<Rightarrow> bool" where
  "ascii_upper c \<longleftrightarrow> 65 \<le> (of_char c :: nat) \<and> (of_char c :: nat) \<le> 90"

definition ascii_lower :: "char \<Rightarrow> bool" where
  "ascii_lower c \<longleftrightarrow> 97 \<le> (of_char c :: nat) \<and> (of_char c :: nat) \<le> 122"

definition to_upper :: "char \<Rightarrow> char" where
  "to_upper c = (if ascii_lower c then char_of (of_char c - 32 :: nat) else c)"

definition to_lower :: "char \<Rightarrow> char" where
  "to_lower c = (if ascii_upper c then char_of (of_char c + 32 :: nat) else c)"

text \<open>\<^verbatim>\<open>str.title\<close>: a cased character is upper-cased when the character before it is not
  cased, lower-cased otherwise.  The cased characters are taken to be the ASCII letters:
  the diagram types the UML agent returns pass \<open>dtype_clean\<close>, which keeps ASCII
  letters, digits, space, underscore and hyphen only.\<close>

fun title_from :: "bool \<Rightarrow> string \<Rightarrow> string" where
  "title_from prev [] = []"
| "title_from prev (c # cs) =
     (if ascii_upper c \<or> ascii_lower c
      then (if prev then to_lower c else to_upper c) # title_from True cs
      else c # title_from False cs)"

definition py_title :: "string \<Rightarrow> string" where
  "py_title s = title_from False s"

definition rfind :: "char \<Rightarrow> string \<Rightarrow> nat option" where
  "rfind c s = find (\<lambda>i. s ! i = c) (rev [0..<length s])"

text \<open>\<^verbatim>\<open>posixpath.split\<close>: the head keeps everything up to the last slash, with its
  trailing slashes removed unless it consists of slashes only.\<close>

definition os_path_split :: "string \<Rightarrow> string \<times> string" where
  "os_path_split p =
     (let i = (case rfind CHR ''/'' p of None \<Rightarrow> 0 | Some k \<Rightarrow> Suc k);
          head = take i p; tail = drop i p in
      (if head \<noteq> [] \<and> \<not> list_all (\<lambda>c. c = CHR ''/'') head
       then rev (dropWhile (\<lambda>c. c = CHR ''/'') (rev head)) else head, tail))"

text \<open>\<^verbatim>\<open>posixpath.splitext\<close>: the extension starts at the last dot of the last path
  component, unless only dots precede it in that component.\<close>

definition os_path_splitext :: "string \<Rightarrow> string \<times> string" where
  "os_path_splitext p =
     (case rfind CHR ''.'' p of
        None \<Rightarrow> (p, [])
      | Some d \<Rightarrow>
          (let s = (case rfind CHR ''/'' p of None \<Rightarrow> 0 | Some k \<Rightarrow> Suc k) in
           if s \<le> d \<and> (\<exists>c\<in>set (drop s (take d p)). c \<noteq> CHR ''.'') then (take d p, drop d p) else (p, [])))"

section \<open>Paragraph shading (lines 58 to 65)\<close>

text \<open>An element of WordprocessingML: its qualified tag, its attributes in the order the
  code sets them, its children.  A paragraph's properties are the children of its
  \<^verbatim>\<open>w:pPr\<close> element, which \<^verbatim>\<open>get_or_add_pPr\<close> returns (empty on a fresh
  paragraph).\<close>

datatype xml = XElem string "(string \<times> string) list" "xml list"

text \<open>\<^verbatim>\<open>set_shading_for_paragraph(paragraph, fill_color)\<close>: a new \<^verbatim>\<open>w:shd\<close>
  element is appended to the paragraph's properties, after those already there.\<close>

definition set_shading_for_paragraph :: "xml list \<Rightarrow> string \<Rightarrow> xml list" where
  "set_shading_for_paragraph p_pr fill_color =
     p_pr @ [XElem ''w:shd'' [(''w:val'', ''clear''), (''w:color'', ''auto''), (''w:fill'', fill_color)] []]"

section \<open>Documents, oracles and state\<close>

datatype block =
    DHeading nat string
  | DPara string
  | DBoldPara string
  | DCaption
  | DPageBreak
  | DCode string "xml list"
  | DImage string

type_synonym document = "block list"

datatype http_reply = HttpOk json | HttpError nat | HttpRaised

record build_env =
  new_uuid :: string
  narrative :: "json \<Rightarrow> string option"
  pil_convert :: "bytes \<Rightarrow> bytes option"
  file_ok :: "string \<Rightarrow> bool"
  embed_ok :: "string \<Rightarrow> bool"
  docx_size :: "document \<Rightarrow> nat"
  pdf_ok :: bool
  now :: nat

datatype bcall = CallNarrative json | CallUml json

record bstate =
  b_fs :: fs
  b_docs :: "string \<rightharpoonup> document"
  b_calls :: "bcall list"

datatype build_reply =
    BuildOk nat "string option" "string option" "string option"
  | BuildError nat string
  | BuildBadJson
  | BuildCrashed

section \<open>The Markdown body (lines 202 to 226)\<close>

fun md_blocks :: "bool \<Rightarrow> string list \<Rightarrow> document" where
  "md_blocks code [] = []"
| "md_blocks code (line # ls) =
     (let cl = py_strip line in
      if py_contains ''```'' cl then md_blocks (\<not> code) ls
      else if code then DCode cl (set_shading_for_paragraph [] ''F1F1F1'') # md_blocks code ls
      else if starts_with ''# '' cl then DHeading 1 (py_strip (drop 2 cl)) # md_blocks code ls
      else if starts_with ''## '' cl then DHeading 2 (py_strip (drop 3 cl)) # md_blocks code ls
      else if starts_with ''### '' cl then DHeading 3 (py_strip (drop 4 cl)) # md_blocks code ls
      else if cl \<noteq> [] then DPara (filter (\<lambda>c. c \<noteq> CHR ''*'') cl) # md_blocks code ls
      else md_blocks code ls)"

section \<open>The cover (lines 174 to 181)\<close>

text \<open>\<^verbatim>\<open>data.get("instructions", "AI-Generated Documentation").split('\n')[0]\<close>: raises
  unless the value is a string (a JSON \<^verbatim>\<open>null\<close> included).\<close>

definition project_title :: "json_obj \<Rightarrow> string option" where
  "project_title d =
     (case json_get d ''instructions'' (JStr ''AI-Generated Documentation'') of
        JStr s \<Rightarrow> Some (takeWhile (\<lambda>c. c \<noteq> CHR 0x0A) s)
      | _ \<Rightarrow> None)"

definition cover_blocks :: "string \<Rightarrow> document" where
  "cover_blocks title = [DHeading 0 ''Technical Report'', DBoldPara title, DCaption, DPageBreak]"

section \<open>The diagrams section (lines 228 to 256)\<close>

text \<open>\<^verbatim>\<open>uml_resp.json().get("diagrams", [])\<close> followed by \<^verbatim>\<open>len(...)\<close>, inside the
  \<^verbatim>\<open>try\<close>: any failure (a raised request, a non-2xx status, a body that is not an
  object, a value without length) leaves the empty list.\<close>

definition diagram_specs :: "http_reply \<Rightarrow> json" where
  "diagram_specs r =
     (case r of
        HttpOk (JDict body) \<Rightarrow>
          (case json_get body ''diagrams'' (JList []) of
             JList xs \<Rightarrow> JList xs | JDict kvs \<Rightarrow> JDict kvs | JStr s \<Rightarrow> JStr s | _ \<Rightarrow> JList [])
      | _ \<Rightarrow> JList [])"

text \<open>What \<^verbatim>\<open>len\<close> and \<^verbatim>\<open>for\<close> see of the value: a list's elements, a dictionary's keys,
  a string's characters.\<close>

definition json_len :: "json \<Rightarrow> nat" where
  "json_len v = (case v of JList xs \<Rightarrow> length xs | JDict kvs \<Rightarrow> length kvs | JStr s \<Rightarrow> length s | _ \<Rightarrow> 0)"

definition json_iter :: "json \<Rightarrow> json list" where
  "json_iter v =
     (case v of JList xs \<Rightarrow> xs | JDict kvs \<Rightarrow> map (JStr \<circ> fst) kvs | JStr s \<Rightarrow> map (\<lambda>c. JStr [c]) s | _ \<Rightarrow> [])"

text \<open>\<^verbatim>\<open>doc.add_paragraph(text)\<close>: a false value gives an empty paragraph, a string its
  text; python-docx raises on any other value.\<close>

definition docx_text :: "json \<Rightarrow> string option" where
  "docx_text v = (case v of JStr s \<Rightarrow> Some s | _ \<Rightarrow> if json_falsy v then Some [] else None)"

definition diagram_title :: "string \<Rightarrow> string" where
  "diagram_title t = py_title (map (\<lambda>c. if c = CHR ''_'' \<or> c = CHR ''-'' then CHR '' '' else c) t)"

text \<open>\<^verbatim>\<open>sanitize_image(path)\<close> (lines 44 to 56): open the file, convert it, write it
  beside the original as \<^verbatim>\<open><name>_safe.png\<close>; any failure returns \<^verbatim>\<open>None\<close>.\<close>

definition safe_image_path :: "string \<Rightarrow> string" where
  "safe_image_path path =
     (let (directory, filename) = os_path_split path;
          name = fst (os_path_splitext filename) in
      os_path_join directory (name @ ''_safe.png''))"

definition sanitize_image :: "build_env \<Rightarrow> string \<Rightarrow> fs \<Rightarrow> string option \<times> fs" where
  "sanitize_image env path s =
     (case files s path of
        None \<Rightarrow> (None, s)
      | Some content \<Rightarrow>
          (case pil_convert env content of
             None \<Rightarrow> (None, s)
           | Some rgb \<Rightarrow>
               (let safe_path = safe_image_path path in
                if file_ok env safe_path then (Some safe_path, fs_write safe_path rgb s)
                else (None, s))))"

text \<open>One specification of the UML agent's answer (lines 233 to 256).  \<open>None\<close> is an
  uncaught exception: a specification that is not an object, a type that is not a
  string, a description python-docx rejects.\<close>

definition spec_blocks ::
  "build_env \<Rightarrow> string \<Rightarrow> json \<Rightarrow> fs \<Rightarrow> (document \<times> fs) option" where
  "spec_blocks env bdir spec s =
     (case spec of
        JDict sd \<Rightarrow>
          (case (json_get sd ''diagramType'' (JStr ''Diagram''), docx_text (json_get sd ''description'' (JStr []))) of
             (JStr dtr, Some desc) \<Rightarrow>
               (let img_path = os_path_join bdir (dtr @ ''_'' @ py_str (json_get sd ''index'' (JInt 1)) @ ''.png'');
                    head = [DHeading 2 (diagram_title dtr), DPara desc] in
                if img_path \<in> dom (files s) then
                  (case sanitize_image env img_path s of
                     (None, s1) \<Rightarrow> Some (head @ [DPara []], s1)
                   | (Some safe, s1) \<Rightarrow>
                       Some (head @ [if embed_ok env safe then DImage safe else DPara [], DPara []], s1))
                else Some (head @ [DPara []], s))
           | _ \<Rightarrow> None)
      | _ \<Rightarrow> None)"

fun specs_blocks :: "build_env \<Rightarrow> string \<Rightarrow> json list \<Rightarrow> fs \<Rightarrow> (document \<times> fs) option" where
  "specs_blocks env bdir [] s = Some ([], s)"
| "specs_blocks env bdir (sp # sps) s =
     (case spec_blocks env bdir sp s of
        None \<Rightarrow> None
      | Some (bs, s1) \<Rightarrow>
          (case specs_blocks env bdir sps s1 of
             None \<Rightarrow> None
           | Some (bs', s2) \<Rightarrow> Some (bs @ bs', s2)))"

definition diagrams_section :: "build_env \<Rightarrow> string \<Rightarrow> json \<Rightarrow> fs \<Rightarrow> (document \<times> fs) option" where
  "diagrams_section env bdir specs s =
     (case specs_blocks env bdir (json_iter specs) s of
        None \<Rightarrow> None
      | Some (bs, s1) \<Rightarrow> Some ((if json_len specs \<noteq> 0 then [DHeading 1 ''Diagrams''] else []) @ bs, s1))"

section \<open>The handler\<close>

definition narrative_request :: "json_obj \<Rightarrow> json" where
  "narrative_request d =
     JDict [(''code'', json_get d ''code'' JNull), (''project_info'', json_get d ''project_info'' JNull),
            (''instructions'', json_get d ''instructions'' JNull), (''pages'', json_get d ''pages'' (JInt 1)),
            (''return_format'', JStr ''markdown'')]"

definition uml_request :: "string \<Rightarrow> json_obj \<Rightarrow> json" where
  "uml_request bid d =
     JDict [(''build_id'', JStr bid), (''abstract'', json_get d ''abstract'' (JStr [])),
            (''instructions'', json_get d ''uml_instructions'' (JStr []))]"

definition combined_name :: "nat \<Rightarrow> string \<Rightarrow> string" where
  "combined_name ts ext = ''combined_'' @ str_nat ts @ ext"

text \<open>Lines 258 to 297: save the DOCX (a failure answers 500), convert it to PDF when it
  exists and is larger than 1000 bytes, save the empty presentation, and report the
  files that exist under the export directory.\<close>

definition save_outputs ::
  "string \<Rightarrow> build_env \<Rightarrow> json \<Rightarrow> document \<Rightarrow> bstate \<Rightarrow> build_reply \<times> bstate" where
  "save_outputs export_dir env specs doc st =
     (let docx_file = combined_name (now env) ''.docx''; pdf_file = combined_name (now env) ''.pdf'';
          pptx_file = combined_name (now env) ''.pptx'';
          docx_path = os_path_join export_dir docx_file; pdf_path = os_path_join export_dir pdf_file;
          pptx_path = os_path_join export_dir pptx_file in
      if \<not> file_ok env docx_path then (BuildError 500 ''DOCX save failed'', st)
      else
        (let d1 = (b_docs st)(docx_path \<mapsto> doc);
             d2 = (if docx_size env doc > 1000 \<and> pdf_ok env then d1(pdf_path \<mapsto> doc) else d1);
             d3 = (if file_ok env pptx_path then d2(pptx_path \<mapsto> []) else d2);
             present = (\<lambda>p f. if p \<in> dom d3 then Some f else None) in
         (BuildOk (json_len specs) (present docx_path docx_file) (present pdf_path pdf_file)
                  (present pptx_path pptx_file),
          st\<lparr>b_docs := d3\<rparr>)))"

definition log_bcall :: "bcall \<Rightarrow> bstate \<Rightarrow> bstate" where
  "log_bcall c st = st\<lparr>b_calls := b_calls st @ [c]\<rparr>"

definition build_document ::
  "string \<Rightarrow> build_env \<Rightarrow> (json \<Rightarrow> fs \<Rightarrow> http_reply \<times> fs) \<Rightarrow> json option \<Rightarrow> bstate \<Rightarrow>
   build_reply \<times> bstate" where
  "build_document export_dir env uml body st =
     (case body of
        None \<Rightarrow> (BuildBadJson, st)
      | Some (JDict d) \<Rightarrow>
          (let req = narrative_request d; st1 = log_bcall (CallNarrative req) st in
           case narrative env req of
             None \<Rightarrow> (BuildError 500 ''Failed to generate document content'', st1)
           | Some raw \<Rightarrow>
               if py_strip raw = [] then (BuildError 500 ''Empty markdown response'', st1)
               else
                 (let bid = new_uuid env;
                      bdir = os_path_join (os_path_join export_dir ''diagrams'') bid;
                      ureq = uml_request bid d;
                      (r, fs3) = uml ureq (fs_makedirs bdir (b_fs st1));
                      st3 = log_bcall (CallUml ureq) (st1\<lparr>b_fs := fs3\<rparr>);
                      specs = diagram_specs r in
                  case project_title d of
                    None \<Rightarrow> (BuildCrashed, st3)
                  | Some title \<Rightarrow>
                      (case diagrams_section env bdir specs fs3 of
                         None \<Rightarrow> (BuildCrashed, st3)
                       | Some (section, fs4) \<Rightarrow>
                           save_outputs export_dir env specs
                             (cover_blocks title @ md_blocks False (splitlines raw) @ section)
                             (st3\<lparr>b_fs := fs4\<rparr>))))
      | Some _ \<Rightarrow>
          (BuildError 500 ''Failed to generate document content'', st))"

section \<open>Composition with the UML agent\<close>

text \<open>The UML agent's JSON answer: \<^verbatim>\<open>jsonify\<close> of the handler's dictionary.  The
  duration (a float the DocBuilder never reads) is left out.\<close>

definition entry_json :: "diagram_entry \<Rightarrow> json" where
  "entry_json e =
     JDict [(''diagramType'', JStr (d_type e)), (''description'', JStr (d_desc e)),
            (''index'', JInt (int (d_index e))), (''path_local'', JStr (d_path e))]"

definition uml_http :: "uml_reply \<Rightarrow> http_reply" where
  "uml_http r =
     (case r of
        UmlCompleted ds \<Rightarrow> HttpOk (JDict [(''status'', JStr ''completed''), (''diagrams'', JList (map entry_json ds))])
      | UmlFailed code msg \<Rightarrow> HttpError code
      | UmlCrashed \<Rightarrow> HttpError 500
      | UmlBadJson \<Rightarrow> HttpError 400)"

text \<open>The UML agent as the DocBuilder sees it: its pushes run \<open>ingest_diagram\<close> on the
  DocBuilder's file system (whose answer the agent only logs); its own static directory
  starts from \<open>ust\<close>.\<close>

definition uml_service ::
  "uml_config \<Rightarrow> uml_env \<Rightarrow> fs \<Rightarrow> string \<Rightarrow> (string \<Rightarrow> bool) \<Rightarrow> json \<Rightarrow> fs \<Rightarrow> http_reply \<times> fs" where
  "uml_service cfg env ust diagr_dir write_ok req s =
     (let (r, st) = generate_uml_image cfg env (\<lambda>q s'. snd (ingest_diagram diagr_dir write_ok q s')) (Some req)
                      \<lparr>r_static = ust, r_calls = [], r_remote = s\<rparr> in
      (uml_http r, r_remote st))"

section \<open>Observations on documents\<close>

fun heading2 :: "block \<Rightarrow> bool" where
  "heading2 (DHeading n _) = (n = 2)"
| "heading2 _ = False"

fun is_image :: "block \<Rightarrow> bool" where
  "is_image (DImage _) = True"
| "is_image _ = False"

text \<open>Where the diagrams section looks for the image of a diagram the UML agent reported
  (lines 242 and 243), for an entry as the agent's JSON carries it.\<close>

definition entry_image_path :: "string \<Rightarrow> diagram_entry \<Rightarrow> string" where
  "entry_image_path bdir e = os_path_join bdir (diagram_file_name (d_type e) (str_nat (d_index e)))"

section \<open>The build's phases (the spec's state machine)\<close>

text \<open>The spec's per-build state machine: \<^verbatim>\<open>Created \<rightarrow> NarrativeRequested \<rightarrow>
  {NarrativeReady | NarrativeFailed}\<close>, \<^verbatim>\<open>NarrativeReady \<rightarrow> DiagramsRequested \<rightarrow>
  DiagramsReady \<rightarrow> Assembling \<rightarrow> {Completed | AssemblyFailed}\<close>, as the unlabelled
  \<open>build_step\<close>, and as the labelled machine \<open>ev_step\<close> whose transitions are the events
  a run shows: the narrative request, the narrative service's outcome, the request to the
  UML agent and the answer of the build.  \<open>run_events\<close> reads the events off a run: its
  calls, each narrative call labelled with what the service answered to it (an answer
  whose strip is non-empty, or not), and its reply.\<close>

datatype phase =
    Created | NarrativeRequested | NarrativeReady | NarrativeFailed | DiagramsRequested
  | DiagramsReady | Assembling | Completed | AssemblyFailed

inductive build_step :: "phase \<Rightarrow> phase \<Rightarrow> bool" where
  created: "build_step Created NarrativeRequested"
| narrative_ready: "build_step NarrativeRequested NarrativeReady"
| narrative_failed: "build_step NarrativeRequested NarrativeFailed"
| diagrams_requested: "build_step NarrativeReady DiagramsRequested"
| diagrams_ready: "build_step DiagramsRequested DiagramsReady"
| assembling: "build_step DiagramsReady Assembling"
| completed: "build_step Assembling Completed"
| assembly_failed: "build_step Assembling AssemblyFailed"

code_pred build_step .

fun phase_rank :: "phase \<Rightarrow> nat" where
  "phase_rank Created = 0" | "phase_rank NarrativeRequested = 1" | "phase_rank NarrativeFailed = 2"
| "phase_rank NarrativeReady = 3" | "phase_rank DiagramsRequested = 4" | "phase_rank DiagramsReady = 5"
| "phase_rank Assembling = 6" | "phase_rank AssemblyFailed = 7" | "phase_rank Completed = 8"

instantiation phase :: linorder
begin

definition less_eq_phase :: "phase \<Rightarrow> phase \<Rightarrow> bool" where
  "less_eq_phase p q \<longleftrightarrow> phase_rank p \<le> phase_rank q"

definition less_phase :: "phase \<Rightarrow> phase \<Rightarrow> bool" where
  "less_phase p q \<longleftrightarrow> phase_rank p < phase_rank q"

instance
proof
  fix p q :: phase
  show "p \<le> q \<or> q \<le> p" by (auto simp: less_eq_phase_def)
  show "p \<le> q \<Longrightarrow> q \<le> p \<Longrightarrow> p = q"
    by (cases p; cases q) (simp_all add: less_eq_phase_def)
qed (auto simp: less_eq_phase_def less_phase_def)

end

definition terminal :: "phase \<Rightarrow> bool" where
  "terminal p \<longleftrightarrow> p = NarrativeFailed \<or> p = Completed \<or> p = AssemblyFailed"

datatype build_event =
    EvNarrativeRequested | EvNarrativeAnswer bool | EvDiagramsRequested | EvAnswer bool

text \<open>The labelled machine.  The diagram phase cannot fail (the build goes on without
  diagrams), so \<open>DiagramsRequested\<close> is followed by the answer, 200 from \<open>Completed\<close>
  and an error from \<open>AssemblyFailed\<close>; a failed narrative admits only an error answer.\<close>

inductive ev_step :: "phase \<Rightarrow> build_event \<Rightarrow> phase \<Rightarrow> bool" where
  ev_request: "ev_step Created EvNarrativeRequested NarrativeRequested"
| ev_narrative_ok: "ev_step NarrativeRequested (EvNarrativeAnswer True) NarrativeReady"
| ev_narrative_failed: "ev_step NarrativeRequested (EvNarrativeAnswer False) NarrativeFailed"
| ev_diagrams: "ev_step NarrativeReady EvDiagramsRequested DiagramsRequested"
| ev_completed: "ev_step DiagramsRequested (EvAnswer True) Completed"
| ev_assembly_failed: "ev_step DiagramsRequested (EvAnswer False) AssemblyFailed"
| ev_report_failure: "ev_step NarrativeFailed (EvAnswer False) NarrativeFailed"

code_pred ev_step .

inductive spec_run :: "phase \<Rightarrow> build_event list \<Rightarrow> phase \<Rightarrow> bool" where
  run_nil: "spec_run p [] p"
| run_step: "ev_step p e q \<Longrightarrow> spec_run q es r \<Longrightarrow> spec_run p (e # es) r"

code_pred spec_run .

text \<open>The narrative service's answer is usable when it is there and not blank (lines 112
  to 129).\<close>

definition narrative_usable :: "build_env \<Rightarrow> json \<Rightarrow> bool" where
  "narrative_usable env q = (case narrative env q of None \<Rightarrow> False | Some raw \<Rightarrow> py_strip raw \<noteq> [])"

fun call_events :: "build_env \<Rightarrow> bcall \<Rightarrow> build_event list" where
  "call_events env (CallNarrative q) = [EvNarrativeRequested, EvNarrativeAnswer (narrative_usable env q)]"
| "call_events env (CallUml q) = [EvDiagramsRequested]"

definition build_ok :: "build_reply \<Rightarrow> bool" where
  "build_ok r = (case r of BuildOk _ _ _ _ \<Rightarrow> True | _ \<Rightarrow> False)"

definition run_events :: "build_env \<Rightarrow> bcall list \<Rightarrow> build_reply \<Rightarrow> build_event list" where
  "run_events env calls r = concat (map (call_events env) calls) @ [EvAnswer (build_ok r)]"

section \<open>Properties\<close>

inductive_cases build_step_from_terminal:
  "build_step NarrativeFailed q" "build_step Completed q" "build_step AssemblyFailed q"


text \<open>C8. When the narrative service fails or answers blank Markdown, the build answers 500 after that one call: the UML agent is never asked, no directory is created and no document is written.\<close>

theorem build_narrative_failure:
  assumes "narrative env (narrative_request d) = None \<or>
           (\<exists>raw. narrative env (narrative_request d) = Some raw \<and> py_strip raw = [])"
  shows "\<exists>msg. build_document export_dir env uml (Some (JDict d)) st =
           (BuildError 500 msg, st\<lparr>b_calls := b_calls st @ [CallNarrative (narrative_request d)]\<rparr>)"
  using assms by (auto simp: build_document_def log_bcall_def Let_def)

lemma build_document_narrative_ok:
  assumes "narrative env (narrative_request d) = Some raw" and "py_strip raw \<noteq> []"
  shows "build_document export_dir env uml (Some (JDict d)) st =
    (let bid = new_uuid env;
         bdir = os_path_join (os_path_join export_dir ''diagrams'') bid;
         ureq = uml_request bid d;
         R = uml ureq (fs_makedirs bdir (b_fs st));
         st3 = st\<lparr>b_fs := snd R, b_calls := b_calls st @ [CallNarrative (narrative_request d), CallUml ureq]\<rparr>;
         specs = diagram_specs (fst R) in
     case project_title d of
       None \<Rightarrow> (BuildCrashed, st3)
     | Some title \<Rightarrow>
         (case diagrams_section env bdir specs (snd R) of
            None \<Rightarrow> (BuildCrashed, st3)
          | Some (section, fs4) \<Rightarrow>
              save_outputs export_dir env specs
                (cover_blocks title @ md_blocks False (splitlines raw) @ section) (st3\<lparr>b_fs := fs4\<rparr>)))"
  using assms by (simp add: build_document_def log_bcall_def Let_def split_def)

lemma diagram_specs_not_ok: "(\<forall>j. r \<noteq> HttpOk j) \<Longrightarrow> diagram_specs r = JList []"
  by (cases r) (auto simp: diagram_specs_def)

lemma diagrams_section_empty: "diagrams_section env bdir (JList []) s = Some ([], s)"
  by (simp add: diagrams_section_def json_iter_def json_len_def)

lemma os_path_join_rel_inj:
  assumes "\<not> starts_with ''/'' x" and "\<not> starts_with ''/'' y" and "os_path_join a x = os_path_join a y"
  shows "x = y"
  using assms by (auto simp: os_path_join_def split: if_splits)

lemma combined_name_rel: "\<not> starts_with ''/'' (combined_name ts ext)"
  by (simp add: combined_name_def starts_with_def)

lemma combined_name_ext: "combined_name ts e1 = combined_name ts e2 \<Longrightarrow> e1 = e2"
  by (simp add: combined_name_def)

lemma export_path_inj:
  "os_path_join a (combined_name ts e1) = os_path_join a (combined_name ts e2) \<Longrightarrow> e1 = e2"
  by (rule combined_name_ext, rule os_path_join_rel_inj [OF combined_name_rel combined_name_rel])

lemma export_paths_distinct:
  "os_path_join a (combined_name ts ''.docx'') \<noteq> os_path_join a (combined_name ts ''.pdf'')"
  "os_path_join a (combined_name ts ''.docx'') \<noteq> os_path_join a (combined_name ts ''.pptx'')"
  "os_path_join a (combined_name ts ''.pdf'') \<noteq> os_path_join a (combined_name ts ''.pptx'')"
  by (fastforce dest: export_path_inj)+

text \<open>C9. A failing UML agent (a raised request or an error status) never stops a build whose narrative succeeded: the build answers 200 with zero diagrams and saves the document made of the cover and the Markdown body.\<close>

theorem build_survives_uml_failure:
  assumes "narrative env (narrative_request d) = Some raw" and "py_strip raw \<noteq> []"
    and "project_title d = Some title"
    and "\<forall>j. fst (uml (uml_request (new_uuid env) d)
              (fs_makedirs (os_path_join (os_path_join export_dir ''diagrams'') (new_uuid env)) (b_fs st))) \<noteq> HttpOk j"
    and "file_ok env (os_path_join export_dir (combined_name (now env) ''.docx''))"
  shows "\<exists>pdf pptx st'. build_document export_dir env uml (Some (JDict d)) st =
           (BuildOk 0 (Some (combined_name (now env) ''.docx'')) pdf pptx, st') \<and>
           b_docs st' (os_path_join export_dir (combined_name (now env) ''.docx'')) =
             Some (cover_blocks title @ md_blocks False (splitlines raw))"
  using assms
  by (simp add: build_document_narrative_ok diagram_specs_not_ok diagrams_section_empty
      save_outputs_def json_len_def Let_def export_paths_distinct export_paths_distinct [symmetric])

lemma py_str_nat: "py_str (JInt (int n)) = str_nat n"
  by (simp add: py_str_def str_int_def)

lemma spec_blocks_entry:
  "spec_blocks env bdir (entry_json e) s =
     (let head = [DHeading 2 (diagram_title (d_type e)), DPara (d_desc e)] in
      if entry_image_path bdir e \<in> dom (files s) then
        (case sanitize_image env (entry_image_path bdir e) s of
           (None, s1) \<Rightarrow> Some (head @ [DPara []], s1)
         | (Some safe, s1) \<Rightarrow> Some (head @ [if embed_ok env safe then DImage safe else DPara [], DPara []], s1))
      else Some (head @ [DPara []], s))"
  by (simp add: spec_blocks_def entry_json_def json_get_def docx_text_def py_str_nat
      entry_image_path_def diagram_file_name_def Let_def)

lemma spec_blocks_entry_Some: "\<exists>bs s'. spec_blocks env bdir (entry_json e) s = Some (bs, s')"
  by (cases "sanitize_image env (entry_image_path bdir e) s")
     (auto simp: spec_blocks_entry Let_def split: option.splits)

lemma spec_blocks_entry_heading:
  "spec_blocks env bdir (entry_json e) s = Some (bs, s') \<Longrightarrow>
   filter heading2 bs = [DHeading 2 (diagram_title (d_type e))]"
  by (cases "sanitize_image env (entry_image_path bdir e) s")
     (auto simp: spec_blocks_entry Let_def split: option.splits if_splits)

lemma specs_blocks_entries:
  "\<exists>bs s'. specs_blocks env bdir (map entry_json ds) s = Some (bs, s') \<and>
     filter heading2 bs = map (\<lambda>e. DHeading 2 (diagram_title (d_type e))) ds"
proof (induction ds arbitrary: s)
  case Nil
  then show ?case by simp
next
  case (Cons e ds)
  obtain bs1 s1 where b1: "spec_blocks env bdir (entry_json e) s = Some (bs1, s1)" and
    h1: "filter heading2 bs1 = [DHeading 2 (diagram_title (d_type e))]"
    using spec_blocks_entry_Some spec_blocks_entry_heading by blast
  obtain bs2 s2 where b2: "specs_blocks env bdir (map entry_json ds) s1 = Some (bs2, s2)" and
    h2: "filter heading2 bs2 = map (\<lambda>e. DHeading 2 (diagram_title (d_type e))) ds"
    using Cons.IH by blast
  show ?case using b1 b2 h1 h2 by simp
qed

lemma diagram_specs_completed: "diagram_specs (uml_http (UmlCompleted ds)) = JList (map entry_json ds)"
  by (simp add: diagram_specs_def uml_http_def json_get_def)

lemma diagrams_section_entries:
  "\<exists>bs s'. diagrams_section env bdir (JList (map entry_json ds)) s =
      Some ((if ds = [] then [] else [DHeading 1 ''Diagrams'']) @ bs, s') \<and>
    filter heading2 bs = map (\<lambda>e. DHeading 2 (diagram_title (d_type e))) ds"
  using specs_blocks_entries [of env bdir ds s]
  by (auto simp: diagrams_section_def json_iter_def json_len_def)

lemma build_document_entries:
  assumes "narrative env (narrative_request d) = Some raw" and "py_strip raw \<noteq> []"
    and "project_title d = Some title"
    and "diagram_specs (fst (uml (uml_request (new_uuid env) d)
           (fs_makedirs (os_path_join (os_path_join export_dir ''diagrams'') (new_uuid env)) (b_fs st)))) =
         JList (map entry_json ds)"
    and "file_ok env (os_path_join export_dir (combined_name (now env) ''.docx''))"
  shows "\<exists>pdf pptx st' section. build_document export_dir env uml (Some (JDict d)) st =
           (BuildOk (length ds) (Some (combined_name (now env) ''.docx'')) pdf pptx, st') \<and>
           b_docs st' (os_path_join export_dir (combined_name (now env) ''.docx'')) =
             Some (cover_blocks title @ md_blocks False (splitlines raw) @ section) \<and>
           filter heading2 section = map (\<lambda>e. DHeading 2 (diagram_title (d_type e))) ds"
proof -
  let ?b = "os_path_join (os_path_join export_dir ''diagrams'') (new_uuid env)"
  let ?s = "snd (uml (uml_request (new_uuid env) d) (fs_makedirs ?b (b_fs st)))"
  obtain bs s' where sec: "diagrams_section env ?b (JList (map entry_json ds)) ?s =
      Some ((if ds = [] then [] else [DHeading 1 ''Diagrams'']) @ bs, s')"
    and h: "filter heading2 bs = map (\<lambda>e. DHeading 2 (diagram_title (d_type e))) ds"
    using diagrams_section_entries by blast
  have h': "filter heading2 ((if ds = [] then [] else [DHeading 1 ''Diagrams'']) @ bs) =
            map (\<lambda>e. DHeading 2 (diagram_title (d_type e))) ds"
    using h by simp
  show ?thesis
    using assms(1,2,3,4,5) h' sec
    by (simp add: build_document_narrative_ok save_outputs_def json_len_def Let_def
        export_paths_distinct export_paths_distinct [symmetric])
qed

text \<open>C10. When the UML agent completes with a list of diagrams, the build reports that many diagrams and the saved document is the cover, the Markdown body and a diagrams section whose second-level headings are the titles of the diagram types, one per diagram, in the order the agent returned them.\<close>

theorem build_diagram_headings:
  assumes "narrative env (narrative_request d) = Some raw" and "py_strip raw \<noteq> []"
    and "project_title d = Some title"
    and "bdir = os_path_join (os_path_join export_dir ''diagrams'') (new_uuid env)"
    and "fst (uml (uml_request (new_uuid env) d) (fs_makedirs bdir (b_fs st))) = uml_http (UmlCompleted ds)"
    and "file_ok env (os_path_join export_dir (combined_name (now env) ''.docx''))"
  shows "\<exists>pdf pptx st' section. build_document export_dir env uml (Some (JDict d)) st =
           (BuildOk (length ds) (Some (combined_name (now env) ''.docx'')) pdf pptx, st') \<and>
           b_docs st' (os_path_join export_dir (combined_name (now env) ''.docx'')) =
             Some (cover_blocks title @ md_blocks False (splitlines raw) @ section) \<and>
           filter heading2 section = map (\<lambda>e. DHeading 2 (diagram_title (d_type e))) ds"
  using assms(4,5) diagram_specs_completed
  by (intro build_document_entries [OF assms(1-3) _ assms(6)]) simp


text \<open>C27. The section of a reported diagram embeds a picture exactly when its image file exists in the build directory, can be converted and written as a safe copy, and that copy can be embedded.\<close>

theorem spec_blocks_image:
  assumes "spec_blocks env bdir (entry_json e) s = Some (bs, s')"
  shows "(\<exists>p. DImage p \<in> set bs) \<longleftrightarrow>
         (\<exists>c rgb. files s (entry_image_path bdir e) = Some c \<and> pil_convert env c = Some rgb \<and>
            file_ok env (safe_image_path (entry_image_path bdir e)) \<and>
            embed_ok env (safe_image_path (entry_image_path bdir e)))"
  using assms
  by (auto simp: spec_blocks_entry sanitize_image_def Let_def domIff
           split: option.splits if_splits prod.splits)

lemma md_blocks_code:
  assumes "py_contains ''```'' (py_strip f)" and "list_all (\<lambda>l. \<not> py_contains ''```'' (py_strip l)) ls"
  shows "md_blocks True (ls @ f # rest) = map (\<lambda>l. DCode (py_strip l) (set_shading_for_paragraph [] ''F1F1F1'')) ls @ md_blocks False rest"
  using assms(2)
proof (induction ls)
  case Nil
  then show ?case using assms(1) by simp
next
  case (Cons l ls)
  then show ?case by (simp add: Let_def)
qed

text \<open>C34. Lines between two fence lines of the Markdown become code paragraphs, stripped and otherwise verbatim (no heading or emphasis processing), each shaded \<^verbatim>\<open>F1F1F1\<close> by a single \<^verbatim>\<open>w:shd\<close> element, and the scan resumes in text mode after the closing fence.\<close>

theorem md_blocks_fenced:
  assumes "py_contains ''```'' (py_strip f1)" and "py_contains ''```'' (py_strip f2)"
    and "list_all (\<lambda>l. \<not> py_contains ''```'' (py_strip l)) ls"
  shows "md_blocks False (f1 # ls @ f2 # rest) = map (\<lambda>l. DCode (py_strip l) (set_shading_for_paragraph [] ''F1F1F1'')) ls @ md_blocks False rest"
  using assms md_blocks_code [OF assms(2,3)] by (simp add: Let_def)


lemma build_step_rank: "build_step p q \<Longrightarrow> p < q"
  by (induction rule: build_step.induct) (simp_all add: less_phase_def)

lemma terminal_final: "terminal p \<Longrightarrow> \<not> build_step p q"
  by (auto simp: terminal_def elim: build_step_from_terminal)

lemma save_outputs_cases:
  "b_calls (snd (save_outputs export_dir env specs doc st)) = b_calls st \<and>
   (fst (save_outputs export_dir env specs doc st) = BuildError 500 ''DOCX save failed'' \<or>
    (\<exists>n a b c. fst (save_outputs export_dir env specs doc st) = BuildOk n a b c))"
  by (simp add: save_outputs_def Let_def)

lemma ev_step_build_steps: "ev_step p e q \<Longrightarrow> build_step\<^sup>*\<^sup>* p q"
  by (induction rule: ev_step.induct)
     (blast intro: build_step.intros converse_rtranclp_into_rtranclp rtranclp.rtrancl_refl)+

lemma spec_run_build_steps: "spec_run p es q \<Longrightarrow> build_step\<^sup>*\<^sup>* p q"
  by (induction rule: spec_run.induct) (auto dest: ev_step_build_steps)

lemma build_steps_mono: "build_step\<^sup>*\<^sup>* p q \<Longrightarrow> p \<le> q"
  by (induction rule: rtranclp_induct) (auto dest: build_step_rank)

lemma spec_run_narrative_failed:
  "spec_run Created [EvNarrativeRequested, EvNarrativeAnswer False, EvAnswer False] NarrativeFailed"
  by (blast intro: spec_run.intros ev_step.intros)

lemma spec_run_full:
  "spec_run Created [EvNarrativeRequested, EvNarrativeAnswer True, EvDiagramsRequested, EvAnswer b]
     (if b then Completed else AssemblyFailed)"
  by (cases b) (simp_all, (rule run_step ev_step.intros run_nil)+)

text \<open>C11. Every run of the build on a JSON object refines the spec's state machine: the
  events it shows (its narrative call labelled with the service's actual outcome, its call
  to the UML agent if any, its answer) are a run of the labelled machine from \<open>Created\<close>
  to a terminal phase, and the build answers 200 exactly when that phase is
  \<open>Completed\<close>.  So the UML agent is asked only after a usable narrative, and a failed
  narrative is answered by an error.\<close>

theorem build_document_refines_spec:
  "\<exists>new q. b_calls (snd (build_document export_dir env uml (Some (JDict d)) st)) = b_calls st @ new \<and>
     spec_run Created (run_events env new (fst (build_document export_dir env uml (Some (JDict d)) st))) q \<and>
     terminal q \<and> ((\<exists>n a b c. fst (build_document export_dir env uml (Some (JDict d)) st) = BuildOk n a b c) \<longleftrightarrow> q = Completed)"
proof (cases "narrative_usable env (narrative_request d)")
  case False
  then obtain msg where "build_document export_dir env uml (Some (JDict d)) st =
      (BuildError 500 msg, st\<lparr>b_calls := b_calls st @ [CallNarrative (narrative_request d)]\<rparr>)"
    by (auto simp: narrative_usable_def build_document_def log_bcall_def Let_def split: option.splits)
  then show ?thesis
    using False spec_run_narrative_failed
    by (auto simp: run_events_def build_ok_def terminal_def)
next
  case True
  then obtain raw where n: "narrative env (narrative_request d) = Some raw" "py_strip raw \<noteq> []"
    by (auto simp: narrative_usable_def split: option.splits)
  let ?R = "build_document export_dir env uml (Some (JDict d)) st"
  have c: "b_calls (snd ?R) = b_calls st @ [CallNarrative (narrative_request d),
             CallUml (uml_request (new_uuid env) d)]" and
       ok: "build_ok (fst ?R) \<longleftrightarrow> (\<exists>n a b c. fst ?R = BuildOk n a b c)"
    using save_outputs_cases [of export_dir env]
    by (auto simp: build_document_narrative_ok [OF n] build_ok_def Let_def
        split: option.splits prod.splits build_reply.splits)
  show ?thesis
    using True spec_run_full [of "build_ok (fst ?R)"] c ok
    by (auto simp: run_events_def terminal_def)
qed

section \<open>Witnesses\<close>

theorem build_narrative_failure_witness:
  "\<exists>msg. build_document ''exports'' \<lparr>new_uuid = ''u1'', narrative = (\<lambda>j. None), pil_convert = (\<lambda>b. Some b), file_ok = (\<lambda>p. True),
       embed_ok = (\<lambda>p. True), docx_size = (\<lambda>d. 2000), pdf_ok = True, now = 17\<rparr>
           (\<lambda>q s. (HttpRaised, s)) (Some (JDict [])) \<lparr>b_fs = \<lparr>files = Map.empty, dirs = {}\<rparr>, b_docs = Map.empty, b_calls = []\<rparr> =
         (BuildError 500 msg, \<lparr>b_fs = \<lparr>files = Map.empty, dirs = {}\<rparr>, b_docs = Map.empty, b_calls = []\<rparr>\<lparr>b_calls := b_calls \<lparr>b_fs = \<lparr>files = Map.empty, dirs = {}\<rparr>, b_docs = Map.empty, b_calls = []\<rparr> @ [CallNarrative (narrative_request [])]\<rparr>)"
  by (rule build_narrative_failure) simp

theorem build_survives_uml_failure_witness:
  "\<exists>pdf pptx st'. build_document ''exports'' \<lparr>new_uuid = ''u1'', narrative = (\<lambda>j. Some ''# Report''), pil_convert = (\<lambda>b. Some b), file_ok = (\<lambda>p. True),
       embed_ok = (\<lambda>p. True), docx_size = (\<lambda>d. 2000), pdf_ok = True, now = 17\<rparr>
           (\<lambda>q s. (HttpError 500, s)) (Some (JDict [])) \<lparr>b_fs = \<lparr>files = Map.empty, dirs = {}\<rparr>, b_docs = Map.empty, b_calls = []\<rparr> =
         (BuildOk 0 (Some (combined_name 17 ''.docx'')) pdf pptx, st') \<and>
         b_docs st' (os_path_join ''exports'' (combined_name 17 ''.docx'')) =
           Some (cover_blocks ''AI-Generated Documentation'' @ md_blocks False (splitlines ''# Report''))"
proof -
  define env where "env = \<lparr>new_uuid = ''u1'', narrative = (\<lambda>j. Some ''# Report''), pil_convert = (\<lambda>b. Some b), file_ok = (\<lambda>p. True),
       embed_ok = (\<lambda>p. True), docx_size = (\<lambda>d. 2000), pdf_ok = True, now = 17\<rparr>"
  define uml where "uml = (\<lambda>(q :: json) (s :: fs). (HttpError 500, s))"
  define st where "st = \<lparr>b_fs = \<lparr>files = Map.empty, dirs = {}\<rparr>, b_docs = Map.empty, b_calls = []\<rparr>"
  have h1: "narrative env (narrative_request []) = Some ''# Report''" by (simp add: env_def)
  have h2: "py_strip ''# Report'' \<noteq> []" by code_simp
  have h3: "project_title [] = Some ''AI-Generated Documentation''" by (simp add: project_title_def json_get_def)
  have h4: "\<forall>j. fst (uml (uml_request (new_uuid env) [])
              (fs_makedirs (os_path_join (os_path_join ''exports'' ''diagrams'') (new_uuid env)) (b_fs st))) \<noteq> HttpOk j"
    by (simp add: uml_def)
  have h5: "file_ok env (os_path_join ''exports'' (combined_name (now env) ''.docx''))" by (simp add: env_def)
  from build_survives_uml_failure [where uml = uml, OF h1 h2 h3 h4 h5] show ?thesis by (simp add: env_def uml_def st_def)
qed

theorem build_diagram_headings_witness:
  "\<exists>pdf pptx st' section. build_document ''exports'' \<lparr>new_uuid = ''u1'', narrative = (\<lambda>j. Some ''# Report''), pil_convert = (\<lambda>b. Some b), file_ok = (\<lambda>p. True),
       embed_ok = (\<lambda>p. True), docx_size = (\<lambda>d. 2000), pdf_ok = True, now = 17\<rparr>
           (\<lambda>q s. (uml_http (UmlCompleted [\<lparr>d_type = ''Class'', d_desc = ''the classes'', d_index = 1, d_path = ''static/Class_1.png''\<rparr>]), s)) (Some (JDict [])) \<lparr>b_fs = \<lparr>files = Map.empty, dirs = {}\<rparr>, b_docs = Map.empty, b_calls = []\<rparr> =
         (BuildOk (length [\<lparr>d_type = ''Class'', d_desc = ''the classes'', d_index = 1, d_path = ''static/Class_1.png''\<rparr>]) (Some (combined_name 17 ''.docx'')) pdf pptx, st') \<and>
         b_docs st' (os_path_join ''exports'' (combined_name 17 ''.docx'')) =
           Some (cover_blocks ''AI-Generated Documentation'' @ md_blocks False (splitlines ''# Report'') @ section) \<and>
         filter heading2 section = map (\<lambda>e. DHeading 2 (diagram_title (d_type e))) [\<lparr>d_type = ''Class'', d_desc = ''the classes'', d_index = 1, d_path = ''static/Class_1.png''\<rparr>]"
proof -
  define env where "env = \<lparr>new_uuid = ''u1'', narrative = (\<lambda>j. Some ''# Report''), pil_convert = (\<lambda>b. Some b), file_ok = (\<lambda>p. True),
       embed_ok = (\<lambda>p. True), docx_size = (\<lambda>d. 2000), pdf_ok = True, now = 17\<rparr>"
  define uml where "uml = (\<lambda>(q :: json) (s :: fs). (uml_http (UmlCompleted [\<lparr>d_type = ''Class'', d_desc = ''the classes'', d_index = 1, d_path = ''static/Class_1.png''\<rparr>]), s))"
  define st where "st = \<lparr>b_fs = \<lparr>files = Map.empty, dirs = {}\<rparr>, b_docs = Map.empty, b_calls = []\<rparr>"
  have h1: "narrative env (narrative_request []) = Some ''# Report''" by (simp add: env_def)
  have h2: "py_strip ''# Report'' \<noteq> []" by code_simp
  have h3: "project_title [] = Some ''AI-Generated Documentation''" by (simp add: project_title_def json_get_def)
  have h5: "fst (uml (uml_request (new_uuid env) [])
              (fs_makedirs (os_path_join (os_path_join ''exports'' ''diagrams'') (new_uuid env)) (b_fs st))) =
            uml_http (UmlCompleted [\<lparr>d_type = ''Class'', d_desc = ''the classes'', d_index = 1, d_path = ''static/Class_1.png''\<rparr>])"
    by (simp add: uml_def)
  have h6: "file_ok env (os_path_join ''exports'' (combined_name (now env) ''.docx''))" by (simp add: env_def)
  from build_diagram_headings [where uml = uml, OF h1 h2 h3 refl h5 h6] show ?thesis by (simp add: env_def uml_def st_def)
qed

theorem spec_blocks_image_witness:
  "(\<exists>p. DImage p \<in> set (fst (the (spec_blocks \<lparr>new_uuid = ''u1'', narrative = (\<lambda>j. None), pil_convert = (\<lambda>b. Some b), file_ok = (\<lambda>p. True),
       embed_ok = (\<lambda>p. True), docx_size = (\<lambda>d. 2000), pdf_ok = True, now = 17\<rparr> ''b1'' (entry_json \<lparr>d_type = ''Class'', d_desc = ''the classes'', d_index = 1, d_path = ''static/Class_1.png''\<rparr>)
        \<lparr>files = [''b1/Class_1.png'' \<mapsto> [7]], dirs = {}\<rparr>)))) \<longleftrightarrow>
   (\<exists>c rgb. files \<lparr>files = [''b1/Class_1.png'' \<mapsto> [7]], dirs = {}\<rparr> (entry_image_path ''b1'' \<lparr>d_type = ''Class'', d_desc = ''the classes'', d_index = 1, d_path = ''static/Class_1.png''\<rparr>) = Some c \<and>
      pil_convert \<lparr>new_uuid = ''u1'', narrative = (\<lambda>j. None), pil_convert = (\<lambda>b. Some b), file_ok = (\<lambda>p. True),
       embed_ok = (\<lambda>p. True), docx_size = (\<lambda>d. 2000), pdf_ok = True, now = 17\<rparr> c = Some rgb \<and>
      file_ok \<lparr>new_uuid = ''u1'', narrative = (\<lambda>j. None), pil_convert = (\<lambda>b. Some b), file_ok = (\<lambda>p. True),
       embed_ok = (\<lambda>p. True), docx_size = (\<lambda>d. 2000), pdf_ok = True, now = 17\<rparr> (safe_image_path (entry_image_path ''b1'' \<lparr>d_type = ''Class'', d_desc = ''the classes'', d_index = 1, d_path = ''static/Class_1.png''\<rparr>)) \<and>
      embed_ok \<lparr>new_uuid = ''u1'', narrative = (\<lambda>j. None), pil_convert = (\<lambda>b. Some b), file_ok = (\<lambda>p. True),
       embed_ok = (\<lambda>p. True), docx_size = (\<lambda>d. 2000), pdf_ok = True, now = 17\<rparr> (safe_image_path (entry_image_path ''b1'' \<lparr>d_type = ''Class'', d_desc = ''the classes'', d_index = 1, d_path = ''static/Class_1.png''\<rparr>)))"
proof -
  have "case spec_blocks \<lparr>new_uuid = ''u1'', narrative = (\<lambda>j. None), pil_convert = (\<lambda>b. Some b), file_ok = (\<lambda>p. True),
       embed_ok = (\<lambda>p. True), docx_size = (\<lambda>d. 2000), pdf_ok = True, now = 17\<rparr> ''b1'' (entry_json \<lparr>d_type = ''Class'', d_desc = ''the classes'', d_index = 1, d_path = ''static/Class_1.png''\<rparr>)
          \<lparr>files = [''b1/Class_1.png'' \<mapsto> [7]], dirs = {}\<rparr> of None \<Rightarrow> False | Some _ \<Rightarrow> True"
    by code_simp
  then have "spec_blocks \<lparr>new_uuid = ''u1'', narrative = (\<lambda>j. None), pil_convert = (\<lambda>b. Some b), file_ok = (\<lambda>p. True),
       embed_ok = (\<lambda>p. True), docx_size = (\<lambda>d. 2000), pdf_ok = True, now = 17\<rparr> ''b1'' (entry_json \<lparr>d_type = ''Class'', d_desc = ''the classes'', d_index = 1, d_path = ''static/Class_1.png''\<rparr>)
          \<lparr>files = [''b1/Class_1.png'' \<mapsto> [7]], dirs = {}\<rparr> =
        Some (fst (the (spec_blocks \<lparr>new_uuid = ''u1'', narrative = (\<lambda>j. None), pil_convert = (\<lambda>b. Some b), file_ok = (\<lambda>p. True),
       embed_ok = (\<lambda>p. True), docx_size = (\<lambda>d. 2000), pdf_ok = True, now = 17\<rparr> ''b1'' (entry_json \<lparr>d_type = ''Class'', d_desc = ''the classes'', d_index = 1, d_path = ''static/Class_1.png''\<rparr>)
          \<lparr>files = [''b1/Class_1.png'' \<mapsto> [7]], dirs = {}\<rparr>)),
              snd (the (spec_blocks \<lparr>new_uuid = ''u1'', narrative = (\<lambda>j. None), pil_convert = (\<lambda>b. Some b), file_ok = (\<lambda>p. True),
       embed_ok = (\<lambda>p. True), docx_size = (\<lambda>d. 2000), pdf_ok = True, now = 17\<rparr> ''b1'' (entry_json \<lparr>d_type = ''Class'', d_desc = ''the classes'', d_index = 1, d_path = ''static/Class_1.png''\<rparr>)
          \<lparr>files = [''b1/Class_1.png'' \<mapsto> [7]], dirs = {}\<rparr>)))"
    by (auto split: option.splits)
  then show ?thesis by (rule spec_blocks_image)
qed

theorem md_blocks_fenced_witness:
  "md_blocks False (''```python'' # [''  x = 1 # not a heading''] @ ''```'' # [''# Next'']) =
   map (\<lambda>l. DCode (py_strip l) (set_shading_for_paragraph [] ''F1F1F1'')) [''  x = 1 # not a heading''] @ md_blocks False [''# Next'']"
  by (rule md_blocks_fenced) code_simp+

end
