(* ===== verification/Endpoints.thy ===== *)
theory Endpoints
  imports Orchestrator
begin

text \<open>
  The two remaining routes of \<^verbatim>\<open>src/Service/Docbuilder.py\<close> and the service as a whole:
  the proxy \<^verbatim>\<open>proxy_uml\<close> (lines 68 to 80), which forwards a request to the UML agent and
  relays its JSON answer and status, and \<^verbatim>\<open>download_file\<close> (lines 300 to 305), which
  serves a file of the export directory.  \<open>docbuilder_step\<close> dispatches one HTTP request
  to its handler on the service's state \<open>bstate\<close>, so that runs of the service are
  sequences of steps.  It also holds what two successive builds share: their output
  names when they run in the same second.
\<close>

section \<open>The proxy (lines 68 to 80)\<close>

text \<open>The UML agent's HTTP answer as \<^verbatim>\<open>requests\<close> sees it: a status and a body that is
  JSON (\<open>Some\<close>) or an HTML error page of Flask (\<open>None\<close>, on which \<^verbatim>\<open>resp.json()\<close>
  raises).  The completed answer's \<^verbatim>\<open>duration\<close> is left out, as in \<open>entry_json\<close>.\<close>

definition uml_response :: "uml_reply \<Rightarrow> nat \<times> json option" where
  "uml_response r =
     (case r of
        UmlCompleted ds \<Rightarrow> (200, Some (JDict [(''status'', JStr ''completed''), (''diagrams'', JList (map entry_json ds))]))
      | UmlFailed code msg \<Rightarrow> (code, Some (JDict [(''error'', JStr msg)]))
      | UmlCrashed \<Rightarrow> (500, None)
      | UmlBadJson \<Rightarrow> (400, None))"

datatype proxy_reply = ProxyForward nat json | ProxyBadJson | ProxyCrashed

text \<open>The JSON body the proxy posts (lines 74 to 78): the three fields, with their
  defaults, passed on as they are.\<close>

definition proxy_payload :: "json_obj \<Rightarrow> json_obj" where
  "proxy_payload d =
     [(''build_id'', json_get d ''build_id'' (JStr ''default'')),
      (''abstract'', json_get d ''abstract'' (JStr [])),
      (''instructions'', json_get d ''instructions'' (JStr []))]"

text \<open>\<^verbatim>\<open>post\<close> is the HTTP call with the state it may change (\<open>None\<close>: \<^verbatim>\<open>requests\<close>
  raised, a timeout or a refused connection).  An unparsable body is answered 400 by
  Flask; a body that is not an object makes \<^verbatim>\<open>payload.get\<close> raise (500); so does a
  non-JSON answer of the agent.\<close>

definition proxy_uml ::
  "(json \<Rightarrow> 's \<Rightarrow> (nat \<times> json option) option \<times> 's) \<Rightarrow> json option \<Rightarrow> 's \<Rightarrow> proxy_reply \<times> 's" where
  "proxy_uml post body s =
     (case body of
        None \<Rightarrow> (ProxyBadJson, s)
      | Some (JDict d) \<Rightarrow>
          (case post (JDict (proxy_payload d)) s of
             (Some (code, Some j), s') \<Rightarrow> (ProxyForward code j, s')
           | (_, s') \<Rightarrow> (ProxyCrashed, s'))
      | Some _ \<Rightarrow> (ProxyCrashed, s))"

text \<open>The UML agent behind the proxy, pushing its images to the DocBuilder's Ingestion
  endpoint as in \<open>uml_service\<close>.\<close>

definition agent_post ::
  "uml_config \<Rightarrow> uml_env \<Rightarrow> fs \<Rightarrow> string \<Rightarrow> (string \<Rightarrow> bool) \<Rightarrow> json \<Rightarrow> fs \<Rightarrow>
   (nat \<times> json option) option \<times> fs" where
  "agent_post cfg env ust diagr_dir write_ok j s =
     (let (r, st) = generate_uml_image cfg env (\<lambda>q s'. snd (ingest_diagram diagr_dir write_ok q s')) (Some j)
                      \<lparr>r_static = ust, r_calls = [], r_remote = s\<rparr> in
      (Some (uml_response r), r_remote st))"

section \<open>Downloads (lines 300 to 305)\<close>

datatype download_reply = DownloadSent string string | DownloadNotFound

text \<open>\<^verbatim>\<open>isfile\<close> is \<^verbatim>\<open>os.path.isfile\<close> on the server's file system.  The route's
  \<^verbatim>\<open>filetype\<close> is not read.\<close>

definition download_file :: "string \<Rightarrow> (string \<Rightarrow> bool) \<Rightarrow> string \<Rightarrow> string \<Rightarrow> download_reply" where
  "download_file export_dir isfile filetype filename =
     (let full_path = os_path_join export_dir filename in
      if \<not> isfile full_path then DownloadNotFound else DownloadSent full_path filename)"

text \<open>The regular files of the DocBuilder: the saved documents and the files written
  into its file system (ingested diagrams and their sanitised copies).\<close>

definition db_isfile :: "bstate \<Rightarrow> string \<Rightarrow> bool" where
  "db_isfile st p \<longleftrightarrow> p \<in> dom (b_docs st) \<or> p \<in> dom (files (b_fs st))"

section \<open>The service: one request, one step\<close>

datatype db_request =
    ReqIngest ingest_request
  | ReqBuild "json option"
  | ReqDownload string string
  | ReqProxy "json option"

datatype db_reply =
    RepIngest ingest_reply
  | RepBuild build_reply
  | RepDownload download_reply
  | RepProxy proxy_reply

text \<open>\<open>EXPORT_DIR\<close> and \<open>DIAGR_DIR = os.path.join(EXPORT_DIR, "diagrams")\<close> (lines 38
  and 39); the oracles of one request are those of its handler.\<close>

definition docbuilder_step ::
  "string \<Rightarrow> build_env \<Rightarrow> (json \<Rightarrow> fs \<Rightarrow> http_reply \<times> fs) \<Rightarrow>
   (json \<Rightarrow> fs \<Rightarrow> (nat \<times> json option) option \<times> fs) \<Rightarrow> (string \<Rightarrow> bool) \<Rightarrow>
   db_request \<Rightarrow> bstate \<Rightarrow> db_reply \<times> bstate" where
  "docbuilder_step export_dir env uml post write_ok req st =
     (case req of
        ReqIngest r \<Rightarrow>
          (let (rep, fs') = ingest_diagram (os_path_join export_dir ''diagrams'') write_ok r (b_fs st) in
           (RepIngest rep, st\<lparr>b_fs := fs'\<rparr>))
      | ReqBuild body \<Rightarrow>
          (let (rep, st') = build_document export_dir env uml body st in (RepBuild rep, st'))
      | ReqDownload filetype filename \<Rightarrow>
          (RepDownload (download_file export_dir (db_isfile st) filetype filename), st)
      | ReqProxy body \<Rightarrow>
          (let (rep, fs') = proxy_uml post body (b_fs st) in (RepProxy rep, st\<lparr>b_fs := fs'\<rparr>)))"

text \<open>The states a run of the service reaches from \<open>st\<close>: any sequence of requests, each
  with the oracles of its own moment.\<close>

inductive db_reach :: "string \<Rightarrow> bstate \<Rightarrow> bstate \<Rightarrow> bool" for export_dir where
  db_refl: "db_reach export_dir st st"
| db_step: "db_reach export_dir st st' \<Longrightarrow>
            db_reach export_dir st (snd (docbuilder_step export_dir env uml post write_ok req st'))"

section \<open>Properties\<close>

lemma request_payload_dict: "request_payload (JDict d) = Some (if d = [] then [] else d)"
  by (simp add: request_payload_def json_falsy_def)

text \<open>The agent reads its request only through the three fields the proxy copies.\<close>

lemma generate_uml_image_proxy_payload:
  "generate_uml_image cfg env ingest (Some (JDict (proxy_payload d))) st =
   generate_uml_image cfg env ingest (Some (JDict d)) st"
proof -
  have f: "stripped_field (proxy_payload d) ''abstract'' = stripped_field (if d = [] then [] else d) ''abstract''"
    "stripped_field (proxy_payload d) ''instructions'' = stripped_field (if d = [] then [] else d) ''instructions''"
    "json_get (proxy_payload d) ''build_id'' (JStr ''default'') =
     json_get (if d = [] then [] else d) ''build_id'' (JStr ''default'')"
    by (auto simp: stripped_field_def json_get_def proxy_payload_def)
  have "request_payload (JDict (proxy_payload d)) = Some (proxy_payload d)"
    by (simp add: request_payload_dict proxy_payload_def)
  then show ?thesis
    by (simp only: generate_uml_image_def request_payload_dict option.case f json.case)
qed

text \<open>C15. The proxy is transparent: a request sent to \<^verbatim>\<open>/generate-uml\<close> gets the UML
  agent's answer to the same request sent directly (same status and JSON body, same
  pushes to the Ingestion endpoint), except that the agent's HTML error pages (a crash,
  an unparsable body) become a 500 of the proxy.\<close>

theorem proxy_uml_transparent:
  "proxy_uml (agent_post cfg env ust diagr_dir write_ok) (Some (JDict d)) s =
   (let (r, st) = generate_uml_image cfg env (\<lambda>q s'. snd (ingest_diagram diagr_dir write_ok q s')) (Some (JDict d))
                    \<lparr>r_static = ust, r_calls = [], r_remote = s\<rparr> in
    (case uml_response r of (code, Some j) \<Rightarrow> ProxyForward code j | (code, None) \<Rightarrow> ProxyCrashed, r_remote st))"
proof -
  obtain r st where g: "generate_uml_image cfg env (\<lambda>q s'. snd (ingest_diagram diagr_dir write_ok q s'))
      (Some (JDict d)) \<lparr>r_static = ust, r_calls = [], r_remote = s\<rparr> = (r, st)"
    by fastforce
  then show ?thesis
    by (simp add: proxy_uml_def agent_post_def generate_uml_image_proxy_payload split: option.splits prod.splits)
qed

text \<open>C18. Downloads stay in the export directory: a route filename (which Flask's default
  converter keeps free of slashes) is only served as the file of that name directly
  inside \<open>EXPORT_DIR\<close>, and only when that file exists; an uploaded diagram, two levels
  below, can never be served.\<close>

theorem download_confined:
  assumes "download_file export_dir (db_isfile st) filetype filename = DownloadSent p n"
    and "CHR ''/'' \<notin> set filename"
    and "export_dir \<noteq> []" and "last export_dir \<noteq> CHR ''/''"
  shows "p = export_dir @ ''/'' @ filename \<and> n = filename \<and> db_isfile st p"
proof -
  have "\<not> starts_with ''/'' filename" using assms(2) by (cases filename) (auto simp: starts_with_def)
  then show ?thesis using assms
    by (auto simp: download_file_def os_path_join_relative Let_def split: if_splits)
qed

lemma save_outputs_present:
  assumes "fst (save_outputs export_dir env specs doc st) = BuildOk n a b c"
    and "f \<in> set_option a \<union> set_option b \<union> set_option c"
  shows "os_path_join export_dir f \<in> dom (b_docs (snd (save_outputs export_dir env specs doc st)))"
  using assms by (auto simp: save_outputs_def Let_def split: if_splits)

lemma build_document_ok_saved:
  assumes "build_document export_dir env uml body st = (BuildOk n a b c, st')"
  obtains specs doc st0 where "save_outputs export_dir env specs doc st0 = (BuildOk n a b c, st')"
    and "b_docs st0 = b_docs st"
  using assms
  by (auto simp: build_document_def log_bcall_def Let_def split_def split: option.splits json.splits if_splits)

text \<open>A saved build names its DOCX by the clock alone, reports a PDF exactly when a file
  is at the PDF path afterwards, and leaves that path alone when its conversion fails.\<close>

lemma save_outputs_ok:
  assumes "save_outputs export_dir env specs doc st = (BuildOk n a p x, st')"
  shows "a = Some (combined_name (now env) ''.docx'') \<and>
         p = (if os_path_join export_dir (combined_name (now env) ''.pdf'') \<in> dom (b_docs st')
              then Some (combined_name (now env) ''.pdf'') else None) \<and>
         (\<not> pdf_ok env \<longrightarrow> b_docs st' (os_path_join export_dir (combined_name (now env) ''.pdf'')) =
                          b_docs st (os_path_join export_dir (combined_name (now env) ''.pdf'')))"
  using assms export_paths_distinct [of export_dir "now env"]
  by (auto simp: save_outputs_def Let_def split: if_splits)

lemma build_document_present:
  assumes "build_document export_dir env uml body st = (BuildOk n a b c, st')"
    and "f \<in> set_option a \<union> set_option b \<union> set_option c"
  shows "os_path_join export_dir f \<in> dom (b_docs st')"
proof -
  obtain specs doc st0 where s: "save_outputs export_dir env specs doc st0 = (BuildOk n a b c, st')"
    using assms(1) by (rule build_document_ok_saved)
  from save_outputs_present [of export_dir env specs doc st0, OF _ assms(2)] show ?thesis
    by (simp add: s)
qed

lemma save_outputs_docs_mono:
  "b_docs st' = b_docs st \<Longrightarrow> dom (b_docs st) \<subseteq> dom (b_docs (snd (save_outputs export_dir env specs doc st')))"
  by (auto simp: save_outputs_def Let_def)

lemma build_document_docs_mono:
  "dom (b_docs st) \<subseteq> dom (b_docs (snd (build_document export_dir env uml body st)))"
proof (cases "\<exists>d raw. body = Some (JDict d) \<and> narrative env (narrative_request d) = Some raw \<and> py_strip raw \<noteq> []")
  case True
  then obtain d raw where b: "body = Some (JDict d)"
    and n: "narrative env (narrative_request d) = Some raw" "py_strip raw \<noteq> []" by blast
  show ?thesis
    by (simp add: b build_document_narrative_ok [OF n] save_outputs_docs_mono Let_def
        split: option.splits prod.splits)
next
  case False
  then have "snd (build_document export_dir env uml body st) = st \<or>
             (\<exists>d. snd (build_document export_dir env uml body st) = log_bcall (CallNarrative (narrative_request d)) st)"
    by (auto simp: build_document_def Let_def split: option.splits json.splits)
  then show ?thesis by (auto simp: log_bcall_def)
qed

lemma docbuilder_step_docs_mono:
  "dom (b_docs st) \<subseteq> dom (b_docs (snd (docbuilder_step export_dir env uml post write_ok req st)))"
  using build_document_docs_mono [of st export_dir env uml]
  by (cases req) (auto simp: docbuilder_step_def split_def Let_def)

lemma db_reach_docs_mono: "db_reach export_dir st st' \<Longrightarrow> dom (b_docs st) \<subseteq> dom (b_docs st')"
  by (induction rule: db_reach.induct) (use docbuilder_step_docs_mono in blast)+

text \<open>C14. What a build reports stays downloadable: after a build answers 200 naming a
  DOCX, PDF or PPTX file, in every state the service reaches by later requests of any
  kind (ingests, builds, downloads, proxied requests) the download route serves that file.\<close>

theorem reported_outputs_stay_downloadable:
  assumes "docbuilder_step export_dir env uml post write_ok (ReqBuild body) st0 = (RepBuild (BuildOk n a b c), st1)"
    and "db_reach export_dir st1 st2"
    and "f \<in> set_option a \<union> set_option b \<union> set_option c"
  shows "download_file export_dir (db_isfile st2) filetype f = DownloadSent (os_path_join export_dir f) f"
proof -
  have "build_document export_dir env uml body st0 = (BuildOk n a b c, st1)"
    using assms(1) by (auto simp: docbuilder_step_def split_def Let_def prod_eq_iff)
  then have "os_path_join export_dir f \<in> dom (b_docs st1)"
    using assms(3) by (rule build_document_present)
  with db_reach_docs_mono [OF assms(2)] have "os_path_join export_dir f \<in> dom (b_docs st2)"
    by (rule subsetD)
  then show ?thesis by (simp add: download_file_def db_isfile_def)
qed

text \<open>C17. Outputs are named by the second only (\<^verbatim>\<open>combined_{int(time.time())}\<close>):
  two builds in the same second report the same DOCX name, so the second build's DOCX
  replaces the file the first one reported; and when the second build's PDF conversion
  fails, it reports a PDF exactly when the first build did, and that file is still the
  first build's.  The spec promises that concurrent builds never collide.\<close>

theorem same_second_builds_collide:
  assumes "build_document export_dir env1 uml1 body1 st0 = (BuildOk n1 a1 p1 x1, st1)"
    and "build_document export_dir env2 uml2 body2 st1 = (BuildOk n2 a2 p2 x2, st2)"
    and "now env2 = now env1"
  shows "a2 = a1 \<and>
         (\<not> pdf_ok env2 \<longrightarrow> p2 = p1 \<and>
            b_docs st2 (os_path_join export_dir (combined_name (now env1) ''.pdf'')) =
            b_docs st1 (os_path_join export_dir (combined_name (now env1) ''.pdf'')))"
proof -
  obtain sp1 doc1 s1 where o1: "save_outputs export_dir env1 sp1 doc1 s1 = (BuildOk n1 a1 p1 x1, st1)"
    using assms(1) by (rule build_document_ok_saved)
  obtain sp2 doc2 s2 where o2: "save_outputs export_dir env2 sp2 doc2 s2 = (BuildOk n2 a2 p2 x2, st2)"
    and d2: "b_docs s2 = b_docs st1"
    using assms(2) by (rule build_document_ok_saved)
  show ?thesis
    using save_outputs_ok [OF o1] save_outputs_ok [OF o2] d2 assms(3) by (auto simp: domIff)
qed

section \<open>Witnesses\<close>

theorem download_confined_witness:
  "download_file ''exports'' (db_isfile \<lparr>b_fs = \<lparr>files = Map.empty, dirs = {}\<rparr>,
       b_docs = [''exports/combined_17.docx'' \<mapsto> []], b_calls = []\<rparr>) ''docx'' ''combined_17.docx'' =
     DownloadSent ''exports/combined_17.docx'' ''combined_17.docx'' \<and>
   ''exports/combined_17.docx'' = ''exports'' @ ''/'' @ ''combined_17.docx''"
proof -
  have d: "download_file ''exports'' (db_isfile \<lparr>b_fs = \<lparr>files = Map.empty, dirs = {}\<rparr>,
       b_docs = [''exports/combined_17.docx'' \<mapsto> []], b_calls = []\<rparr>) ''docx'' ''combined_17.docx'' =
     DownloadSent ''exports/combined_17.docx'' ''combined_17.docx''"
    by (simp add: download_file_def db_isfile_def os_path_join_def starts_with_def)
  have "CHR ''/'' \<notin> set ''combined_17.docx''" "''exports'' \<noteq> []" "last ''exports'' \<noteq> CHR ''/''" by simp_all
  from download_confined [OF d this] show ?thesis using d by simp
qed

theorem reported_outputs_stay_downloadable_witness:
  "download_file ''exports''
     (db_isfile (snd (docbuilder_step ''exports'' (\<lparr>new_uuid = ''u1'', narrative = (\<lambda>j. Some ''# Report''),
         pil_convert = (\<lambda>b. Some b), file_ok = (\<lambda>p. True), embed_ok = (\<lambda>p. True), docx_size = (\<lambda>d. 2000),
         pdf_ok = True, now = 17\<rparr>) (\<lambda>q s. (HttpError 500, s)) (\<lambda>q s. (None, s)) (\<lambda>p. True)
       (ReqIngest \<lparr>form = [(''build_id'', ''b2'')], image = Some (Upload ''x.png'' [1])\<rparr>)
       (snd (docbuilder_step ''exports'' \<lparr>new_uuid = ''u1'', narrative = (\<lambda>j. Some ''# Report''),
         pil_convert = (\<lambda>b. Some b), file_ok = (\<lambda>p. True), embed_ok = (\<lambda>p. True), docx_size = (\<lambda>d. 2000),
         pdf_ok = True, now = 17\<rparr> (\<lambda>q s. (HttpError 500, s)) (\<lambda>q s. (None, s)) (\<lambda>p. True)
         (ReqBuild (Some (JDict [(''instructions'', JStr ''Report'')])))
         \<lparr>b_fs = \<lparr>files = Map.empty, dirs = {}\<rparr>, b_docs = Map.empty, b_calls = []\<rparr>)))))
     ''pdf'' ''combined_17.pdf'' = DownloadSent ''exports/combined_17.pdf'' ''combined_17.pdf''"
proof -
  define env where "env = \<lparr>new_uuid = ''u1'', narrative = (\<lambda>j. Some ''# Report''),
         pil_convert = (\<lambda>b. Some b), file_ok = (\<lambda>p. True), embed_ok = (\<lambda>p. True), docx_size = (\<lambda>d. 2000),
         pdf_ok = True, now = 17\<rparr>"
  define R where "R = docbuilder_step ''exports'' env (\<lambda>q s. (HttpError 500, s)) (\<lambda>q s. (None, s)) (\<lambda>p. True)
         (ReqBuild (Some (JDict [(''instructions'', JStr ''Report'')])))
         \<lparr>b_fs = \<lparr>files = Map.empty, dirs = {}\<rparr>, b_docs = Map.empty, b_calls = []\<rparr>"
  have "fst R = RepBuild (BuildOk 0 (Some ''combined_17.docx'') (Some ''combined_17.pdf'') (Some ''combined_17.pptx''))"
    unfolding R_def env_def by code_simp
  then have r: "R = (RepBuild (BuildOk 0 (Some ''combined_17.docx'') (Some ''combined_17.pdf'') (Some ''combined_17.pptx'')), snd R)"
    by (simp add: prod_eq_iff)
  have reach: "db_reach ''exports'' (snd R) (snd (docbuilder_step ''exports'' env (\<lambda>q s. (HttpError 500, s))
       (\<lambda>q s. (None, s)) (\<lambda>p. True) (ReqIngest \<lparr>form = [(''build_id'', ''b2'')], image = Some (Upload ''x.png'' [1])\<rparr>) (snd R)))"
    by (rule db_step [OF db_refl])
  have "''combined_17.pdf'' \<in> set_option (Some ''combined_17.docx'') \<union> set_option (Some ''combined_17.pdf'') \<union>
          set_option (Some ''combined_17.pptx'')" by simp
  from reported_outputs_stay_downloadable [OF r [unfolded R_def] reach [unfolded R_def] this, of "''pdf''"]
  show ?thesis by (simp add: env_def os_path_join_def starts_with_def)
qed


theorem same_second_builds_collide_witness:
  "let env1 = \<lparr>new_uuid = ''u1'', narrative = (\<lambda>j. Some ''# First''), pil_convert = (\<lambda>b. Some b),
              file_ok = (\<lambda>p. True), embed_ok = (\<lambda>p. True), docx_size = (\<lambda>d. 2000), pdf_ok = True, now = 17\<rparr>;
       env2 = env1\<lparr>new_uuid := ''u2'', narrative := (\<lambda>j. Some ''# Second''), pdf_ok := False\<rparr>;
       uml = (\<lambda>q s. (HttpError 500, s));
       body = Some (JDict [(''instructions'', JStr ''Report'')]);
       R1 = build_document ''exports'' env1 uml body \<lparr>b_fs = \<lparr>files = Map.empty, dirs = {}\<rparr>, b_docs = Map.empty, b_calls = []\<rparr>;
       R2 = build_document ''exports'' env2 uml body (snd R1) in
   fst R2 = BuildOk 0 (Some ''combined_17.docx'') (Some ''combined_17.pdf'') (Some ''combined_17.pptx'') \<and>
   b_docs (snd R2) ''exports/combined_17.pdf'' = b_docs (snd R1) ''exports/combined_17.pdf''"
proof -
  define env1 where "env1 = \<lparr>new_uuid = ''u1'', narrative = (\<lambda>j. Some ''# First''), pil_convert = (\<lambda>b. Some b),
              file_ok = (\<lambda>p. True), embed_ok = (\<lambda>p. True), docx_size = (\<lambda>d. 2000), pdf_ok = True, now = 17\<rparr>"
  define env2 where "env2 = env1\<lparr>new_uuid := ''u2'', narrative := (\<lambda>j. Some ''# Second''), pdf_ok := False\<rparr>"
  define uml :: "json \<Rightarrow> fs \<Rightarrow> http_reply \<times> fs" where "uml = (\<lambda>q s. (HttpError 500, s))"
  define body where "body = Some (JDict [(''instructions'', JStr ''Report'')])"
  define R1 where "R1 = build_document ''exports'' env1 uml body \<lparr>b_fs = \<lparr>files = Map.empty, dirs = {}\<rparr>, b_docs = Map.empty, b_calls = []\<rparr>"
  define R2 where "R2 = build_document ''exports'' env2 uml body (snd R1)"
  have f1: "fst R1 = BuildOk 0 (Some ''combined_17.docx'') (Some ''combined_17.pdf'') (Some ''combined_17.pptx'')"
    unfolding R1_def env1_def uml_def body_def by code_simp
  have f2: "fst R2 = BuildOk 0 (Some ''combined_17.docx'') (Some ''combined_17.pdf'') (Some ''combined_17.pptx'')"
    unfolding R2_def R1_def env2_def env1_def uml_def body_def by code_simp
  have "build_document ''exports'' env1 uml body \<lparr>b_fs = \<lparr>files = Map.empty, dirs = {}\<rparr>, b_docs = Map.empty, b_calls = []\<rparr> =
          (BuildOk 0 (Some ''combined_17.docx'') (Some ''combined_17.pdf'') (Some ''combined_17.pptx''), snd R1)"
    using f1 unfolding R1_def by (metis prod.collapse)
  moreover have "build_document ''exports'' env2 uml body (snd R1) =
          (BuildOk 0 (Some ''combined_17.docx'') (Some ''combined_17.pdf'') (Some ''combined_17.pptx''), snd R2)"
    using f2 unfolding R2_def by (metis prod.collapse)
  moreover have "now env2 = now env1" by (simp add: env2_def)
  moreover have "\<not> pdf_ok env2" by (simp add: env2_def)
  moreover have "os_path_join ''exports'' (combined_name (now env1) ''.pdf'') = ''exports/combined_17.pdf''"
    unfolding env1_def by code_simp
  ultimately have "b_docs (snd R2) ''exports/combined_17.pdf'' = b_docs (snd R1) ''exports/combined_17.pdf''"
    using same_second_builds_collide by metis
  then show ?thesis using f2 by (simp only: R1_def R2_def env1_def env2_def uml_def body_def Let_def)
qed

end
