(* ===== verification/Narrative.thy ===== *)
theory Narrative
  imports Orchestrator Complex_Main
begin

text \<open>
  The narrative service \<^verbatim>\<open>generate_doc\<close> of \<^verbatim>\<open>src/Service/AiAgent.py\<close> (lines 85 to 235)
  with its helpers \<^verbatim>\<open>parse_code\<close>, \<^verbatim>\<open>call_gemini\<close>, \<^verbatim>\<open>generate_pdf_from_text\<close> and
  \<^verbatim>\<open>generate_docx_from_text\<close>.  The request body is a parsed JSON value; the oracles of
  \<open>agent_env\<close> are the Gemini model, Python's parser (\<^verbatim>\<open>ast.parse\<close>: accepted, a
  syntax error, or another exception), the server's text files as \<^verbatim>\<open>open(...).read()\<close>
  sees them, whether a file descriptor names a regular file, and the timestamp.  The
  module constant \<^verbatim>\<open>DEFAULT_INSTRUCTIONS\<close> is written out, its two characters outside
  Latin-1 in their UTF-8 form.

  The PDF is the sequence of canvas operations the loop performs (\<open>pdf_op\<close>); A4's
  height is reportlab's \<^verbatim>\<open>297 mm\<close>, 841.8897637795277 points, so the first line of a
  page is drawn at 801.8897637795277.  The DOCX is a list of \<open>block\<close>s as in
  \<open>Orchestrator\<close>.  \<open>narrative_of\<close> is the service as the DocBuilder's \<open>narrative\<close>
  oracle sees it: the Markdown text of a 200 answer, nothing otherwise.
\<close>

section \<open>Python built-ins: \<^verbatim>\<open>str.lower\<close> and \<^verbatim>\<open>int\<close>\<close>

text \<open>\<^verbatim>\<open>str.lower\<close> on Latin-1: the ASCII capitals and the Latin-1 capitals
  U+00C0 to U+00DE except the multiplication sign.\<close>

definition py_lower_char :: "char \<Rightarrow> char" where
  "py_lower_char c =
     (let n = (of_char c :: nat) in
      if (65 \<le> n \<and> n \<le> 90) \<or> (192 \<le> n \<and> n \<le> 222 \<and> n \<noteq> 215) then char_of (n + 32) else c)"

definition py_lower :: "string \<Rightarrow> string" where
  "py_lower s = map py_lower_char s"

definition is_digit :: "char \<Rightarrow> bool" where
  "is_digit c \<longleftrightarrow> 48 \<le> (of_char c :: nat) \<and> (of_char c :: nat) \<le> 57"

text \<open>The digits of an integer literal as \<^verbatim>\<open>int(str)\<close> accepts them: digits, with single
  underscores between digits.\<close>

fun int_body :: "string \<Rightarrow> bool" where
  "int_body [] \<longleftrightarrow> False"
| "int_body [c] \<longleftrightarrow> is_digit c"
| "int_body (c # d # cs) \<longleftrightarrow>
     is_digit c \<and> (if d = CHR ''_'' then cs \<noteq> [] \<and> is_digit (hd cs) \<and> int_body cs else int_body (d # cs))"

definition py_int_str :: "string \<Rightarrow> int option" where
  "py_int_str s =
     (let t = py_strip s;
          (sign, body) = (case t of
                            c # r \<Rightarrow> if c = CHR ''-'' then (-1, r) else if c = CHR ''+'' then (1, r) else (1, t)
                          | [] \<Rightarrow> (1, t)) in
      if int_body body then Some (sign * int (nat_of_digits (filter (\<lambda>c. c \<noteq> CHR ''_'') body))) else None)"

text \<open>\<^verbatim>\<open>int(v)\<close> on a JSON value; \<open>None\<close> is the exception the handler catches.\<close>

definition py_int :: "json \<Rightarrow> int option" where
  "py_int v = (case v of JInt i \<Rightarrow> Some i | JBool b \<Rightarrow> Some (if b then 1 else 0) | JStr s \<Rightarrow> py_int_str s | _ \<Rightarrow> None)"

text \<open>Lines 172 to 175: \<^verbatim>\<open>pages = max(1, int(pages))\<close>, 1 on any exception.\<close>

definition pages_of :: "json \<Rightarrow> int" where
  "pages_of v = (case py_int v of Some i \<Rightarrow> max 1 i | None \<Rightarrow> 1)"

section \<open>Oracles, state and answers\<close>

datatype parse_outcome = ParseOk | ParseSyntaxError | ParseRaises

record agent_env =
  gemini :: "string \<Rightarrow> string option"
  py_parse :: "string \<Rightarrow> parse_outcome"
  agent_files :: "string \<rightharpoonup> string option"
  fd_isfile :: "int \<Rightarrow> bool"
  stamp :: string
  agent_write_ok :: "string \<Rightarrow> bool"

record agent_state =
  saved :: "string \<rightharpoonup> string"
  prompts :: "string list"

datatype pdf_op = DrawString rat rat string | ShowPage

datatype doc_reply =
    DocMarkdown string
  | DocPdf "pdf_op list"
  | DocDocx document
  | DocText string string
  | DocError nat string
  | DocBadJson
  | DocCrashed

section \<open>Output generators (lines 125 to 156)\<close>

definition a4_top :: rat where
  "a4_top = 8018897637795277 / 10000000000000"

fun pdf_ops :: "rat \<Rightarrow> string list \<Rightarrow> pdf_op list" where
  "pdf_ops y [] = []"
| "pdf_ops y (l # ls) =
     (if y < 50 then ShowPage # DrawString 40 a4_top (py_strip l) # pdf_ops (a4_top - 15) ls
      else DrawString 40 y (py_strip l) # pdf_ops (y - 15) ls)"

definition generate_pdf_from_text :: "string \<Rightarrow> pdf_op list" where
  "generate_pdf_from_text text = pdf_ops a4_top (splitlines text)"

definition docx_line :: "string \<Rightarrow> block" where
  "docx_line l =
     (if starts_with ''# '' l then DHeading 1 (drop 2 l)
      else if starts_with ''## '' l then DHeading 2 (drop 3 l)
      else if starts_with ''### '' l then DHeading 3 (drop 4 l)
      else DPara l)"

definition generate_docx_from_text :: "string \<Rightarrow> document" where
  "generate_docx_from_text text = map docx_line (splitlines text)"

text \<open>The pages of the canvas: the drawn lines between two \<^verbatim>\<open>showPage\<close> calls (the
  first page is open from the start), and the reference pagination into runs of 51
  lines.\<close>

fun split_pages :: "pdf_op list \<Rightarrow> string list list" where
  "split_pages [] = [[]]"
| "split_pages (ShowPage # ops) = [] # split_pages ops"
| "split_pages (DrawString x y t # ops) = (case split_pages ops of p # ps \<Rightarrow> (t # p) # ps | [] \<Rightarrow> [[t]])"

function pdf_chunks :: "string list \<Rightarrow> string list list" where
  "pdf_chunks xs = (if length xs \<le> 51 then [xs] else take 51 xs # pdf_chunks (drop 51 xs))"
  by pat_completeness auto
termination by (relation "measure length") auto

declare pdf_chunks.simps [simp del]

section \<open>The default instructions (lines 32 to 82)\<close>

text \<open>Two characters of the constant lie outside Latin-1: the en dash
  U+2013 and the em space U+2003 that indents the subheadings.  They are written as the
  characters of their UTF-8 encoding: the code only strips the instructions (whose ends
  are ASCII) and concatenates them into the prompt, which reaches the model as UTF-8, so
  neither operation can tell the two representations apart.\<close>

definition nl :: string where
  "nl = [CHR 0x0A]"

definition en_dash :: string where
  "en_dash = [CHR 0xE2, CHR 0x80, CHR 0x93]"

definition em_space :: string where
  "em_space = [CHR 0xE2, CHR 0x80, CHR 0x83]"

definition DEFAULT_INSTRUCTIONS :: string where
  "DEFAULT_INSTRUCTIONS = nl @ concat (map (\<lambda>l. l @ nl)
     [''You are an expert technical documentation agent tasked with generating professional, concise, and academically styled project reports for software engineering deliverables (e.g., AI systems, mobile apps, web applications).'',
      [],
      ''For **each** section below, produce **3'' @ en_dash @ ''5 formal paragraphs** (at least **15 lines**) in clear academic English. Use **bolded** section titles, **numbered** subheadings, consistent indentation, and realistic examples or technical explanations wherever relevant. Ensure coherence, clarity, and logical flow across sections.'',
      [],
      ''### Table of Contents'',
      ''1. **Introduction**'',
      em_space @ ''1.1 Motivation'',
      em_space @ ''1.2 Problem Definition'',
      em_space @ ''1.3 Objectives'',
      em_space @ ''1.4 Scope & Limitations'',
      [],
      ''2. **Literature Survey**'',
      em_space @ ''2.1 Overview of Related Work'',
      em_space @ ''2.2 Existing Systems & Their Drawbacks'',
      em_space @ ''2.3 Proposed System & Innovations'',
      em_space @ ''2.4 Feasibility Analysis'',
      em_space @ ''2.5 Key Features'',
      em_space @ ''2.6 Required Technologies'',
      [],
      ''3. **Analysis**'',
      em_space @ ''3.1 Analytical Overview'',
      em_space @ ''3.2 Requirements Specification'',
      em_space @ em_space @ ''3.2.1 Functional Requirements'',
      em_space @ em_space @ ''3.2.2 Non-functional Requirements'',
      em_space @ em_space @ ''3.2.3 Software & Hardware Specifications'',
      [],
      ''4. **Design**'',
      em_space @ ''4.1 Architectural Overview'',
      em_space @ ''4.2 System Architecture Diagram'',
      em_space @ ''4.4 Module Organization & Interfaces'',
      [],
      ''5. **Implementation**'',
      em_space @ ''5.1 Implementation Strategy'',
      em_space @ ''5.2 Core Functional Modules'',
      em_space @ ''5.3 Representative Code Snippets'',
      em_space @ ''5.4 Deployment & Execution'',
      em_space @ em_space @ ''5.4.1 Results Analysis'',
      em_space @ em_space @ ''5.4.2 Sample Output Screens'',
      [],
      ''6. **Testing, Validation & Results**'',
      em_space @ ''6.1 Testing Overview'',
      em_space @ ''6.2 Test Methodologies'',
      em_space @ ''6.3 Test Case Design & Scenarios'',
      em_space @ ''6.4 Validation of Outcomes'',
      [],
      ''7. **Conclusion & Future Work**'',
      em_space @ ''7.1 Summary of Achievements'',
      em_space @ ''7.2 Limitations & Lessons Learned'',
      em_space @ ''7.3 Recommendations for Future Enhancements''])"

section \<open>The model call (lines 103 to 122)\<close>

definition triple_quote :: string where
  "triple_quote = [CHR 0x22, CHR 0x22, CHR 0x22]"

definition doc_prompt :: "string \<Rightarrow> string \<Rightarrow> string \<Rightarrow> int \<Rightarrow> string" where
  "doc_prompt code project_info instructions pages =
     nl @ ''Use the following to generate a **Markdown** technical report of approximately ''
     @ str_int pages @ '' page'' @ (if pages > 1 then ''s'' else []) @ '':'' @ nl @ nl
     @ ''**Project Description:**'' @ nl @ triple_quote @ project_info @ triple_quote @ nl @ nl
     @ ''**User Instructions:**'' @ nl @ triple_quote @ py_strip instructions @ triple_quote @ nl @ nl
     @ ''**Source Code (for context):**'' @ nl @ triple_quote @ code @ triple_quote @ nl @ nl
     @ ''Produce only the final well-structured Markdown text with bolded headings, numbered sections, and consistent formatting.''
     @ nl"

text \<open>\<^verbatim>\<open>call_gemini\<close>: the prompt is built first (\<^verbatim>\<open>instructions.strip()\<close> raises unless
  the instructions are a string), then the model is called (\<open>None\<close>: it raised).\<close>

definition call_gemini ::
  "agent_env \<Rightarrow> string \<Rightarrow> json \<Rightarrow> json \<Rightarrow> int \<Rightarrow> agent_state \<Rightarrow> string option option \<times> agent_state" where
  "call_gemini env code project_info instructions pages st =
     (case instructions of
        JStr i \<Rightarrow>
          (let p = doc_prompt code (py_str project_info) i pages in
           (Some (map_option py_strip (gemini env p)), st\<lparr>prompts := prompts st @ [p]\<rparr>))
      | _ \<Rightarrow> (None, st))"

section \<open>The handler (lines 159 to 235)\<close>

text \<open>\<^verbatim>\<open>parse_code\<close> (lines 85 to 100) as far as the handler uses it: only Python
  sources are parsed, and only the error entry of the result is read.  Its argument must
  be a string (\<^verbatim>\<open>ast.parse\<close> or \<^verbatim>\<open>splitlines\<close> raise otherwise).\<close>

definition parse_error :: "agent_env \<Rightarrow> string \<Rightarrow> string \<Rightarrow> bool option" where
  "parse_error env code ext =
     (if ext = ''.py'' then
        (case py_parse env code of ParseOk \<Rightarrow> Some False | ParseSyntaxError \<Rightarrow> Some True | ParseRaises \<Rightarrow> None)
      else Some False)"

text \<open>Lines 177 to 184: a string path is looked up among the server's files (missing:
  400; not decodable as UTF-8: the read raises); a number is a file descriptor for
  \<^verbatim>\<open>os.path.isfile\<close>, and when it names a regular file \<^verbatim>\<open>os.path.splitext\<close> raises on it;
  any other true value makes \<^verbatim>\<open>os.path.isfile\<close> raise.  The result is the code and the
  extension to use, or the answer.\<close>

definition load_file ::
  "agent_env \<Rightarrow> json \<Rightarrow> json \<Rightarrow> string \<Rightarrow> (doc_reply + json \<times> string)" where
  "load_file env file_path code ext =
     (if json_falsy file_path then Inr (code, ext)
      else case file_path of
        JStr p \<Rightarrow>
          (case agent_files env p of
             None \<Rightarrow> Inl (DocError 400 ''File not found'')
           | Some None \<Rightarrow> Inl DocCrashed
           | Some (Some text) \<Rightarrow> Inr (JStr text, py_lower (snd (os_path_splitext p))))
      | JInt n \<Rightarrow> Inl (if fd_isfile env n then DocCrashed else DocError 400 ''File not found'')
      | JBool b \<Rightarrow> Inl (if fd_isfile env (if b then 1 else 0) then DocCrashed else DocError 400 ''File not found'')
      | _ \<Rightarrow> Inl DocCrashed)"

definition render_output :: "agent_env \<Rightarrow> string \<Rightarrow> string \<Rightarrow> agent_state \<Rightarrow> doc_reply \<times> agent_state" where
  "render_output env fmt md st =
     (if fmt = ''markdown'' then (DocMarkdown md, st)
      else if fmt = ''pdf'' then (DocPdf (generate_pdf_from_text md), st)
      else if fmt = ''docx'' then (DocDocx (generate_docx_from_text md), st)
      else if fmt = ''text'' then
        (let filename = ''documentation_'' @ stamp env @ ''.txt'';
             path = os_path_join ''saved_docs'' filename in
         if agent_write_ok env path then (DocText filename md, st\<lparr>saved := (saved st)(path \<mapsto> md)\<rparr>)
         else (DocCrashed, st))
      else (DocError 400 (''Unsupported format: '' @ fmt), st))"

definition generate_doc :: "agent_env \<Rightarrow> json option \<Rightarrow> agent_state \<Rightarrow> doc_reply \<times> agent_state" where
  "generate_doc env body st =
     (case body of
        None \<Rightarrow> (DocBadJson, st)
      | Some (JDict d) \<Rightarrow>
          (case (json_get d ''extension'' (JStr ''.txt''), json_get d ''return_format'' (JStr ''pdf'')) of
             (JStr ext0, JStr fmt0) \<Rightarrow>
               (let pages = pages_of (json_get d ''pages'' (JInt 1));
                    project_info = json_get d ''project_info'' JNull;
                    instructions = json_get d ''instructions'' (JStr DEFAULT_INSTRUCTIONS) in
                case load_file env (json_get d ''file_path'' JNull) (json_get d ''code'' JNull) (py_lower ext0) of
                  Inl r \<Rightarrow> (r, st)
                | Inr (code, ext) \<Rightarrow>
                    if json_falsy code \<or> json_falsy project_info
                    then (DocError 400 ''Missing code or project_info'', st)
                    else
                      (case code of
                         JStr c \<Rightarrow>
                           (case parse_error env c ext of
                              None \<Rightarrow> (DocCrashed, st)
                            | Some True \<Rightarrow> (DocError 400 ''Invalid Python syntax'', st)
                            | Some False \<Rightarrow>
                                (case call_gemini env c project_info instructions pages st of
                                   (Some (Some md), st1) \<Rightarrow> render_output env (py_lower fmt0) md st1
                                 | (_, st1) \<Rightarrow> (DocCrashed, st1)))
                       | _ \<Rightarrow> (DocCrashed, st)))
           | _ \<Rightarrow> (DocCrashed, st))
      | Some _ \<Rightarrow> (DocCrashed, st))"

section \<open>The service as the DocBuilder sees it\<close>

text \<open>\<^verbatim>\<open>md_resp.raise_for_status()\<close> followed by \<^verbatim>\<open>md_resp.text\<close>: only a 200 answer
  with a body gives Markdown; every other answer is an exception in the caller.\<close>

definition narrative_of :: "agent_env \<Rightarrow> agent_state \<Rightarrow> json \<Rightarrow> string option" where
  "narrative_of env st req =
     (case fst (generate_doc env (Some req) st) of DocMarkdown md \<Rightarrow> Some md | _ \<Rightarrow> None)"


text \<open>The answers that carry a generated document.\<close>

fun is_document :: "doc_reply \<Rightarrow> bool" where
  "is_document (DocMarkdown _) = True"
| "is_document (DocPdf _) = True"
| "is_document (DocDocx _) = True"
| "is_document (DocText _ _) = True"
| "is_document _ = False"

section \<open>Properties\<close>

lemma pages_of_ge1: "1 \<le> pages_of v"
  by (simp add: pages_of_def split: option.splits)

lemma is_digit_digit_char: "d < 10 \<Longrightarrow> is_digit (digit_char d)"
  by (simp add: is_digit_def digit_char_def)

lemma int_body_str_nat: "int_body (str_nat n) \<and> CHR ''_'' \<notin> set (str_nat n)"
proof (induction n rule: str_nat.induct)
  case (1 n)
  show ?case
  proof (cases "n < 10")
    case True
    then show ?thesis
      using is_digit_digit_char [OF True] digit_char_not_special [OF True] by (auto simp: str_nat.simps [of n])
  next
    case False
    let ?p = "str_nat (n div 10)" and ?d = "digit_char (n mod 10)"
    have p: "int_body ?p" "CHR ''_'' \<notin> set ?p" using 1 False by auto
    have d: "is_digit ?d" "?d \<noteq> CHR ''_''"
      using is_digit_digit_char [of "n mod 10"] digit_char_not_special [of "n mod 10"] by simp_all
    have "int_body (xs @ [?d])" if "int_body xs" "CHR ''_'' \<notin> set xs" for xs
      using that
    proof (induction xs rule: int_body.induct)
      case 1 then show ?case by simp
    next
      case (2 c) then show ?case using d by simp
    next
      case (3 c e cs) then show ?case by auto
    qed
    then show ?thesis using False p d by (simp add: str_nat.simps [of n])
  qed
qed

lemma digit_char_not_space: "d < 10 \<Longrightarrow> \<not> py_isspace (digit_char d) \<and> digit_char d \<noteq> CHR ''-'' \<and> digit_char d \<noteq> CHR ''+''"
  using of_char_digit_char [of d] by (auto simp: py_isspace_def dest: arg_cong [where f = "of_char :: char \<Rightarrow> nat"])

lemma str_nat_no_space: "\<not> (\<exists>c \<in> set (str_nat n). py_isspace c)"
  using str_nat_digits digit_char_not_space by blast

lemma str_nat_hd: "hd (str_nat n) \<noteq> CHR ''-'' \<and> hd (str_nat n) \<noteq> CHR ''+''"
  using str_nat_digits [of "hd (str_nat n)" n] str_nat_nonempty [of n] digit_char_not_space
  by (metis hd_in_set)

lemma py_int_str_nat: "py_int_str (str_nat n) = Some (int n)"
proof -
  obtain c r where cr: "str_nat n = c # r" using str_nat_nonempty by (cases "str_nat n") auto
  have c: "c \<noteq> CHR ''-''" "c \<noteq> CHR ''+''" using str_nat_hd [of n] cr by auto
  have f: "filter (\<lambda>c. c \<noteq> CHR ''_'') (str_nat n) = str_nat n" using int_body_str_nat [of n] by (simp add: filter_id_conv) blast
  show ?thesis
    using py_strip_no_space_id [OF str_nat_no_space [of n]] int_body_str_nat [of n] f c
    by (simp add: py_int_str_def cr nat_of_digits_str_nat [of n, unfolded cr] del: nat_of_digits_str_nat)
qed

text \<open>The page count coercion reads back every integer Python prints: \<^verbatim>\<open>int(str(i)) = i\<close> for the string parser of the model.\<close>

theorem py_int_str_roundtrip: "py_int_str (str_int i) = Some i"
proof (cases "i < 0")
  case False
  then show ?thesis by (simp add: str_int_def py_int_str_nat)
next
  case True
  let ?s = "str_nat (nat (- i))"
  have ns: "\<not> (\<exists>c \<in> set (CHR ''-'' # ?s). py_isspace c)"
    using str_nat_no_space [of "nat (- i)"] by (simp add: py_isspace_simps)
  have f: "filter (\<lambda>c. c \<noteq> CHR ''_'') ?s = ?s" using int_body_str_nat [of "nat (- i)"] by (simp add: filter_id_conv) blast
  show ?thesis
    using True py_strip_no_space_id [OF ns] int_body_str_nat [of "nat (- i)"] f
    by (simp add: str_int_def py_int_str_def nat_of_digits_str_nat)
qed

lemma a4_top_bounds: "a4_top - 15 * 50 \<ge> 50" "a4_top - 15 * 51 < 50"
  by (simp_all add: a4_top_def)

lemma a4_row_fits: "m \<le> 50 \<Longrightarrow> \<not> a4_top - 15 * of_nat m < (50 :: rat)"
proof -
  assume "m \<le> 50"
  then have "(of_nat m :: rat) \<le> 50" by simp
  then show ?thesis using a4_top_bounds(1) by linarith
qed

lemma pdf_ops_pages:
  "m \<le> 51 \<Longrightarrow>
   split_pages (pdf_ops (a4_top - 15 * of_nat m) ls) =
     (if length ls \<le> 51 - m then [map py_strip ls]
      else take (51 - m) (map py_strip ls) # pdf_chunks (drop (51 - m) (map py_strip ls)))"
proof (induction ls arbitrary: m)
  case Nil
  then show ?case by simp
next
  case (Cons l ls)
  show ?case
  proof (cases "m = 51")
    case True
    have y: "a4_top - 15 * of_nat m < (50 :: rat)" using True a4_top_bounds(2) by simp
    have ih: "split_pages (pdf_ops (a4_top - 15) ls) =
       (if length ls \<le> 50 then [map py_strip ls]
        else take 50 (map py_strip ls) # pdf_chunks (drop 50 (map py_strip ls)))"
      using Cons.IH [of 1] by simp
    show ?thesis
      using y ih True by (simp add: pdf_chunks.simps [of "py_strip l # map py_strip ls"])
  next
    case False
    then have m: "m \<le> 50" using Cons.prems by simp
    have y: "a4_top - 15 * of_nat m - 15 = a4_top - 15 * of_nat (Suc m)" by (simp add: algebra_simps)
    have ih: "split_pages (pdf_ops (a4_top - 15 * of_nat (Suc m)) ls) =
       (if length ls \<le> 51 - Suc m then [map py_strip ls]
        else take (51 - Suc m) (map py_strip ls) # pdf_chunks (drop (51 - Suc m) (map py_strip ls)))"
      using Cons.IH [of "Suc m"] m by simp
    have d: "51 - m = Suc (51 - Suc m)" using m by simp
    show ?thesis
      using a4_row_fits [OF m] ih by (simp add: y d)
  qed
qed

text \<open>C32. The PDF generator puts the stripped lines of the text on consecutive pages, 51 lines per page and the rest on the last page, losing and reordering none.\<close>

theorem pdf_pagination:
  "split_pages (generate_pdf_from_text text) = pdf_chunks (map py_strip (splitlines text))"
  using pdf_ops_pages [of 0 "splitlines text"]
  by (simp add: generate_pdf_from_text_def pdf_chunks.simps [of "map py_strip (splitlines text)"])

lemma pdf_ops_margin:
  "list_all (\<lambda>op. case op of DrawString x y' t \<Rightarrow> 50 \<le> y' \<and> y' \<le> max y a4_top | ShowPage \<Rightarrow> True) (pdf_ops y ls)"
proof (induction ls arbitrary: y)
  case Nil
  then show ?case by simp
next
  case (Cons l ls)
  have top: "(50 :: rat) \<le> a4_top" by (simp add: a4_top_def)
  show ?case
  proof (cases "y < 50")
    case True
    have m: "max (a4_top - 15) a4_top \<le> max y a4_top" by (simp add: max_def)
    show ?thesis using True Cons.IH [of "a4_top - 15"] top order_trans [OF _ m]
      by (auto simp: list_all_iff split: pdf_op.splits)
  next
    case False
    have m: "max (y - 15) a4_top \<le> max y a4_top" by (simp add: max_def)
    show ?thesis using False Cons.IH [of "y - 15"] order_trans [OF _ m]
      by (auto simp: list_all_iff split: pdf_op.splits)
  qed
qed

lemma load_file_not_markdown: "load_file env fp c e \<noteq> Inl (DocMarkdown md)"
  by (auto simp: load_file_def split: json.splits option.splits)

lemma generate_doc_markdown_instructions:
  assumes "fst (generate_doc env (Some (JDict d)) st) = DocMarkdown md"
  shows "\<exists>i. json_get d ''instructions'' (JStr DEFAULT_INSTRUCTIONS) = JStr i"
  using assms
  by (auto simp: generate_doc_def call_gemini_def render_output_def Let_def load_file_not_markdown
           split: json.splits sum.splits option.splits prod.splits if_splits bool.splits)

lemma narrative_request_instructions:
  "json_get (case narrative_request d of JDict kvs \<Rightarrow> kvs) ''instructions'' v = json_get d ''instructions'' JNull"
  by (simp add: narrative_request_def json_get_def)

text \<open>C20. A build request without string instructions (the spec makes them optional) always fails: the DocBuilder forwards \<^verbatim>\<open>null\<close>, the narrative service raises on \<^verbatim>\<open>instructions.strip()\<close> (or rejects the request), and the build answers 500 before the UML agent is asked.\<close>

theorem build_without_instructions:
  assumes "\<forall>s. json_get d ''instructions'' JNull \<noteq> JStr s"
  shows "build_document export_dir (benv\<lparr>narrative := narrative_of aenv ast\<rparr>) uml (Some (JDict d)) st =
         (BuildError 500 ''Failed to generate document content'',
          st\<lparr>b_calls := b_calls st @ [CallNarrative (narrative_request d)]\<rparr>)"
proof -
  obtain kvs where r: "narrative_request d = JDict kvs" by (simp add: narrative_request_def)
  have i: "json_get kvs ''instructions'' (JStr DEFAULT_INSTRUCTIONS) = json_get d ''instructions'' JNull"
    using narrative_request_instructions [of d] r by simp
  have "\<forall>md. fst (generate_doc aenv (Some (JDict kvs)) ast) \<noteq> DocMarkdown md"
    using generate_doc_markdown_instructions [of aenv kvs ast] i assms by fastforce
  then have "narrative_of aenv ast (narrative_request d) = None"
    by (simp add: narrative_of_def r split: doc_reply.splits)
  then show ?thesis by (simp add: build_document_def log_bcall_def Let_def)
qed

text \<open>C30. Without a file path, a request whose code or project description is missing or empty is answered 400 before the model is called.\<close>

theorem generate_doc_missing_fields:
  assumes "json_get d ''extension'' (JStr ''.txt'') = JStr ext" and "json_get d ''return_format'' (JStr ''pdf'') = JStr fmt"
    and "json_falsy (json_get d ''file_path'' JNull)"
    and "json_falsy (json_get d ''code'' JNull) \<or> json_falsy (json_get d ''project_info'' JNull)"
  shows "generate_doc env (Some (JDict d)) st = (DocError 400 ''Missing code or project_info'', st)"
  using assms by (auto simp: generate_doc_def load_file_def Let_def)

text \<open>C31. A request naming a server file in \<^verbatim>\<open>file_path\<close> makes the service send the content of that file to the model in place of the code field, whatever the path.\<close>

theorem generate_doc_reads_server_file:
  assumes "json_get d ''extension'' (JStr ''.txt'') = JStr ext" and "json_get d ''return_format'' (JStr ''pdf'') = JStr fmt"
    and "json_get d ''file_path'' JNull = JStr p" and "p \<noteq> []"
    and "agent_files env p = Some (Some text)" and "text \<noteq> []"
    and "\<not> json_falsy (json_get d ''project_info'' JNull)"
    and "parse_error env text (py_lower (snd (os_path_splitext p))) = Some False"
    and "json_get d ''instructions'' (JStr DEFAULT_INSTRUCTIONS) = JStr i"
  shows "prompts (snd (generate_doc env (Some (JDict d)) st)) =
         prompts st @ [doc_prompt text (py_str (json_get d ''project_info'' JNull)) i
                         (pages_of (json_get d ''pages'' (JInt 1)))]"
  using assms
  by (auto simp: generate_doc_def load_file_def call_gemini_def render_output_def json_falsy_def Let_def
           split: option.splits prod.splits)

text \<open>Every line of the PDF is drawn inside the page: at a height between the bottom
  margin of 50 points and the top line 40 points below the top edge.\<close>

theorem pdf_margin:
  "list_all (\<lambda>op. case op of DrawString x y t \<Rightarrow> 50 \<le> y \<and> y \<le> a4_top | ShowPage \<Rightarrow> True)
            (generate_pdf_from_text text)"
  using pdf_ops_margin [of a4_top "splitlines text", unfolded max.idem] by (simp add: generate_pdf_from_text_def)


lemma render_output_unsupported:
  "fmt \<notin> {''markdown'', ''pdf'', ''docx'', ''text''} \<Longrightarrow>
   render_output env fmt md st = (DocError 400 (''Unsupported format: '' @ fmt), st)"
  by (simp add: render_output_def)

lemma load_file_Inl:
  "load_file env fp code ext = Inl r \<Longrightarrow>
   \<not> is_document r \<and> (\<forall>m. r \<noteq> DocError 400 (''Unsupported format: '' @ m))"
  by (auto simp: load_file_def split: json.splits option.splits if_splits)

text \<open>C22. The return format is validated only after the model call: a request with an
  unsupported format never gets a document and saves nothing, and whenever it is answered
  400 \<^verbatim>\<open>Unsupported format\<close> the prompt has already been sent to the model.\<close>

theorem generate_doc_unsupported_format:
  assumes "json_get d ''return_format'' (JStr ''pdf'') = JStr fmt"
    and "py_lower fmt \<notin> {''markdown'', ''pdf'', ''docx'', ''text''}"
  shows "\<not> is_document (fst (generate_doc env (Some (JDict d)) st)) \<and>
         saved (snd (generate_doc env (Some (JDict d)) st)) = saved st \<and>
         (fst (generate_doc env (Some (JDict d)) st) = DocError 400 (''Unsupported format: '' @ py_lower fmt) \<longrightarrow>
          (\<exists>p. prompts (snd (generate_doc env (Some (JDict d)) st)) = prompts st @ [p]))"
  using assms
  by (auto simp: generate_doc_def call_gemini_def render_output_unsupported Let_def dest: load_file_Inl
           split: option.splits prod.splits json.splits sum.splits bool.splits)

text \<open>C23. The narrative service as the DocBuilder uses it: for a build request with string
  code, a project description and string instructions, the Markdown the DocBuilder
  receives is the model's stripped answer to the prompt built from exactly those fields
  and the forwarded page count (the default extension \<^verbatim>\<open>.txt\<close> skips the syntax check).\<close>

theorem narrative_for_build:
  assumes "json_get d ''code'' JNull = JStr c" and "c \<noteq> []"
    and "\<not> json_falsy (json_get d ''project_info'' JNull)"
    and "json_get d ''instructions'' JNull = JStr i"
  shows "narrative_of aenv ast (narrative_request d) =
         map_option py_strip (gemini aenv (doc_prompt c (py_str (json_get d ''project_info'' JNull)) i
                                             (pages_of (json_get d ''pages'' (JInt 1)))))"
  using assms
  by (auto simp: narrative_of_def narrative_request_def generate_doc_def load_file_def parse_error_def
      call_gemini_def render_output_def json_falsy_def json_get_def py_lower_def py_lower_char_def Let_def
      split: option.splits)

section \<open>Witnesses\<close>

theorem build_without_instructions_witness:
  "build_document ''exports''
     ((\<lparr>new_uuid = ''u1'', narrative = (\<lambda>j. None), pil_convert = (\<lambda>b. Some b), file_ok = (\<lambda>p. True),
       embed_ok = (\<lambda>p. True), docx_size = (\<lambda>d. 2000), pdf_ok = True, now = 17\<rparr>)\<lparr>narrative := narrative_of
      \<lparr>gemini = (\<lambda>p. Some ''# Report''), py_parse = (\<lambda>c. ParseOk),
       agent_files = [''/etc/app.cfg'' \<mapsto> Some ''secret=1''], fd_isfile = (\<lambda>n. False),
       stamp = ''20250101_000000'', agent_write_ok = (\<lambda>p. True)\<rparr>
      \<lparr>saved = Map.empty, prompts = []\<rparr>\<rparr>)
     (\<lambda>q s. (HttpRaised, s)) (Some (JDict [(''code'', JStr ''x = 1''), (''project_info'', JStr ''demo'')]))
     \<lparr>b_fs = \<lparr>files = Map.empty, dirs = {}\<rparr>, b_docs = Map.empty, b_calls = []\<rparr> =
   (BuildError 500 ''Failed to generate document content'',
    (\<lparr>b_fs = \<lparr>files = Map.empty, dirs = {}\<rparr>, b_docs = Map.empty, b_calls = []\<rparr>)\<lparr>b_calls :=
       b_calls \<lparr>b_fs = \<lparr>files = Map.empty, dirs = {}\<rparr>, b_docs = Map.empty, b_calls = []\<rparr> @
       [CallNarrative (narrative_request [(''code'', JStr ''x = 1''), (''project_info'', JStr ''demo'')])]\<rparr>)"
  by (rule build_without_instructions) (simp add: json_get_def)

theorem generate_doc_missing_fields_witness:
  "generate_doc
     \<lparr>gemini = (\<lambda>p. Some ''# Report''), py_parse = (\<lambda>c. ParseOk),
      agent_files = [''/etc/app.cfg'' \<mapsto> Some ''secret=1''], fd_isfile = (\<lambda>n. False),
      stamp = ''20250101_000000'', agent_write_ok = (\<lambda>p. True)\<rparr>
     (Some (JDict [(''code'', JStr [])])) \<lparr>saved = Map.empty, prompts = []\<rparr> =
   (DocError 400 ''Missing code or project_info'', \<lparr>saved = Map.empty, prompts = []\<rparr>)"
  by (rule generate_doc_missing_fields) (simp_all add: json_get_def json_falsy_def)

theorem generate_doc_reads_server_file_witness:
  "prompts (snd (generate_doc
     \<lparr>gemini = (\<lambda>p. Some ''# Report''), py_parse = (\<lambda>c. ParseOk),
      agent_files = [''/etc/app.cfg'' \<mapsto> Some ''secret=1''], fd_isfile = (\<lambda>n. False),
      stamp = ''20250101_000000'', agent_write_ok = (\<lambda>p. True)\<rparr>
     (Some (JDict [(''file_path'', JStr ''/etc/app.cfg''), (''project_info'', JStr ''demo''), (''instructions'', JStr ''short'')]))
     \<lparr>saved = Map.empty, prompts = []\<rparr>)) =
   prompts \<lparr>saved = Map.empty, prompts = []\<rparr> @
     [doc_prompt ''secret=1''
        (py_str (json_get [(''file_path'', JStr ''/etc/app.cfg''), (''project_info'', JStr ''demo''), (''instructions'', JStr ''short'')] ''project_info'' JNull))
        ''short''
        (pages_of (json_get [(''file_path'', JStr ''/etc/app.cfg''), (''project_info'', JStr ''demo''), (''instructions'', JStr ''short'')] ''pages'' (JInt 1)))]"
  apply (rule generate_doc_reads_server_file)
  apply (simp_all add: json_get_def json_falsy_def)
  apply code_simp
  done

theorem generate_doc_unsupported_format_witness:
  "\<not> is_document (fst (generate_doc
     \<lparr>gemini = (\<lambda>p. Some ''# Report''), py_parse = (\<lambda>c. ParseOk), agent_files = Map.empty, fd_isfile = (\<lambda>n. False),
      stamp = ''20250101_000000'', agent_write_ok = (\<lambda>p. True)\<rparr>
     (Some (JDict [(''code'', JStr ''x = 1''), (''project_info'', JStr ''demo''), (''return_format'', JStr ''HTML'')]))
     \<lparr>saved = Map.empty, prompts = []\<rparr>)) \<and>
   fst (generate_doc
     \<lparr>gemini = (\<lambda>p. Some ''# Report''), py_parse = (\<lambda>c. ParseOk), agent_files = Map.empty, fd_isfile = (\<lambda>n. False),
      stamp = ''20250101_000000'', agent_write_ok = (\<lambda>p. True)\<rparr>
     (Some (JDict [(''code'', JStr ''x = 1''), (''project_info'', JStr ''demo''), (''return_format'', JStr ''HTML'')]))
     \<lparr>saved = Map.empty, prompts = []\<rparr>) = DocError 400 (''Unsupported format: '' @ ''html'') \<and>
   (\<exists>p. prompts (snd (generate_doc
     \<lparr>gemini = (\<lambda>p. Some ''# Report''), py_parse = (\<lambda>c. ParseOk), agent_files = Map.empty, fd_isfile = (\<lambda>n. False),
      stamp = ''20250101_000000'', agent_write_ok = (\<lambda>p. True)\<rparr>
     (Some (JDict [(''code'', JStr ''x = 1''), (''project_info'', JStr ''demo''), (''return_format'', JStr ''HTML'')]))
     \<lparr>saved = Map.empty, prompts = []\<rparr>)) = [] @ [p])"
proof -
  define env where "env = \<lparr>gemini = (\<lambda>p. Some ''# Report''), py_parse = (\<lambda>c. ParseOk), agent_files = Map.empty,
      fd_isfile = (\<lambda>n. False), stamp = ''20250101_000000'', agent_write_ok = (\<lambda>p. True)\<rparr>"
  define d where "d = [(''code'', JStr ''x = 1''), (''project_info'', JStr ''demo''), (''return_format'', JStr ''HTML'')]"
  have h: "json_get d ''return_format'' (JStr ''pdf'') = JStr ''HTML''"
    "py_lower ''HTML'' \<notin> {''markdown'', ''pdf'', ''docx'', ''text''}"
    unfolding d_def by code_simp+
  have e: "fst (generate_doc env (Some (JDict d)) \<lparr>saved = Map.empty, prompts = []\<rparr>) =
           DocError 400 (''Unsupported format: '' @ ''html'')"
    unfolding env_def d_def by code_simp
  have l: "py_lower ''HTML'' = ''html''" by code_simp
  from generate_doc_unsupported_format [OF h, of env "\<lparr>saved = Map.empty, prompts = []\<rparr>"] e
  show ?thesis by (simp add: env_def d_def l)
qed

theorem narrative_for_build_witness:
  "narrative_of \<lparr>gemini = (\<lambda>p. Some '' # Report ''), py_parse = (\<lambda>c. ParseOk), agent_files = Map.empty,
      fd_isfile = (\<lambda>n. False), stamp = ''20250101_000000'', agent_write_ok = (\<lambda>p. True)\<rparr>
     \<lparr>saved = Map.empty, prompts = []\<rparr>
     (narrative_request [(''code'', JStr ''x = 1''), (''project_info'', JStr ''demo''), (''instructions'', JStr ''Shop'')]) =
   map_option py_strip (Some '' # Report '')"
proof -
  have h: "json_get [(''code'', JStr ''x = 1''), (''project_info'', JStr ''demo''), (''instructions'', JStr ''Shop'')] ''code'' JNull = JStr ''x = 1''"
    "''x = 1'' \<noteq> []"
    "\<not> json_falsy (json_get [(''code'', JStr ''x = 1''), (''project_info'', JStr ''demo''), (''instructions'', JStr ''Shop'')] ''project_info'' JNull)"
    "json_get [(''code'', JStr ''x = 1''), (''project_info'', JStr ''demo''), (''instructions'', JStr ''Shop'')] ''instructions'' JNull = JStr ''Shop''"
    by (simp_all add: json_get_def json_falsy_def)
  from narrative_for_build [OF h, of "\<lparr>gemini = (\<lambda>p. Some '' # Report ''), py_parse = (\<lambda>c. ParseOk), agent_files = Map.empty,
      fd_isfile = (\<lambda>n. False), stamp = ''20250101_000000'', agent_write_ok = (\<lambda>p. True)\<rparr>" "\<lparr>saved = Map.empty, prompts = []\<rparr>"]
  show ?thesis by simp
qed

end
