(* ===== verification/Config.thy ===== *)
theory Config
  imports Endpoints Narrative
begin

text \<open>
  Process configuration and startup of the three services: the module-level code of
  \<^verbatim>\<open>src/Service/Docbuilder.py\<close> (lines 22 to 41, 310), of \<^verbatim>\<open>src/Service/Uml.py\<close> (lines
  13 to 40, 163) and of \<^verbatim>\<open>src/Service/AiAgent.py\<close> (lines 20 to 28, 237 to 239), and the
  service URLs the DocBuilder reads from the environment at each request (lines 73, 114
  and 137).  The environment is \<^verbatim>\<open>os.environ\<close> after \<^verbatim>\<open>load_dotenv()\<close>; a startup
  that raises is \<open>None\<close>, with the file system as the statements before the raise left it.
\<close>

type_synonym environ = "string \<Rightarrow> string option"

text \<open>\<^verbatim>\<open>os.getenv(k, default)\<close> for a string default.\<close>

definition getenv :: "environ \<Rightarrow> string \<Rightarrow> string \<Rightarrow> string" where
  "getenv environ k dflt = (case environ k of None \<Rightarrow> dflt | Some v \<Rightarrow> v)"

section \<open>DocBuilder (Docbuilder.py lines 22 to 41)\<close>

record db_config =
  db_port :: int
  db_export_dir :: string
  db_diagr_dir :: string

text \<open>\<^verbatim>\<open>PORT = int(os.getenv("PORT", 5002))\<close>: the default is the integer 5002, a set
  value goes through \<^verbatim>\<open>int()\<close> and may raise; then the two directories are created.
  \<open>base_dir\<close> is \<^verbatim>\<open>os.path.dirname(__file__)\<close>.\<close>

definition docbuilder_startup :: "environ \<Rightarrow> string \<Rightarrow> fs \<Rightarrow> db_config option \<times> fs" where
  "docbuilder_startup environ base_dir s =
     (case (case environ ''PORT'' of None \<Rightarrow> Some 5002 | Some v \<Rightarrow> py_int_str v) of
        None \<Rightarrow> (None, s)
      | Some port \<Rightarrow>
          (let export_dir = os_path_join base_dir ''exports'';
               diagr_dir = os_path_join export_dir ''diagrams'' in
           (Some \<lparr>db_port = port, db_export_dir = export_dir, db_diagr_dir = diagr_dir\<rparr>,
            fs_makedirs diagr_dir (fs_makedirs export_dir s))))"

text \<open>The collaborators' URLs, read at each request (lines 73 and 137, line 114).\<close>

definition uml_agent_url :: "environ \<Rightarrow> string" where
  "uml_agent_url environ = getenv environ ''UML_AGENT_URL'' ''https://umlgenerator.onrender.com'' @ ''/generate-uml-image''"

definition parent_agent_url :: "environ \<Rightarrow> string" where
  "parent_agent_url environ = getenv environ ''PARENT_AGENT_URL'' ''https://aiagent-xyq4.onrender.com'' @ ''/generate-doc''"

section \<open>UML agent (Uml.py lines 13 to 40)\<close>

text \<open>The module's statements in order, as they run once the stray line 42 is removed:
  the static directory is created (line 21) before the API key is checked (line 36), so
  a start without a key still leaves the directory behind.  The agent then listens on
  the fixed port 5001 (line 163).\<close>

definition uml_startup :: "environ \<Rightarrow> (bytes \<Rightarrow> bytes) \<Rightarrow> fs \<Rightarrow> (uml_config \<times> string) option \<times> fs" where
  "uml_startup environ compress_fn s =
     (let docbuilder_url = getenv environ ''DOCBUILDER_URL'' ''http://localhost:5002'';
          static = getenv environ ''STATIC_DIR'' ''static'';
          s1 = fs_makedirs static s in
      if environ ''GEMINI_API_KEY'' = None \<or> environ ''GEMINI_API_KEY'' = Some [] then (None, s1)
      else (Some (\<lparr>static_dir = static, compress = compress_fn\<rparr>, docbuilder_url), s1))"

definition UML_PORT :: int where
  "UML_PORT = 5001"

text \<open>Where the agent pushes its images (line 134).\<close>

definition ingest_url :: "string \<Rightarrow> string" where
  "ingest_url docbuilder_url = docbuilder_url @ ''/ingest-diagram''"

section \<open>Narrative agent (AiAgent.py lines 26 to 28 and 237 to 239)\<close>

text \<open>The key check that runs at import (lines 26 to 28).\<close>

definition gemini_configured :: "environ \<Rightarrow> bool" where
  "gemini_configured environ \<longleftrightarrow> environ ''GEMINI_API_KEY'' \<noteq> None \<and> environ ''GEMINI_API_KEY'' \<noteq> Some []"

text \<open>Lines 237 to 239: \<^verbatim>\<open>int(os.environ["PORT"])\<close> raises when \<open>PORT\<close> is unset (there
  is no default) or not an integer.\<close>

definition agent_startup :: "environ \<Rightarrow> int option" where
  "agent_startup environ =
     (if \<not> gemini_configured environ then None
      else case environ ''PORT'' of None \<Rightarrow> None | Some v \<Rightarrow> py_int_str v)"

section \<open>Properties\<close>

text \<open>C19. The default configuration is consistent where it matters for the push of
  diagrams: without \<open>PORT\<close> and \<open>DOCBUILDER_URL\<close> the DocBuilder starts on port 5002 and a
  UML agent that starts pushes to \<^verbatim>\<open>/ingest-diagram\<close> at localhost on that port, while
  the narrative agent, which has no default port, refuses to start.\<close>

theorem startup_defaults:
  assumes "environ ''PORT'' = None" and "environ ''DOCBUILDER_URL'' = None"
    and "uml_startup environ compress_fn s = (Some (cfg, url), s')"
  shows "\<exists>c. fst (docbuilder_startup environ base_dir s0) = Some c \<and> db_port c = 5002 \<and>
           ingest_url url = ''http://localhost:'' @ str_int (db_port c) @ ''/ingest-diagram'' \<and>
           agent_startup environ = None"
proof -
  have "url = ''http://localhost:5002''"
    using assms(2,3) by (auto simp: uml_startup_def getenv_def Let_def split: if_splits)
  moreover have "str_nat 5002 = ''5002''" by code_simp
  ultimately show ?thesis
    using assms(1)
    by (simp add: docbuilder_startup_def agent_startup_def gemini_configured_def ingest_url_def str_int_def Let_def)
qed

section \<open>Witnesses\<close>

theorem startup_defaults_witness:
  "\<exists>c. fst (docbuilder_startup (\<lambda>k. if k = ''GEMINI_API_KEY'' then Some ''key'' else None) ''/srv''
            \<lparr>files = Map.empty, dirs = {}\<rparr>) = Some c \<and> db_port c = 5002 \<and>
     ingest_url ''http://localhost:5002'' = ''http://localhost:'' @ str_int (db_port c) @ ''/ingest-diagram'' \<and>
     agent_startup (\<lambda>k. if k = ''GEMINI_API_KEY'' then Some ''key'' else None) = None"
proof -
  have "uml_startup (\<lambda>k. if k = ''GEMINI_API_KEY'' then Some ''key'' else None) id \<lparr>files = Map.empty, dirs = {}\<rparr> =
        (Some (\<lparr>static_dir = ''static'', compress = id\<rparr>, ''http://localhost:5002''),
         fs_makedirs ''static'' \<lparr>files = Map.empty, dirs = {}\<rparr>)"
    by (simp add: uml_startup_def getenv_def Let_def)
  from startup_defaults [OF _ _ this, of "''/srv''" "\<lparr>files = Map.empty, dirs = {}\<rparr>"] show ?thesis by simp
qed

end
