(* ===== verification/Spec2Isabelle.thy ===== *)
theory Spec2Isabelle
  imports Config
begin

text \<open>
  \<^bold>\<open>DocuAgent: a verification development of the diagram pipeline and the build protocol.\<close>

  \<^bold>\<open>The program.\<close>  Three Flask services under \<^verbatim>\<open>src/Service\<close>:
  \<^item> \<^verbatim>\<open>AiAgent.py\<close>, the narrative service (\<^verbatim>\<open>POST /generate-doc\<close>): asks a language
    model for a Markdown report;
  \<^item> \<^verbatim>\<open>Uml.py\<close>, the UML agent (\<^verbatim>\<open>POST /generate-uml-image\<close>): the Diagram Planner
    asks the model for a bulleted list of diagram types and parses it; the Diagram
    Renderer asks for PlantUML source per type, extracts every fenced block, encodes it
    with the Text-Encoder \<^verbatim>\<open>plantuml_encode\<close>, fetches the image from the public
    PlantUML server, saves it and pushes it to the Ingestion endpoint;
  \<^item> \<^verbatim>\<open>Docbuilder.py\<close>, the Build Orchestrator (\<^verbatim>\<open>POST /build-document\<close>) and the
    Ingestion endpoint (\<^verbatim>\<open>POST /ingest-diagram\<close>): a build fetches the narrative,
    then asks the UML agent for diagrams under a fresh build id, and assembles a DOCX
    from the Markdown and the ingested images it finds under the build's directory.

  \<^bold>\<open>Theories.\<close>
  \<^item> \<open>Prelude\<close>: the representation of Python values (\<^typ>\<open>string\<close> over Latin-1 code
    points, bytes as \<^typ>\<open>8 word\<close>, JSON as a datatype) and the Python built-ins the
    services call (\<^verbatim>\<open>str.strip\<close>, \<^verbatim>\<open>str.splitlines\<close>, \<^verbatim>\<open>in\<close> on strings,
    \<^verbatim>\<open>str(int)\<close>, \<^verbatim>\<open>os.path.join\<close>), with the lemmas shared by the components
    (collection \<open>py_simps\<close>).
  \<^item> \<open>Encoder\<close>: \<^verbatim>\<open>plantuml_encode\<close> (\<^verbatim>\<open>Uml.py\<close> lines 43 to 54).  The group routine
    \<open>encode_group\<close>/\<open>encode_chunks\<close> is the shift-and-mask code on \<^typ>\<open>8 word\<close>;
    \<open>zlib_slice\<close> is the \<^verbatim>\<open>[2:-4]\<close> slice; \<open>utf8_encode\<close> is
    \<^verbatim>\<open>str.encode("utf-8\<close>\<^verbatim>\<open>")\<close> on Latin-1.  \<^verbatim>\<open>zlib.compress\<close> is a library the
    code only calls, so it is a parameter \<open>compress\<close>: every encoder theorem holds for
    any compressor.  Proved: the output alphabet, the output length, equivalence of the
    bitwise routine with the base-64 digits of the 24-bit group value (\<open>encode_ref\<close>),
    the round trip through a decoder up to the zero padding of the last group, the UTF-8
    round trip, and that the slice of a zlib frame is its deflate stream.
  \<^item> \<open>Planner\<close>: phase 1 of \<^verbatim>\<open>generate_uml_image\<close> (lines 67 to 88) and the
    sanitiser of line 95.  The regular expression \<^verbatim>\<open>[-*]\s*(.+?):\s*(.+)$\<close> is
    modelled by the order of Python's backtracking (\<open>try_ws\<close>, \<open>first_colon\<close>,
    \<open>regex_group2\<close>); proved: it accepts exactly the lines of the pattern's regular
    language (\<open>bullet_line\<close>), the planner returns one specification per such line and
    none for any other, each specification decomposes its line, the spec's scenario A,
    and the sanitised type is a safe file-name stem (no slash, dot or space), idempotent,
    but not injective.

  \<^item> \<open>Ingest\<close>: \<^verbatim>\<open>ingest_diagram\<close> (\<^verbatim>\<open>Docbuilder.py\<close> lines 83 to 101) over a
    file-system record (\<open>fs\<close>: files and directories); the save is an oracle
    \<open>write_ok\<close>.  Proved: the 400 answers write nothing, a valid request stores the image
    at \<^verbatim>\<open>diagrams/<build_id>/<type>_<index>.png\<close>, builds with plain ids never touch
    each other's directories, and a request with an absolute build id is stored under
    that absolute directory, outside the diagrams directory.
  \<^item> \<open>Renderer\<close>: the whole handler \<^verbatim>\<open>generate_uml_image\<close> (\<^verbatim>\<open>Uml.py\<close> lines 57 to
    160), phase 1 through the planner, phase 2 as the loops \<open>render_specs\<close> /
    \<open>render_spec\<close> / \<open>render_candidates\<close> / \<open>render_candidate\<close>, over an environment of
    oracles \<open>uml_env\<close> (model answers, fetch outcomes, local save, push delivery) indexed
    by the call's position, with the state \<open>rstate\<close>: the static directory, the trace of
    outbound calls, and the DocBuilder's state reached through an interface parameter
    \<open>ingest\<close> over a type variable.  The fenced-block scan \<^verbatim>\<open>re.findall\<close> is
    \<open>extract_plantuml\<close>.  Proved: failure isolation (the answer is exactly
    \<open>expected_diagrams\<close>, the candidates whose fetch, content check and save succeed, in
    order), every non-completed answer is free of effects, one diagram per push and no
    more pushes than fetches, every extracted candidate gets its fetch whatever the
    others do, extracted blocks never contain a fence and a well-formed block is
    extracted verbatim, and the answer and effects do
    not depend on the \<^verbatim>\<open>instructions\<close> field, which is read but never used.  \<open>uml_reach\<close> is the
    inductive set of the agent's states over any sequence of requests; by rule induction
    every reachable static directory holds only \<^verbatim>\<open>*.png\<close> files directly inside it
    (\<open>static_inv\<close>).
  \<^item> \<open>Orchestrator\<close>: \<^verbatim>\<open>build_document\<close> and \<^verbatim>\<open>sanitize_image\<close> (\<^verbatim>\<open>Docbuilder.py\<close>
    lines 44 to 56 and 104 to 297).  The document is its list of \<open>block\<close>s; the oracles
    \<open>build_env\<close> give the uuid, the narrative answer, PIL conversion, file writes,
    picture embedding, the DOCX size, PDF conversion and the clock; the state
    \<open>bstate\<close> is the DocBuilder's file system, the saved documents and the outbound
    calls.  The UML agent is a parameter \<open>uml\<close>; \<open>uml_service\<close> instantiates it with
    \<open>generate_uml_image\<close> pushing to \<open>ingest_diagram\<close>.  Proved: a failed narrative stops
    the build before the UML agent is asked, a failed UML agent never stops it, the
    diagrams section lists one titled heading per reported diagram in order, a picture
    is embedded exactly when the file is there and converts, fenced Markdown becomes
    verbatim code paragraphs shaded by \<^verbatim>\<open>set_shading_for_paragraph\<close> (lines 58 to 65;
    a paragraph's properties are a list of the nested datatype \<open>xml\<close>).
    The spec's per-build state machine is the inductive \<open>build_step\<close>, and its
    labelled form \<open>ev_step\<close> / \<open>spec_run\<close> has as transitions the events a run
    shows (\<open>run_events\<close>: the narrative request, the narrative service's actual outcome,
    the request to the UML agent, the answer); every run of \<open>build_document\<close> on a JSON
    object produces a run of that machine to a terminal phase.
  \<^item> \<open>Narrative\<close>: \<^verbatim>\<open>generate_doc\<close> with \<^verbatim>\<open>parse_code\<close>, \<^verbatim>\<open>call_gemini\<close> and the
    PDF/DOCX generators (\<^verbatim>\<open>AiAgent.py\<close> lines 85 to 235), over the oracles
    \<open>agent_env\<close> (Gemini, \<^verbatim>\<open>ast.parse\<close>, the server's files, the timestamp) with
    the state \<open>agent_state\<close> (saved text files, prompts sent); the module constant
    \<^verbatim>\<open>DEFAULT_INSTRUCTIONS\<close> is written out.  \<open>narrative_of\<close> is the
    service as the DocBuilder's \<open>narrative\<close> oracle.  Proved: the Markdown a build
    receives is the model's stripped answer to the prompt made of the build request's
    fields, the PDF holds the lines
    in pages of 51 inside the margins, \<^verbatim>\<open>int(str(i)) = i\<close> for the page coercion,
    requests without code or project description are refused before the model call,
    an unsupported return format is refused only after it, a
    \<^verbatim>\<open>file_path\<close> sends any server file to the model, and a build request without
    string instructions always fails, against the spec.
  \<^item> \<open>Endpoints\<close>: the proxy \<^verbatim>\<open>proxy_uml\<close> (\<^verbatim>\<open>Docbuilder.py\<close> lines 68 to 80), the
    route \<^verbatim>\<open>download_file\<close> (lines 300 to 305), and the DocBuilder as one service:
    \<open>docbuilder_step\<close> dispatches a request (\<open>db_request\<close>: ingest, build, download,
    proxy) to its handler on \<open>bstate\<close>, and \<open>db_reach\<close> is the inductive set of the
    states of a run.  Proved: the proxy, composed with the UML agent (\<open>agent_post\<close>),
    relays the agent's answer to the same request; a download serves only an existing
    file directly inside the export directory; and an output a build reports stays
    downloadable through every later request (rule induction over \<open>db_reach\<close>);
    two builds in the same second report the same DOCX name, and a second build whose
    PDF conversion fails reports the first build's PDF.
  \<^item> \<open>Config\<close>: the module-level configuration and startup of the three services over
    an environment map (\<^verbatim>\<open>os.environ\<close> after \<^verbatim>\<open>load_dotenv\<close>): ports, directories,
    the collaborators' URLs, the API-key checks.  Proved: without \<open>PORT\<close> and
    \<open>DOCBUILDER_URL\<close>, the UML agent's push target is the DocBuilder's default port,
    and the narrative agent refuses to start.
  \<^item> This theory: the composition of the services.  \<open>all_rendered\<close> lists the reported
    candidates with their positions and bytes and \<open>entry_write\<close> the Ingestion write
    each one causes; the end-to-end theorem states that, for distinct file names and a
    fresh build directory, the DocBuilder holds a reported diagram's image exactly when
    its push was delivered and stored; when reported candidates share a file name (two
    types with the same sanitised name), the file holds the bytes of the last one
    delivered; and a whole build through the DocBuilder, the agent and the Ingestion
    endpoint reports one diagram and one document heading per rendered candidate only,
    so a candidate that failed to render leaves no heading (the spec's scenario B, the
    witness of that theorem, expects one).

  \<^bold>\<open>Bounds and fuel.\<close>  No fuel is used: every loop of the code is a structural
  recursion over a finite list (lines, specifications, blocks, candidates, bytes), and
  the two scans over a string (\<open>splitlines\<close>, \<open>extract_plantuml\<close>) terminate by the
  measure \<open>length\<close> (their \<open>termination\<close> proofs).  Runs of the services are unbounded sequences of
  requests, described by the inductive sets \<open>uml_reach\<close> and \<open>db_reach\<close>.  Integers are unbounded as in Python; bytes are \<^typ>\<open>8 word\<close>.

  \<^bold>\<open>Not modelled.\<close>  The \<^verbatim>\<open>send_file\<close> transfer itself; Flask routing and
  JSON transport (requests are parsed JSON values, answers constructors of a reply
  type); the DOCX/PDF/PPTX libraries beyond the list of blocks, the shading element of
  code paragraphs (\<^verbatim>\<open>set_shading_for_paragraph\<close>) and the canvas operations; fonts,
  sizes, spacing and the footer; logging and time (clocks are oracles); the imports; and
  the language models, zlib, PIL and Python's parser (oracles or parameters).  Python's
  \<^verbatim>\<open>str\<close> is modelled on Latin-1 code points: the two other characters of
  \<^verbatim>\<open>DEFAULT_INSTRUCTIONS\<close> are written in their UTF-8 form, which the code (strip and
  concatenation) cannot tell apart; \<^verbatim>\<open>str.title\<close> is modelled on ASCII letters.
  Approximations: \<^verbatim>\<open>os.makedirs\<close> (\<^verbatim>\<open>Docbuilder.py\<close> lines 96 and 134) always
  succeeds; the request timeouts are not modelled as durations, only as the failure
  outcomes of the oracles (\<open>None\<close>, \<open>HttpRaised\<close>); a JSON object is an association
  list read by its first entry for a key, which agrees with \<^verbatim>\<open>json.loads\<close> on objects
  without duplicate keys (the parser keeps the last); \<^verbatim>\<open>doc.add_paragraph\<close> on a
  description that is neither a string nor false is a crash (\<open>docx_text\<close> is
  \<open>None\<close>).
  \<^verbatim>\<open>Uml.py\<close> line 42 is a C-style comment that Python rejects: the module as
  written does not load, and the model is that of the module without it.
\<close>


section \<open>The UML agent pushing to the DocBuilder\<close>

text \<open>Every candidate the renderer reports, with its specification number, its block
  number and the image bytes it fetched (\<open>all_rendered\<close>, in the order of
  \<open>expected_diagrams\<close>), and the file each one writes into the DocBuilder's build
  directory through \<open>ingest_diagram\<close> when its push is delivered and the write
  succeeds (\<open>entry_write\<close>).\<close>

definition cand_rendered ::
  "uml_config \<Rightarrow> uml_env \<Rightarrow> nat \<Rightarrow> string \<Rightarrow> string \<Rightarrow> nat \<Rightarrow> string \<Rightarrow> (nat \<times> nat \<times> bytes \<times> diagram_entry) list" where
  "cand_rendered cfg env idx dtc desc j uml =
     (case candidate_image cfg env idx dtc j uml of None \<Rightarrow> [] | Some b \<Rightarrow> [(idx, j, b, entry_of cfg dtc desc j)])"

definition entry_write ::
  "uml_env \<Rightarrow> string \<Rightarrow> (string \<Rightarrow> bool) \<Rightarrow> string \<Rightarrow> nat \<times> nat \<times> bytes \<times> diagram_entry \<Rightarrow> (string \<times> bytes) list" where
  "entry_write env diagr_dir write_ok bid c =
     (case c of (i, k, b, e) \<Rightarrow>
       (let p = ingest_path diagr_dir bid (d_type e) (str_nat (d_index e)) in
        if push_delivered env i k \<and> write_ok p then [(p, b)] else []))"

definition spec_rendered ::
  "uml_config \<Rightarrow> uml_env \<Rightarrow> nat \<Rightarrow> string \<times> string \<Rightarrow> (nat \<times> nat \<times> bytes \<times> diagram_entry) list" where
  "spec_rendered cfg env idx spec =
     (case spec of (dtype, desc) \<Rightarrow>
       case model env idx (prompt_uml dtype desc) of
         None \<Rightarrow> []
       | Some reply \<Rightarrow>
           concat (map (\<lambda>(k, u). cand_rendered cfg env idx (dtype_clean dtype) desc k u)
                  (enumerate 1 (extract_plantuml reply))))"

definition all_rendered ::
  "uml_config \<Rightarrow> uml_env \<Rightarrow> (string \<times> string) list \<Rightarrow> (nat \<times> nat \<times> bytes \<times> diagram_entry) list" where
  "all_rendered cfg env specs = concat (map (\<lambda>(i, sp). spec_rendered cfg env i sp) (enumerate 1 specs))"

definition rendered_path :: "string \<Rightarrow> string \<Rightarrow> nat \<times> nat \<times> bytes \<times> diagram_entry \<Rightarrow> string" where
  "rendered_path diagr_dir bid c = (case c of (i, k, b, e) \<Rightarrow> ingest_path diagr_dir bid (d_type e) (str_nat (d_index e)))"

section \<open>Properties spanning the services\<close>

lemma candidate_remote_ingest:
  assumes "bid \<noteq> []"
  shows "files (candidate_remote cfg env (\<lambda>q s'. snd (ingest_diagram diagr_dir write_ok q s')) (JStr bid) idx dtc desc j u s) =
         files s ++ map_of (concat (map (entry_write env diagr_dir write_ok bid) (cand_rendered cfg env idx dtc desc j u)))"
  using assms
  by (auto simp: candidate_remote_def cand_rendered_def entry_write_def entry_of_def push_request_def
      ingest_diagram_def form_get_def form_values_def py_str_def ingest_path_def fs_makedirs_def fs_write_def
      diagram_file_name_def Let_def split: option.splits)

lemma rev_short: "length xs \<le> 1 \<Longrightarrow> rev xs = xs"
  by (cases xs) auto

lemma fold_files:
  assumes "\<And>x s. files (f x s) = files s ++ map_of (rev (g x))"
  shows "files (fold f xs s) = files s ++ map_of (rev (concat (map g xs)))"
  using assms
proof (induction xs arbitrary: s)
  case Nil
  then show ?case by simp
next
  case (Cons x xs)
  then show ?case by (simp add: map_of_append map_add_assoc)
qed

lemma cand_write_short:
  "length (concat (map (entry_write env diagr_dir write_ok bid) (cand_rendered cfg env idx dtc desc j u))) \<le> 1"
  by (simp add: cand_rendered_def entry_write_def Let_def split: option.splits)

lemma concat_map_concat: "concat (map f (concat (map g xs))) = concat (map (\<lambda>x. concat (map f (g x))) xs)"
  by (induction xs) auto

lemma spec_remote_ingest:
  assumes "bid \<noteq> []"
  shows "files (spec_remote cfg env (\<lambda>q s'. snd (ingest_diagram diagr_dir write_ok q s')) (JStr bid) i sp s) =
         files s ++ map_of (rev (concat (map (entry_write env diagr_dir write_ok bid) (spec_rendered cfg env i sp))))"
proof -
  obtain t d where sp: "sp = (t, d)" by (cases sp)
  let ?F = "\<lambda>(k, u). candidate_remote cfg env (\<lambda>q s'. snd (ingest_diagram diagr_dir write_ok q s'))
                 (JStr bid) i (dtype_clean t) d k u"
  let ?G = "\<lambda>(k, u). concat (map (entry_write env diagr_dir write_ok bid) (cand_rendered cfg env i (dtype_clean t) d k u))"
  have c: "\<And>x s. files (?F x s) = files s ++ map_of (rev (?G x))"
    by (simp add: split_def candidate_remote_ingest [OF assms] rev_short [OF cand_write_short])
  have f: "\<And>xs. files (fold ?F xs s) = files s ++ map_of (rev (concat (map ?G xs)))"
    by (rule fold_files [OF c])
  show ?thesis
  proof (cases "model env i (prompt_uml t d)")
    case None
    then show ?thesis by (simp add: sp spec_remote_def spec_rendered_def)
  next
    case (Some reply)
    then show ?thesis
      using f [of "enumerate 1 (extract_plantuml reply)"]
      by (simp add: sp spec_remote_def spec_rendered_def concat_map_concat split_def)
  qed
qed

lemma render_specs_ingest:
  assumes "bid \<noteq> []"
  shows "files (r_remote (snd (render_specs cfg env (\<lambda>q s'. snd (ingest_diagram diagr_dir write_ok q s')) (JStr bid) 1 specs st))) =
         files (r_remote st) ++ map_of (rev (concat (map (entry_write env diagr_dir write_ok bid) (all_rendered cfg env specs))))"
proof -
  let ?F = "\<lambda>(i, sp). spec_remote cfg env (\<lambda>q s'. snd (ingest_diagram diagr_dir write_ok q s')) (JStr bid) i sp"
  let ?G = "\<lambda>(i, sp). concat (map (entry_write env diagr_dir write_ok bid) (spec_rendered cfg env i sp))"
  have c: "\<And>x s. files (?F x s) = files s ++ map_of (rev (?G x))"
    by (simp add: split_def spec_remote_ingest [OF assms])
  have f: "\<And>xs s. files (fold ?F xs s) = files s ++ map_of (rev (concat (map ?G xs)))"
    by (rule fold_files [OF c])
  show ?thesis
    using f [of "enumerate 1 specs" "r_remote st"]
    by (simp add: render_specs_remote all_rendered_def concat_map_concat split_def)
qed

lemma expected_diagrams_rendered:
  "expected_diagrams cfg env specs = map (\<lambda>(i, k, b, e). e) (all_rendered cfg env specs)"
proof -
  have c: "\<And>i dtc desc k u. map (\<lambda>p. snd (snd (snd p))) (cand_rendered cfg env i dtc desc k u) =
             (case candidate_image cfg env i dtc k u of None \<Rightarrow> [] | Some _ \<Rightarrow> [entry_of cfg dtc desc k])"
    by (simp add: cand_rendered_def split: option.splits)
  have s: "\<And>i sp. map (\<lambda>p. snd (snd (snd p))) (spec_rendered cfg env i sp) = spec_entries cfg env i sp"
    by (simp add: spec_rendered_def spec_entries_def map_concat comp_def split_def c split: option.splits prod.splits)
  show ?thesis
    by (simp add: expected_diagrams_def all_rendered_def map_concat comp_def split_def s)
qed

lemma uml_request_payload:
  "request_payload (uml_request bid d) =
     Some [(''build_id'', JStr bid), (''abstract'', json_get d ''abstract'' (JStr [])),
           (''instructions'', json_get d ''uml_instructions'' (JStr []))]"
  by (simp add: request_payload_def uml_request_def json_falsy_def)

theorem uml_service_completed:
  assumes "bid \<noteq> []"
    and "json_get d ''abstract'' (JStr []) = JStr a" and "json_get d ''uml_instructions'' (JStr []) = JStr ins"
    and "model env 0 (prompt_list (py_strip a)) = Some reply"
    and "parse_specs (py_strip reply) \<noteq> []"
  shows "fst (uml_service cfg env ust diagr_dir write_ok (uml_request bid d) s) =
           uml_http (UmlCompleted (map (\<lambda>(i, k, b, e). e) (all_rendered cfg env (parse_specs (py_strip reply))))) \<and>
         files (snd (uml_service cfg env ust diagr_dir write_ok (uml_request bid d) s)) =
           files s ++ map_of (rev (concat (map (entry_write env diagr_dir write_ok bid)
                                            (all_rendered cfg env (parse_specs (py_strip reply))))))"
proof -
  let ?p = "[(''build_id'', JStr bid), (''abstract'', json_get d ''abstract'' (JStr [])),
             (''instructions'', json_get d ''uml_instructions'' (JStr []))]"
  let ?ing = "\<lambda>q s'. snd (ingest_diagram diagr_dir write_ok q s')"
  let ?st = "\<lparr>r_static = ust, r_calls = [], r_remote = s\<rparr>"
  have f1: "stripped_field ?p ''abstract'' = Some (py_strip a)"
    using assms(2) by (simp add: stripped_field_def json_get_def)
  have f2: "stripped_field ?p ''instructions'' = Some (py_strip ins)"
    using assms(3) by (simp add: stripped_field_def json_get_def)
  have g: "generate_uml_image cfg env ?ing (Some (uml_request bid d)) ?st =
           (let R = render_specs cfg env ?ing (json_get ?p ''build_id'' (JStr ''default'')) 1
                      (parse_specs (py_strip reply)) (log_call (CallModel 0) ?st) in
            (UmlCompleted (fst R), snd R))"
    by (rule generate_uml_image_completed [OF uml_request_payload f1 f2 assms(4,5)])
  have b: "json_get ?p ''build_id'' (JStr ''default'') = JStr bid" by (simp add: json_get_def)
  have r1: "fst (uml_service cfg env ust diagr_dir write_ok (uml_request bid d) s) =
             uml_http (UmlCompleted (expected_diagrams cfg env (parse_specs (py_strip reply))))"
    by (simp add: uml_service_def g b Let_def split_def render_specs_entries expected_diagrams_def)
  have r2: "files (snd (uml_service cfg env ust diagr_dir write_ok (uml_request bid d) s)) =
           files s ++ map_of (rev (concat (map (entry_write env diagr_dir write_ok bid)
                                            (all_rendered cfg env (parse_specs (py_strip reply))))))"
    using render_specs_ingest [OF assms(1), of cfg env diagr_dir write_ok "parse_specs (py_strip reply)"
            "log_call (CallModel 0) ?st"]
    by (simp add: uml_service_def g b Let_def split_def log_call_def)
  show ?thesis using r1 r2 by (simp add: expected_diagrams_rendered)
qed

lemma entry_write_eq:
  "entry_write env diagr_dir write_ok bid (i, k, b, e) =
     (if push_delivered env i k \<and> write_ok (rendered_path diagr_dir bid (i, k, b, e))
      then [(rendered_path diagr_dir bid (i, k, b, e), b)] else [])"
  by (simp add: entry_write_def rendered_path_def Let_def)

lemma entry_writes_keys:
  "set (map fst (concat (map (entry_write env diagr_dir write_ok bid) R))) \<subseteq> set (map (rendered_path diagr_dir bid) R) \<and>
   (distinct (map (rendered_path diagr_dir bid) R) \<longrightarrow>
      distinct (map fst (concat (map (entry_write env diagr_dir write_ok bid) R))))"
proof (induction R)
  case Nil
  then show ?case by simp
next
  case (Cons c R)
  obtain i k b e where c: "c = (i, k, b, e)" by (cases c) auto
  then show ?case using Cons by (auto simp: entry_write_eq)
qed

lemma map_of_rev_distinct: "distinct (map fst xs) \<Longrightarrow> map_of (rev xs) = map_of xs"
proof (induction xs)
  case Nil
  then show ?case by simp
next
  case (Cons x xs)
  then show ?case
    by (cases x) (auto simp: map_of_append fun_eq_iff map_add_def image_iff split: option.splits
        dest: map_of_SomeD weak_map_of_SomeI)
qed

lemma entry_writes_lookup:
  assumes "(i, k, b, e) \<in> set R" and "distinct (map (rendered_path diagr_dir bid) R)"
  shows "map_of (concat (map (entry_write env diagr_dir write_ok bid) R)) (rendered_path diagr_dir bid (i, k, b, e)) =
         (if push_delivered env i k \<and> write_ok (rendered_path diagr_dir bid (i, k, b, e)) then Some b else None)"
  using assms
proof (induction R)
  case Nil
  then show ?case by simp
next
  case (Cons c R)
  obtain i' k' b' e' where c: "c = (i', k', b', e')" by (cases c) auto
  show ?case
  proof (cases "c = (i, k, b, e)")
    case True
    have "rendered_path diagr_dir bid (i, k, b, e) \<notin> set (map fst (concat (map (entry_write env diagr_dir write_ok bid) R)))"
      using Cons.prems(2) True entry_writes_keys [of env diagr_dir write_ok bid R] by auto
    then have "map_of (concat (map (entry_write env diagr_dir write_ok bid) R)) (rendered_path diagr_dir bid (i, k, b, e)) = None"
      by (simp add: map_of_eq_None_iff)
    then show ?thesis using True by (simp add: entry_write_eq)
  next
    case False
    then have inR: "(i, k, b, e) \<in> set R" using Cons.prems(1) by simp
    have ne: "rendered_path diagr_dir bid c \<noteq> rendered_path diagr_dir bid (i, k, b, e)"
      using Cons.prems(2) inR by auto
    have "map_of (concat (map (entry_write env diagr_dir write_ok bid) (c # R))) (rendered_path diagr_dir bid (i, k, b, e)) =
          map_of (concat (map (entry_write env diagr_dir write_ok bid) R)) (rendered_path diagr_dir bid (i, k, b, e))"
      using ne by (simp add: c entry_write_eq)
    then show ?thesis using Cons.IH inR Cons.prems(2) by simp
  qed
qed

text \<open>C7. End to end, for diagrams whose file names are distinct and a fresh build directory:
  after the UML agent has answered, the DocBuilder holds the image of a reported diagram,
  under the name the diagrams section looks for, exactly when the agent's push of that
  diagram was delivered and the Ingestion write succeeded; and it holds the very bytes
  the agent fetched for it.\<close>

theorem docbuilder_file_iff_pushed:
  assumes "bid \<noteq> []"
    and "json_get d ''abstract'' (JStr []) = JStr a" and "json_get d ''uml_instructions'' (JStr []) = JStr ins"
    and "model env 0 (prompt_list (py_strip a)) = Some reply"
    and "parse_specs (py_strip reply) \<noteq> []"
    and "(i, k, b, e) \<in> set (all_rendered cfg env (parse_specs (py_strip reply)))"
    and "distinct (map (rendered_path diagr_dir bid) (all_rendered cfg env (parse_specs (py_strip reply))))"
    and "files s (rendered_path diagr_dir bid (i, k, b, e)) = None"
  shows "files (snd (uml_service cfg env ust diagr_dir write_ok (uml_request bid d) s)) (rendered_path diagr_dir bid (i, k, b, e)) =
         (if push_delivered env i k \<and> write_ok (rendered_path diagr_dir bid (i, k, b, e)) then Some b else None)"
proof -
  let ?R = "all_rendered cfg env (parse_specs (py_strip reply))"
  let ?W = "concat (map (entry_write env diagr_dir write_ok bid) ?R)"
  have f: "files (snd (uml_service cfg env ust diagr_dir write_ok (uml_request bid d) s)) = files s ++ map_of (rev ?W)"
    using uml_service_completed [OF assms(1-5)] by blast
  have "distinct (map fst ?W)" using entry_writes_keys assms(7) by blast
  then have "map_of (rev ?W) = map_of ?W" by (rule map_of_rev_distinct)
  then show ?thesis
    using f entry_writes_lookup [OF assms(6,7)] assms(8)
    by (simp add: map_add_def split: option.splits)
qed

lemma map_of_rev_last:
  assumes "k \<notin> set (map fst ys)"
  shows "map_of (rev (xs @ (k, v) # ys)) k = Some v"
proof -
  have "map_of (rev ys) k = None" using assms by (simp add: map_of_eq_None_iff)
  then show ?thesis by (simp add: map_of_append map_add_def)
qed

text \<open>C37. Reported diagrams are not checked for distinct file names: when several reported
  candidates share the file name in the build directory (two planned types that
  sanitise to the same name, such as \<^verbatim>\<open>Class Diagram\<close> and \<^verbatim>\<open>(Class Diagram)\<close>),
  the DocBuilder ends up holding the bytes of the last of them whose push was delivered
  and written, so the earlier candidates' images are lost and the document shows the
  last image under all their headings.\<close>

theorem dtype_collision_overwrites:
  assumes "bid \<noteq> []"
    and "json_get d ''abstract'' (JStr []) = JStr a" and "json_get d ''uml_instructions'' (JStr []) = JStr ins"
    and "model env 0 (prompt_list (py_strip a)) = Some reply"
    and "parse_specs (py_strip reply) \<noteq> []"
    and "all_rendered cfg env (parse_specs (py_strip reply)) = pre @ (i, k, b, e) # post"
    and "push_delivered env i k" and "write_ok (rendered_path diagr_dir bid (i, k, b, e))"
    and "rendered_path diagr_dir bid (i, k, b, e) \<notin> set (map (rendered_path diagr_dir bid) post)"
  shows "files (snd (uml_service cfg env ust diagr_dir write_ok (uml_request bid d) s))
           (rendered_path diagr_dir bid (i, k, b, e)) = Some b"
proof -
  let ?p = "rendered_path diagr_dir bid (i, k, b, e)"
  let ?ew = "entry_write env diagr_dir write_ok bid"
  have f: "files (snd (uml_service cfg env ust diagr_dir write_ok (uml_request bid d) s)) =
           files s ++ map_of (rev (concat (map ?ew pre) @ (?p, b) # concat (map ?ew post)))"
    using uml_service_completed [OF assms(1-5)] assms(6-8) by (simp add: entry_write_eq)
  have "?p \<notin> set (map fst (concat (map ?ew post)))"
    using entry_writes_keys [of env diagr_dir write_ok bid post] assms(9) by blast
  then have "map_of (rev (concat (map ?ew pre) @ (?p, b) # concat (map ?ew post))) ?p = Some b"
    by (rule map_of_rev_last)
  then show ?thesis using f by (simp add: map_add_def)
qed


text \<open>C16. Through the whole system (the DocBuilder calling the UML agent, which pushes to
  the Ingestion endpoint), a build whose narrative and plan succeed reports one diagram per
  candidate the renderer rendered, and the level-2 headings of the saved document are the
  titles of exactly those candidates, in order: a PlantUML block whose rendering failed
  leaves no heading, whereas the spec's scenario B expects it to keep its heading and
  description without an image.\<close>

theorem build_headings_rendered_only:
  assumes "narrative benv (narrative_request d) = Some raw" and "py_strip raw \<noteq> []"
    and "project_title d = Some title" and "new_uuid benv \<noteq> []"
    and "json_get d ''abstract'' (JStr []) = JStr a" and "json_get d ''uml_instructions'' (JStr []) = JStr ins"
    and "model env 0 (prompt_list (py_strip a)) = Some reply"
    and "parse_specs (py_strip reply) \<noteq> []"
    and "file_ok benv (os_path_join export_dir (combined_name (now benv) ''.docx''))"
  shows "\<exists>pdf pptx st' section.
           build_document export_dir benv (uml_service cfg env ust diagr_dir write_ok) (Some (JDict d)) st =
             (BuildOk (length (all_rendered cfg env (parse_specs (py_strip reply))))
                (Some (combined_name (now benv) ''.docx'')) pdf pptx, st') \<and>
           b_docs st' (os_path_join export_dir (combined_name (now benv) ''.docx'')) =
             Some (cover_blocks title @ md_blocks False (splitlines raw) @ section) \<and>
           filter heading2 section =
             map (\<lambda>(i, k, b, e). DHeading 2 (diagram_title (d_type e))) (all_rendered cfg env (parse_specs (py_strip reply)))"
proof -
  let ?R = "all_rendered cfg env (parse_specs (py_strip reply))"
  let ?S = "fs_makedirs (os_path_join (os_path_join export_dir ''diagrams'') (new_uuid benv)) (b_fs st)"
  have "fst (uml_service cfg env ust diagr_dir write_ok (uml_request (new_uuid benv) d) ?S) =
        uml_http (UmlCompleted (map (\<lambda>(i, k, b, e). e) ?R))"
    using uml_service_completed [OF assms(4-8)] by blast
  then have "diagram_specs (fst (uml_service cfg env ust diagr_dir write_ok (uml_request (new_uuid benv) d) ?S)) =
             JList (map entry_json (map (\<lambda>(i, k, b, e). e) ?R))"
    by (simp add: diagram_specs_completed)
  from build_document_entries [where uml = "uml_service cfg env ust diagr_dir write_ok", OF assms(1-3) this assms(9)]
  show ?thesis by (simp add: comp_def split_def)
qed

section \<open>Witnesses\<close>

theorem docbuilder_file_iff_pushed_witness:
  "files (snd (uml_service \<lparr>static_dir = ''static'', compress = id\<rparr>
      \<lparr>model = (\<lambda>i p. if i = 0 then Some (''- Class: the classes'' @ [CHR 0x0A] @ ''- Sequence: the calls'')
                        else Some (''```plantuml A -> B'' @ [char_of (48 + i)] @ ''```'')),
         fetch = (\<lambda>i j u. FetchResponse 200 (Some ''image/png'') [of_nat i]),
         save_ok = (\<lambda>p. True), push_delivered = (\<lambda>i j. True)\<rparr>
      \<lparr>files = Map.empty, dirs = {}\<rparr> ''diagrams'' (\<lambda>p. True) (uml_request ''b1'' [(''abstract'', JStr ''A shop'')]) \<lparr>files = Map.empty, dirs = {}\<rparr>))
     (rendered_path ''diagrams'' ''b1'' (1, 1, [1], \<lparr>d_type = ''Class'', d_desc = ''the classes'', d_index = 1, d_path = ''static/Class_1.png''\<rparr>)) = Some [1]"
proof -
  define cfg where "cfg = \<lparr>static_dir = ''static'', compress = id\<rparr>"
  define env where "env = \<lparr>model = (\<lambda>i p. if i = 0 then Some (''- Class: the classes'' @ [CHR 0x0A] @ ''- Sequence: the calls'')
                      else Some (''```plantuml A -> B'' @ [char_of (48 + i)] @ ''```'')),
       fetch = (\<lambda>i j u. FetchResponse 200 (Some ''image/png'') [of_nat i]),
       save_ok = (\<lambda>p. True), push_delivered = (\<lambda>i j. True)\<rparr>"
  define reply where "reply = ''- Class: the classes'' @ [CHR 0x0A] @ ''- Sequence: the calls''"
  define c where "c = (1 :: nat, 1 :: nat, [1 :: byte], \<lparr>d_type = ''Class'', d_desc = ''the classes'', d_index = 1, d_path = ''static/Class_1.png''\<rparr>)"
  have h2: "json_get [(''abstract'', JStr ''A shop'')] ''abstract'' (JStr []) = JStr ''A shop''"
    by (simp add: json_get_def)
  have h3: "json_get [(''abstract'', JStr ''A shop'')] ''uml_instructions'' (JStr []) = JStr []"
    by (simp add: json_get_def)
  have h4: "model env 0 (prompt_list (py_strip ''A shop'')) = Some reply" by (simp add: env_def reply_def)
  have h5: "parse_specs (py_strip reply) \<noteq> []" unfolding reply_def by code_simp
  have h6: "c \<in> set (all_rendered cfg env (parse_specs (py_strip reply)))"
    unfolding c_def cfg_def env_def reply_def by code_simp
  have h7: "distinct (map (rendered_path ''diagrams'' ''b1'') (all_rendered cfg env (parse_specs (py_strip reply))))"
    unfolding cfg_def env_def reply_def by code_simp
  have h8: "files \<lparr>files = Map.empty, dirs = {}\<rparr> (rendered_path ''diagrams'' ''b1'' c) = None" by simp
  from docbuilder_file_iff_pushed [OF _ h2 h3 h4 h5 h6 [unfolded c_def] h7 h8 [unfolded c_def],
      of "\<lparr>files = Map.empty, dirs = {}\<rparr>" "\<lambda>p. True"]
  show ?thesis by (simp add: env_def cfg_def)
qed


theorem build_headings_rendered_only_witness:
  "\<exists>pdf pptx st' section.
     build_document ''exports''
       \<lparr>new_uuid = ''u1'', narrative = (\<lambda>j. Some ''# Report''), pil_convert = (\<lambda>b. Some b),
        file_ok = (\<lambda>p. True), embed_ok = (\<lambda>p. True), docx_size = (\<lambda>d. 2000), pdf_ok = True, now = 17\<rparr>
       (uml_service \<lparr>static_dir = ''static'', compress = id\<rparr>
          \<lparr>model = (\<lambda>i p. if i = 0 then Some ''- Class Diagram: shows classes''
                          else Some (''```plantuml A -> B```'' @ [CHR 0x0A] @ ''```plantuml B -> C```'')),
           fetch = (\<lambda>i j u. if j = 1 then FetchResponse 500 None [] else FetchResponse 200 (Some ''image/png'') [7]),
           save_ok = (\<lambda>p. True), push_delivered = (\<lambda>i j. True)\<rparr>
          \<lparr>files = Map.empty, dirs = {}\<rparr> (os_path_join ''exports'' ''diagrams'') (\<lambda>p. True))
       (Some (JDict [(''abstract'', JStr ''A shop''), (''instructions'', JStr ''Shop report'')]))
       \<lparr>b_fs = \<lparr>files = Map.empty, dirs = {}\<rparr>, b_docs = Map.empty, b_calls = []\<rparr> =
       (BuildOk 1 (Some ''combined_17.docx'') pdf pptx, st') \<and>
     b_docs st' ''exports/combined_17.docx'' =
       Some (cover_blocks ''Shop report'' @ md_blocks False (splitlines ''# Report'') @ section) \<and>
     filter heading2 section = [DHeading 2 (diagram_title ''Class_Diagram'')]"
proof -
  define cfg where "cfg = \<lparr>static_dir = ''static'', compress = id\<rparr>"
  define env where "env = \<lparr>model = (\<lambda>i p. if i = 0 then Some ''- Class Diagram: shows classes''
                          else Some (''```plantuml A -> B```'' @ [CHR 0x0A] @ ''```plantuml B -> C```'')),
           fetch = (\<lambda>i j u. if j = 1 then FetchResponse 500 None [] else FetchResponse 200 (Some ''image/png'') [7]),
           save_ok = (\<lambda>p. True), push_delivered = (\<lambda>i j. True)\<rparr>"
  define benv where "benv = \<lparr>new_uuid = ''u1'', narrative = (\<lambda>j. Some ''# Report''), pil_convert = (\<lambda>b. Some b),
        file_ok = (\<lambda>p. True), embed_ok = (\<lambda>p. True), docx_size = (\<lambda>d. 2000), pdf_ok = True, now = 17\<rparr>"
  define d where "d = [(''abstract'', JStr ''A shop''), (''instructions'', JStr ''Shop report'')]"
  define reply where "reply = ''- Class Diagram: shows classes''"
  have h1: "narrative benv (narrative_request d) = Some ''# Report''" by (simp add: benv_def)
  have h2: "py_strip ''# Report'' \<noteq> []" by code_simp
  have h3: "project_title d = Some ''Shop report''" unfolding d_def by code_simp
  have h4: "new_uuid benv \<noteq> []" by (simp add: benv_def)
  have h5: "json_get d ''abstract'' (JStr []) = JStr ''A shop''" by (simp add: d_def json_get_def)
  have h6: "json_get d ''uml_instructions'' (JStr []) = JStr []" by (simp add: d_def json_get_def)
  have h7: "model env 0 (prompt_list (py_strip ''A shop'')) = Some reply" by (simp add: env_def reply_def)
  have h8: "parse_specs (py_strip reply) \<noteq> []" unfolding reply_def by code_simp
  have h9: "file_ok benv (os_path_join ''exports'' (combined_name (now benv) ''.docx''))" by (simp add: benv_def)
  have r: "all_rendered cfg env (parse_specs (py_strip reply)) =
           [(1, 2, [7], \<lparr>d_type = ''Class_Diagram'', d_desc = ''shows classes'', d_index = 2,
                          d_path = ''static/Class_Diagram_2.png''\<rparr>)]"
    unfolding cfg_def env_def reply_def by code_simp
  have c: "combined_name 17 ''.docx'' = ''combined_17.docx''" by code_simp
  have p: "os_path_join ''exports'' ''combined_17.docx'' = ''exports/combined_17.docx''" by code_simp
  from build_headings_rendered_only [OF h1 h2 h3 h4 h5 h6 h7 h8 h9,
      of cfg "\<lparr>files = Map.empty, dirs = {}\<rparr>" "os_path_join ''exports'' ''diagrams''" "\<lambda>p. True"
         "\<lparr>b_fs = \<lparr>files = Map.empty, dirs = {}\<rparr>, b_docs = Map.empty, b_calls = []\<rparr>", unfolded r]
  show ?thesis by (simp add: c p benv_def env_def cfg_def d_def)
qed


theorem dtype_collision_overwrites_witness:
  "files (snd (uml_service \<lparr>static_dir = ''static'', compress = id\<rparr>
      \<lparr>model = (\<lambda>i p. if i = 0 then Some (''- Class Diagram: the classes'' @ [CHR 0x0A] @ ''- (Class Diagram): the same'')
                      else Some (''```plantuml A -> B'' @ [char_of (48 + i)] @ ''```'')),
       fetch = (\<lambda>i j u. FetchResponse 200 (Some ''image/png'') [of_nat i]),
       save_ok = (\<lambda>p. True), push_delivered = (\<lambda>i j. True)\<rparr>
      \<lparr>files = Map.empty, dirs = {}\<rparr> ''diagrams'' (\<lambda>p. True)
      (uml_request ''b1'' [(''abstract'', JStr ''A shop'')]) \<lparr>files = Map.empty, dirs = {}\<rparr>))
     ''diagrams/b1/Class_Diagram_1.png'' = Some [2]"
proof -
  define cfg where "cfg = \<lparr>static_dir = ''static'', compress = id\<rparr>"
  define env where "env = \<lparr>model = (\<lambda>i p. if i = 0 then Some (''- Class Diagram: the classes'' @ [CHR 0x0A] @ ''- (Class Diagram): the same'')
                      else Some (''```plantuml A -> B'' @ [char_of (48 + i)] @ ''```'')),
       fetch = (\<lambda>i j u. FetchResponse 200 (Some ''image/png'') [of_nat i]),
       save_ok = (\<lambda>p. True), push_delivered = (\<lambda>i j. True)\<rparr>"
  define reply where "reply = ''- Class Diagram: the classes'' @ [CHR 0x0A] @ ''- (Class Diagram): the same''"
  define e1 where "e1 = \<lparr>d_type = ''Class_Diagram'', d_desc = ''the classes'', d_index = 1, d_path = ''static/Class_Diagram_1.png''\<rparr>"
  define e2 where "e2 = \<lparr>d_type = ''Class_Diagram'', d_desc = ''the same'', d_index = 1, d_path = ''static/Class_Diagram_1.png''\<rparr>"
  have h2: "json_get [(''abstract'', JStr ''A shop'')] ''abstract'' (JStr []) = JStr ''A shop''"
    by (simp add: json_get_def)
  have h3: "json_get [(''abstract'', JStr ''A shop'')] ''uml_instructions'' (JStr []) = JStr []"
    by (simp add: json_get_def)
  have h4: "model env 0 (prompt_list (py_strip ''A shop'')) = Some reply" by (simp add: env_def reply_def)
  have h5: "parse_specs (py_strip reply) \<noteq> []" unfolding reply_def by code_simp
  have h6: "all_rendered cfg env (parse_specs (py_strip reply)) = [(1, 1, [1], e1)] @ (2, 1, [2], e2) # []"
    unfolding cfg_def env_def reply_def e1_def e2_def by code_simp
  have h7: "push_delivered env 2 1" by (simp add: env_def)
  have p: "rendered_path ''diagrams'' ''b1'' (2, 1, [2], e2) = ''diagrams/b1/Class_Diagram_1.png''"
    unfolding e2_def by code_simp
  from dtype_collision_overwrites [where bid = "''b1''" and diagr_dir = "''diagrams''" and write_ok = "\<lambda>p. True",
      OF _ h2 h3 h4 h5 h6 h7, unfolded p]
  show ?thesis by (simp add: env_def cfg_def)
qed

end
